theory Spec2Isabelle
  imports Main
begin

section \<open>Coded concepts\<close>

text \<open>
  A coded concept is the triple (code value, coding scheme designator, meaning) that
  \<^verbatim>\<open>Code(value, scheme_designator, meaning)\<close> and
  \<^verbatim>\<open>CodedConcept(value=..., scheme_designator=..., meaning=...)\<close> build.
\<close>

record coded_concept =
  code_value :: string
  scheme_designator :: string
  meaning :: string

definition Code :: "string \<Rightarrow> string \<Rightarrow> string \<Rightarrow> coded_concept" where
  "Code v s m = \<lparr>code_value = v, scheme_designator = s, meaning = m\<rparr>"

text \<open>
  Modelled from the spec: the comparison \<^verbatim>\<open>==\<close> of two coded concepts. The classes
  \<^verbatim>\<open>CodedConcept\<close> (highdicom/sr/coding.py) and \<^verbatim>\<open>Code\<close> (pydicom) are not among the
  sources; the specification fixes "Equality/hashing by (scheme, value) only -- meaning is
  descriptive, not identifying". Every \<^verbatim>\<open>==\<close>, \<^verbatim>\<open>!=\<close> and \<^verbatim>\<open>in\<close> of the
  source on coded concepts is written with \<open>code_eq\<close> and \<open>code_in\<close>.
\<close>

definition code_eq :: "coded_concept \<Rightarrow> coded_concept \<Rightarrow> bool" where
  "code_eq a b \<longleftrightarrow> code_value a = code_value b \<and> scheme_designator a = scheme_designator b"

definition code_in :: "coded_concept \<Rightarrow> coded_concept list \<Rightarrow> bool" where
  "code_in c cs \<longleftrightarrow> list_ex (code_eq c) cs"

text \<open>
  The concept names the templates module takes from the DCM and SCT dictionaries
  (\<^verbatim>\<open>codes.DCM.ImageRegion\<close> and so on) and the one it defines itself
  (\<^verbatim>\<open>_REGION_IN_SPACE\<close>).
\<close>

definition DCM_MeasurementGroup :: coded_concept where
  "DCM_MeasurementGroup = Code ''125007'' ''DCM'' ''Measurement Group''"

definition DCM_ImageRegion :: coded_concept where
  "DCM_ImageRegion = Code ''111030'' ''DCM'' ''Image Region''"

definition DCM_VolumeSurface :: coded_concept where
  "DCM_VolumeSurface = Code ''121231'' ''DCM'' ''Volume Surface''"

definition DCM_ReferencedSegment :: coded_concept where
  "DCM_ReferencedSegment = Code ''121191'' ''DCM'' ''Referenced Segment''"

definition DCM_ReferencedSegmentationFrame :: coded_concept where
  "DCM_ReferencedSegmentationFrame = Code ''121214'' ''DCM'' ''Referenced Segmentation Frame''"

definition REGION_IN_SPACE :: coded_concept where
  "REGION_IN_SPACE = Code ''130488'' ''DCM'' ''Region in Space''"

section \<open>Content items\<close>

datatype value_type =
    CODE | TEXT | NUM | UIDREF | PNAME | IMAGE | COMPOSITE | CONTAINER
  | SCOORD | SCOORD3D | DATETIME

datatype relationship_type =
    CONTAINS | HAS_PROPERTIES | HAS_OBS_CONTEXT | HAS_ACQ_CONTEXT
  | HAS_CONCEPT_MOD | SELECTED_FROM | INFERRED_FROM

datatype graphic_type = CIRCLE | ELLIPSE | MULTIPOINT | POINT | POLYLINE

datatype graphic_type_3d =
    ELLIPSE_3D | ELLIPSOID | MULTIPOINT_3D | POINT_3D | POLYLINE_3D | POLYGON

text \<open>
  The payload of a content item, one constructor per value type. An IMAGE or COMPOSITE
  item carries the referenced SOP class and instance UID
  (\<^verbatim>\<open>ReferencedSOPSequence[0]\<close>), a SCOORD or SCOORD3D item its graphic type.
\<close>

datatype item_value =
    CodeValue coded_concept
  | TextValue string
  | NumValue int coded_concept "coded_concept option"
  | UIDRefValue string
  | PnameValue string
  | ImageValue string string
  | CompositeValue string string
  | ContainerValue
  | ScoordValue graphic_type "(int \<times> int) list"
  | Scoord3DValue graphic_type_3d "(int \<times> int \<times> int) list"
  | DateTimeValue string

text \<open>
  A content item: concept name, relationship to its parent, payload, the template
  identifier of a container (\<^verbatim>\<open>template_id\<close>, \<open>None\<close> when the item has no
  \<^verbatim>\<open>ContentTemplateSequence\<close>) and the attribute \<^verbatim>\<open>ContentSequence\<close>, which an
  item may lack (\<^verbatim>\<open>hasattr(item, 'ContentSequence')\<close> is tested by the source).
\<close>

datatype content_item = ContentItem
  (name: coded_concept)
  (relationship_type: "relationship_type option")
  (value_of: item_value)
  (template_id: "string option")
  (ContentSequence: "content_item list option")

fun value_type_of :: "item_value \<Rightarrow> value_type" where
  "value_type_of (CodeValue _) = CODE"
| "value_type_of (TextValue _) = TEXT"
| "value_type_of (NumValue _ _ _) = NUM"
| "value_type_of (UIDRefValue _) = UIDREF"
| "value_type_of (PnameValue _) = PNAME"
| "value_type_of (ImageValue _ _) = IMAGE"
| "value_type_of (CompositeValue _ _) = COMPOSITE"
| "value_type_of ContainerValue = CONTAINER"
| "value_type_of (ScoordValue _ _) = SCOORD"
| "value_type_of (Scoord3DValue _ _) = SCOORD3D"
| "value_type_of (DateTimeValue _) = DATETIME"

definition value_type :: "content_item \<Rightarrow> value_type" where
  "value_type item = value_type_of (value_of item)"

text \<open>The exceptions of the source, each with the text that tells the raise sites apart.\<close>

datatype error =
    ValueError string
  | TypeError string
  | RuntimeError string
  | AttributeError string
  | IndexError string
  | KeyError string

section \<open>Counting the ROI reference items of a measurement group\<close>

type_synonym roi_counts = "nat \<times> nat \<times> nat \<times> nat \<times> nat \<times> nat"

text \<open>One pass of the loop body of \<^verbatim>\<open>_count_roi_items\<close> over an item.\<close>

definition count_roi_item :: "content_item \<Rightarrow> roi_counts \<Rightarrow> roi_counts" where
  "count_roi_item item c =
    (case c of
      (n_image_region_items, n_image_region_3d_items, n_volume_surface_items,
       n_referenced_segment_items, n_referenced_segmentation_frame_items,
       n_region_in_space_items) \<Rightarrow>
      (let n_image_region_items =
             (if code_eq (name item) DCM_ImageRegion \<and> value_type item = SCOORD
              then n_image_region_items + 1 else n_image_region_items);
           n_image_region_3d_items =
             (if code_eq (name item) DCM_ImageRegion \<and> value_type item = SCOORD3D
              then n_image_region_3d_items + 1 else n_image_region_3d_items);
           n_volume_surface_items =
             (if code_eq (name item) DCM_VolumeSurface \<and> value_type item = SCOORD3D
              then n_volume_surface_items + 1 else n_volume_surface_items);
           n_referenced_segment_items =
             (if code_eq (name item) DCM_ReferencedSegment \<and> value_type item = IMAGE
              then n_referenced_segment_items + 1 else n_referenced_segment_items);
           n_referenced_segmentation_frame_items =
             (if code_eq (name item) DCM_ReferencedSegmentationFrame \<and> value_type item = IMAGE
              then n_referenced_segmentation_frame_items + 1
              else n_referenced_segmentation_frame_items);
           n_region_in_space_items =
             (if code_eq (name item) REGION_IN_SPACE \<and> value_type item = COMPOSITE
              then n_region_in_space_items + 1 else n_region_in_space_items)
       in (n_image_region_items, n_image_region_3d_items, n_volume_surface_items,
           n_referenced_segment_items, n_referenced_segmentation_frame_items,
           n_region_in_space_items)))"

definition count_roi_items :: "content_item \<Rightarrow> error + roi_counts" where
  "count_roi_items group_item =
    (if value_type group_item \<noteq> CONTAINER then
       Inl (ValueError ''not a measurement group: value type is not CONTAINER'')
     else if \<not> code_eq (name group_item) DCM_MeasurementGroup then
       Inl (ValueError ''not a measurement group: name is not Measurement Group'')
     else
       (case ContentSequence group_item of
          None \<Rightarrow> Inl (AttributeError ''ContentSequence'')
        | Some items \<Rightarrow> Inr (fold count_roi_item items (0, 0, 0, 0, 0, 0))))"

definition contains_planar_rois :: "content_item \<Rightarrow> error + bool" where
  "contains_planar_rois group_item =
    (case count_roi_items group_item of
       Inl e \<Rightarrow> Inl e
     | Inr (n_image_region_items, n_image_region_3d_items, n_volume_surface_items,
            n_referenced_segment_items, n_referenced_segmentation_frame_items,
            n_region_in_space_items) \<Rightarrow>
         (if ((n_image_region_items + n_image_region_3d_items) = 1 \<or>
              n_referenced_segmentation_frame_items > 0 \<or>
              n_region_in_space_items = 1) \<and>
             (n_volume_surface_items = 0 \<and> n_referenced_segment_items = 0)
          then Inr True else Inr False))"

definition contains_volumetric_rois :: "content_item \<Rightarrow> error + bool" where
  "contains_volumetric_rois group_item =
    (case count_roi_items group_item of
       Inl e \<Rightarrow> Inl e
     | Inr (n_image_region_items, n_image_region_3d_items, n_volume_surface_items,
            n_referenced_segment_items, n_referenced_segmentation_frame_items,
            n_region_in_space_items) \<Rightarrow>
         (if (n_image_region_items > 1 \<or>
              n_referenced_segment_items > 0 \<or>
              n_volume_surface_items > 0 \<or>
              n_region_in_space_items > 0) \<and>
             (n_referenced_segmentation_frame_items = 0 \<and> n_image_region_3d_items = 0)
          then Inr True else Inr False))"

text \<open>
  The vocabulary of the claims about the heuristic: the child items of a group (none when
  the group has no content sequence), and the number of children with a given concept name
  and value type.
\<close>

definition children :: "content_item \<Rightarrow> content_item list" where
  "children item = (case ContentSequence item of None \<Rightarrow> [] | Some items \<Rightarrow> items)"

definition n_items :: "coded_concept \<Rightarrow> value_type \<Rightarrow> content_item list \<Rightarrow> nat" where
  "n_items c vt items = length (filter (\<lambda>item. code_eq (name item) c \<and> value_type item = vt) items)"

definition is_measurement_group :: "content_item \<Rightarrow> bool" where
  "is_measurement_group item \<longleftrightarrow>
     value_type item = CONTAINER \<and> code_eq (name item) DCM_MeasurementGroup"

section \<open>Extracting the ROI reference items of a measurement group\<close>

text \<open>
  The dictionary \<^verbatim>\<open>ref_type_value_type_map\<close> of \<^verbatim>\<open>_get_roi_reference_items\<close>, in
  the order it is written, and its lookup by key: a missing key raises
  \<^verbatim>\<open>KeyError\<close> in the source and is \<open>None\<close> here.
\<close>

definition ref_type_value_type_map :: "(coded_concept \<times> value_type list) list" where
  "ref_type_value_type_map =
     [(DCM_ImageRegion, [SCOORD, SCOORD3D]),
      (DCM_VolumeSurface, [SCOORD3D]),
      (DCM_ReferencedSegment, [IMAGE]),
      (DCM_ReferencedSegmentationFrame, [IMAGE]),
      (REGION_IN_SPACE, [COMPOSITE])]"

fun lookup_code :: "(coded_concept \<times> 'v) list \<Rightarrow> coded_concept \<Rightarrow> 'v option" where
  "lookup_code [] c = None"
| "lookup_code ((k, v) # kvs) c = (if code_eq k c then Some v else lookup_code kvs c)"

text \<open>
  The loop of \<^verbatim>\<open>_get_roi_reference_items\<close> over the content sequence of the group,
  with its two variables \<^verbatim>\<open>returned_items\<close> and \<^verbatim>\<open>reference_type\<close>.
\<close>

fun roi_reference_loop ::
  "coded_concept list \<Rightarrow> content_item list \<Rightarrow> content_item list \<Rightarrow> coded_concept option \<Rightarrow>
     error + (coded_concept option \<times> content_item list)" where
  "roi_reference_loop allowed_reference_types [] returned_items reference_type =
     Inr (reference_type, returned_items)"
| "roi_reference_loop allowed_reference_types (item # rest) returned_items reference_type =
     (if relationship_type item \<noteq> Some CONTAINS then
        roi_reference_loop allowed_reference_types rest returned_items reference_type
      else if code_in (name item) allowed_reference_types then
        (case lookup_code ref_type_value_type_map (name item) of
           None \<Rightarrow> Inl (KeyError ''ref_type_value_type_map'')
         | Some expected_value_types \<Rightarrow>
             if value_type item \<in> set expected_value_types then
               (case reference_type of
                  None \<Rightarrow>
                    roi_reference_loop allowed_reference_types rest
                      (returned_items @ [item]) (Some (name item))
                | Some rt \<Rightarrow>
                    if \<not> code_eq (name item) rt then
                      Inl (RuntimeError ''Multiple different reference types were found.'')
                    else if \<not> code_in rt [DCM_ImageRegion, DCM_VolumeSurface] then
                      Inl (RuntimeError ''Multiple different reference items are not permitted.'')
                    else
                      roi_reference_loop allowed_reference_types rest
                        (returned_items @ [item]) (Some rt))
             else
               roi_reference_loop allowed_reference_types rest returned_items reference_type)
      else
        roi_reference_loop allowed_reference_types rest returned_items reference_type)"

definition get_roi_reference_items ::
  "content_item \<Rightarrow> coded_concept list \<Rightarrow> error + (coded_concept option \<times> content_item list)" where
  "get_roi_reference_items group_item allowed_reference_types =
     (case ContentSequence group_item of
        None \<Rightarrow> Inl (AttributeError ''ContentSequence'')
      | Some items \<Rightarrow>
          (case roi_reference_loop allowed_reference_types items [] None of
             Inl e \<Rightarrow> Inl e
           | Inr (reference_type, returned_items) \<Rightarrow>
               if length returned_items = 0 then
                 Inl (RuntimeError ''No content item representing a valid ROI reference was found.'')
               else Inr (reference_type, returned_items)))"

text \<open>
  The class attributes \<^verbatim>\<open>_allowed_roi_reference_types\<close> of the planar and the
  volumetric template.
\<close>

definition planar_allowed_roi_reference_types :: "coded_concept list" where
  "planar_allowed_roi_reference_types =
     [DCM_ImageRegion, DCM_ReferencedSegmentationFrame, REGION_IN_SPACE]"

definition volumetric_allowed_roi_reference_types :: "coded_concept list" where
  "volumetric_allowed_roi_reference_types =
     [DCM_ImageRegion, DCM_ReferencedSegment, DCM_VolumeSurface, REGION_IN_SPACE]"

definition get_planar_roi_reference_item ::
  "content_item \<Rightarrow> error + (coded_concept option \<times> content_item)" where
  "get_planar_roi_reference_item group_item =
     (case get_roi_reference_items group_item planar_allowed_roi_reference_types of
        Inl e \<Rightarrow> Inl e
      | Inr (reference_type, items) \<Rightarrow>
          if length items > 1 then
            Inl (RuntimeError ''Multiple reference items were found in the planar ROI measurements group.'')
          else
            (case items of
               [] \<Rightarrow> Inl (IndexError ''list index out of range'')
             | item # _ \<Rightarrow> Inr (reference_type, item)))"

definition get_volumetric_roi_reference_items ::
  "content_item \<Rightarrow> error + (coded_concept option \<times> content_item list)" where
  "get_volumetric_roi_reference_items group_item =
     get_roi_reference_items group_item volumetric_allowed_roi_reference_types"

text \<open>
  The vocabulary of the claim about the extraction: an item is a candidate ROI reference
  when it is related to the group by CONTAINS, its name is one of the allowed reference
  types and its value type is one the dictionary expects for that name.
\<close>

definition is_roi_reference :: "coded_concept list \<Rightarrow> content_item \<Rightarrow> bool" where
  "is_roi_reference allowed item \<longleftrightarrow>
     relationship_type item = Some CONTAINS \<and>
     code_in (name item) allowed \<and>
     (case lookup_code ref_type_value_type_map (name item) of
        None \<Rightarrow> False
      | Some vts \<Rightarrow> value_type item \<in> set vts)"

definition roi_references :: "coded_concept list \<Rightarrow> content_item \<Rightarrow> content_item list" where
  "roi_references allowed group_item = filter (is_roi_reference allowed) (children group_item)"

definition raises :: "error + 'a \<Rightarrow> bool" where
  "raises r \<longleftrightarrow> (case r of Inl _ \<Rightarrow> True | Inr _ \<Rightarrow> False)"

text \<open>
  Every allowed reference type is a key of \<open>ref_type_value_type_map\<close>, as the two class
  attributes are; then the lookup never raises \<^verbatim>\<open>KeyError\<close>.
\<close>

definition allowed_known :: "coded_concept list \<Rightarrow> bool" where
  "allowed_known al \<longleftrightarrow> list_all (\<lambda>c. lookup_code ref_type_value_type_map c \<noteq> None) al"

section \<open>Person names (valuerep.py)\<close>

text \<open>
  The values \<^verbatim>\<open>check_person_name\<close> may be called with: a \<^verbatim>\<open>str\<close>, a
  \<^verbatim>\<open>pydicom.valuerep.PersonName\<close> (which answers \<^verbatim>\<open>'^' in p\<close> and
  \<^verbatim>\<open>p != ''\<close> on its string form, carried here), or an object of another type.
\<close>

datatype py_value =
    PyStr string
  | PersonName string
  | PyBytes string
  | PyInt int
  | PyNone

definition isinstance_str_or_PersonName :: "py_value \<Rightarrow> bool" where
  "isinstance_str_or_PersonName p = (case p of PyStr _ \<Rightarrow> True | PersonName _ \<Rightarrow> True | _ \<Rightarrow> False)"

definition str_of :: "py_value \<Rightarrow> string" where
  "str_of p = (case p of PyStr s \<Rightarrow> s | PersonName s \<Rightarrow> s | _ \<Rightarrow> [])"

definition check_person_name :: "py_value \<Rightarrow> error + unit" where
  "check_person_name person_name =
     (if \<not> isinstance_str_or_PersonName person_name then
        Inl (TypeError ''Invalid type for a person name.'')
      else if CHR ''^'' \<notin> set (str_of person_name) \<and> str_of person_name \<noteq> [] then
        Inl (ValueError ''The string is unlikely to represent the intended person name since it contains only a single component.'')
      else Inr ())"

definition is_TypeError :: "error + 'a \<Rightarrow> bool" where
  "is_TypeError r = (case r of Inl (TypeError _) \<Rightarrow> True | _ \<Rightarrow> False)"

definition is_ValueError :: "error + 'a \<Rightarrow> bool" where
  "is_ValueError r = (case r of Inl (ValueError _) \<Rightarrow> True | _ \<Rightarrow> False)"

section \<open>Building content items and searching a content sequence\<close>

text \<open>
  The item classes (highdicom/sr/value_types.py) are not among the sources. Their
  constructors are taken as building the item with the name, the value and the relationship
  they are given: the tagged union of the specification.
\<close>

definition TextContentItem :: "coded_concept \<Rightarrow> string \<Rightarrow> relationship_type \<Rightarrow> content_item" where
  "TextContentItem n v r = ContentItem n (Some r) (TextValue v) None None"

definition UIDRefContentItem :: "coded_concept \<Rightarrow> string \<Rightarrow> relationship_type \<Rightarrow> content_item" where
  "UIDRefContentItem n v r = ContentItem n (Some r) (UIDRefValue v) None None"

definition CodeContentItem ::
  "coded_concept \<Rightarrow> coded_concept \<Rightarrow> relationship_type \<Rightarrow> content_item" where
  "CodeContentItem n v r = ContentItem n (Some r) (CodeValue v) None None"

definition PnameContentItem :: "coded_concept \<Rightarrow> string \<Rightarrow> relationship_type \<Rightarrow> content_item" where
  "PnameContentItem n v r = ContentItem n (Some r) (PnameValue v) None None"

definition ContainerContentItem ::
  "coded_concept \<Rightarrow> relationship_type option \<Rightarrow> string option \<Rightarrow> content_item" where
  "ContainerContentItem n r tid = ContentItem n r ContainerValue tid None"

definition set_ContentSequence :: "content_item \<Rightarrow> content_item list \<Rightarrow> content_item" where
  "set_ContentSequence item items =
     ContentItem (name item) (relationship_type item) (value_of item) (template_id item) (Some items)"

definition set_TemplateIdentifier :: "content_item \<Rightarrow> string \<Rightarrow> content_item" where
  "set_TemplateIdentifier item tid =
     ContentItem (name item) (relationship_type item) (value_of item) (Some tid) (ContentSequence item)"

text \<open>
  Modelled from the spec: \<^verbatim>\<open>find_content_items\<close> (highdicom/sr/utils.py is not among the
  sources). The specification, section 4.1: it "returns, in document order, all descendant
  items (direct children only unless recursive) matching every supplied filter (by
  coded-concept equality on name, by discriminant on value_type, by tag equality on
  relationship_type); no match yields an empty sequence (never raises for zero matches)".
  The templates module never asks for the recursive search, so this is the search of the
  direct children. The children are read from the attribute \<^verbatim>\<open>ContentSequence\<close> of the
  parent; on a parent without that attribute the read raises \<^verbatim>\<open>AttributeError\<close>, which
  is why the accessors of \<^verbatim>\<open>Measurement\<close> test
  \<^verbatim>\<open>hasattr(self[0], 'ContentSequence')\<close> before they search.
\<close>

definition find_content_items ::
  "content_item \<Rightarrow> coded_concept option \<Rightarrow> value_type option \<Rightarrow> relationship_type option \<Rightarrow>
     error + content_item list" where
  "find_content_items parent nm vt rel =
     (case ContentSequence parent of
        None \<Rightarrow> Inl (AttributeError ''ContentSequence'')
      | Some items \<Rightarrow>
          Inr (filter
            (\<lambda>item.
               (case nm of None \<Rightarrow> True | Some n \<Rightarrow> code_eq (name item) n) \<and>
               (case vt of None \<Rightarrow> True | Some t \<Rightarrow> value_type item = t) \<and>
               (case rel of None \<Rightarrow> True | Some r \<Rightarrow> relationship_type item = Some r))
            items))"

section \<open>Tracking identifier (TID 4108)\<close>

definition DCM_TrackingIdentifier :: coded_concept where
  "DCM_TrackingIdentifier = Code ''112039'' ''DCM'' ''Tracking Identifier''"

definition DCM_TrackingUniqueIdentifier :: coded_concept where
  "DCM_TrackingUniqueIdentifier = Code ''112040'' ''DCM'' ''Tracking Unique Identifier''"

text \<open>
  \<^verbatim>\<open>TrackingIdentifier.__init__(uid=None, identifier=None)\<close>. A template is the list of
  its items. When no UID is given the source generates one (\<^verbatim>\<open>UID()\<close>); the generated
  value is the first argument here.
\<close>

definition TrackingIdentifier ::
  "string \<Rightarrow> string option \<Rightarrow> string option \<Rightarrow> content_item list" where
  "TrackingIdentifier generated_uid uid identifier =
     (let uid = (case uid of None \<Rightarrow> generated_uid | Some u \<Rightarrow> u);
          self = [];
          self = (case identifier of
                    None \<Rightarrow> self
                  | Some i \<Rightarrow>
                      self @ [TextContentItem (Code ''112039'' ''DCM'' ''Tracking Identifier'') i
                               HAS_OBS_CONTEXT])
      in self @ [UIDRefContentItem (Code ''112040'' ''DCM'' ''Tracking Unique Identifier'') uid
                  HAS_OBS_CONTEXT])"

section \<open>Measurement groups (TID 1501, 1410, 1411)\<close>

text \<open>
  An argument that a constructor tests with \<^verbatim>\<open>isinstance\<close> is either an instance of
  the tested class, carried with its content, or some other object, for which the test
  fails. A template (\<^verbatim>\<open>TrackingIdentifier\<close>, \<^verbatim>\<open>TimePointContext\<close>,
  \<^verbatim>\<open>AlgorithmIdentification\<close>, \<^verbatim>\<open>Measurement\<close>, \<^verbatim>\<open>QualitativeEvaluation\<close>) is
  the list of its items; a \<^verbatim>\<open>FindingSite\<close>, a \<^verbatim>\<open>RealWorldValueMap\<close> and a
  \<^verbatim>\<open>SourceImageForMeasurementGroup\<close> are single items. The arguments the constructors
  hand on untested (\<^verbatim>\<open>finding_type\<close>, \<^verbatim>\<open>method\<close>, \<^verbatim>\<open>session\<close>,
  \<^verbatim>\<open>finding_category\<close>, \<^verbatim>\<open>geometric_purpose\<close>) have the type the source annotates.
  The argument \<^verbatim>\<open>method\<close> is \<open>method_arg\<close>.
\<close>

datatype 'a arg = Instance 'a | OtherObject

text \<open>
  The class of the collection given as \<^verbatim>\<open>finding_sites\<close>, whose members are listed in
  the order of iteration. The annotation is \<^verbatim>\<open>Sequence[FindingSite]\<close>; the constructor
  tests for \<^verbatim>\<open>(list, tuple, set)\<close>.
\<close>

datatype collection_class = PyList | PyTuple | PySet | OtherSequence

record group_args =
  tracking_identifier :: "content_item list arg"
  referenced_real_world_value_map :: "content_item arg option"
  time_point_context :: "content_item list arg option"
  finding_type :: "coded_concept option"
  method_arg :: "coded_concept option"
  algorithm_id :: "content_item list arg option"
  finding_sites :: "(collection_class \<times> content_item arg list) option"
  session :: "string option"
  measurements :: "content_item list arg list option"
  qualitative_evaluations :: "content_item list arg list option"
  finding_category :: "coded_concept option"

definition opt_items :: "'a option \<Rightarrow> ('a \<Rightarrow> content_item list) \<Rightarrow> content_item list" where
  "opt_items x f = (case x of None \<Rightarrow> [] | Some a \<Rightarrow> f a)"

text \<open>
  A loop that tests each member of a collection with \<^verbatim>\<open>isinstance\<close> and raises
  \<^verbatim>\<open>TypeError\<close> at the first that fails; the same test on one optional argument.
\<close>

fun instances :: "string \<Rightarrow> 'a arg list \<Rightarrow> error + 'a list" where
  "instances msg [] = Inr []"
| "instances msg (x # xs) =
     (case x of
        OtherObject \<Rightarrow> Inl (TypeError msg)
      | Instance v \<Rightarrow>
          (case instances msg xs of
             Inl e \<Rightarrow> Inl e
           | Inr vs \<Rightarrow> Inr (v # vs)))"

definition opt_instance ::
  "string \<Rightarrow> 'a arg option \<Rightarrow> ('a \<Rightarrow> content_item list) \<Rightarrow> error + content_item list" where
  "opt_instance msg x f =
     (case x of
        None \<Rightarrow> Inr []
      | Some OtherObject \<Rightarrow> Inl (TypeError msg)
      | Some (Instance v) \<Rightarrow> Inr (f v))"

definition msg_tracking_identifier_type :: string where
  "msg_tracking_identifier_type = ''Argument tracking_identifier must have type TrackingIdentifier.''"

definition msg_tracking_identifier :: string where
  "msg_tracking_identifier = ''Argument tracking_identifier must include a human readable tracking identifier and a tracking unique identifier.''"

definition msg_finding_sites :: string where
  "msg_finding_sites = ''Argument finding_sites must be a sequence.''"

definition msg_finding_site_items :: string where
  "msg_finding_site_items = ''Items of argument finding_sites must have type FindingSite.''"

definition msg_algorithm_id :: string where
  "msg_algorithm_id = ''Argument algorithm_id must have type AlgorithmIdentification.''"

definition msg_time_point_context :: string where
  "msg_time_point_context = ''Argument time_point_context must have type TimePointContext.''"

definition msg_real_world_value_map :: string where
  "msg_real_world_value_map = ''Argument referenced_real_world_value_map must have type RealWorldValueMap.''"

definition msg_measurements :: string where
  "msg_measurements = ''Items of argument measurements must have type Measurement.''"

definition msg_qualitative_evaluations :: string where
  "msg_qualitative_evaluations = ''Items of argument qualitative_evaluations must have type QualitativeEvaluation.''"

definition msg_source_images :: string where
  "msg_source_images = ''Items of argument source_images must be of type highdicom.sr.SourceImageForMeasurementGroup.''"

text \<open>
  \<^verbatim>\<open>_MeasurementsAndQualitativeEvaluations.__init__\<close>: the tests and the appends to
  \<^verbatim>\<open>content\<close> in the order of the source.
\<close>

definition MeasurementsAndQualitativeEvaluations_base_init ::
  "group_args \<Rightarrow> error + content_item list" where
  "MeasurementsAndQualitativeEvaluations_base_init a =
     (let group_item =
            ContainerContentItem (Code ''125007'' ''DCM'' ''Measurement Group'') (Some CONTAINS)
              (Some ''1501'')
      in case tracking_identifier a of
           OtherObject \<Rightarrow> Inl (TypeError msg_tracking_identifier_type)
         | Instance tracking \<Rightarrow>
             if length tracking = 1 then
               Inl (ValueError msg_tracking_identifier)
             else
               (let content =
                      tracking @
                      opt_items (session a) (\<lambda>s.
                        [TextContentItem (Code ''C67447'' ''NCIt'' ''Activity Session'') s
                           HAS_OBS_CONTEXT]) @
                      opt_items (finding_category a) (\<lambda>c.
                        [CodeContentItem (Code ''276214006'' ''SCT'' ''Finding category'') c
                           CONTAINS]) @
                      opt_items (finding_type a) (\<lambda>c.
                        [CodeContentItem (Code ''121071'' ''DCM'' ''Finding'') c CONTAINS]) @
                      opt_items (method_arg a) (\<lambda>c.
                        [CodeContentItem (Code ''370129005'' ''SCT'' ''Measurement Method'') c
                           CONTAINS])
                in case (case finding_sites a of
                           None \<Rightarrow> Inr []
                         | Some (cls, sites) \<Rightarrow>
                             if cls \<notin> set [PyList, PyTuple, PySet] then
                               Inl (TypeError msg_finding_sites)
                             else instances msg_finding_site_items sites) of
                     Inl e \<Rightarrow> Inl e
                   | Inr sites \<Rightarrow>
                (case opt_instance msg_algorithm_id (algorithm_id a) (\<lambda>t. t) of
                   Inl e \<Rightarrow> Inl e
                 | Inr algorithm \<Rightarrow>
                (case opt_instance msg_time_point_context (time_point_context a) (\<lambda>t. t) of
                   Inl e \<Rightarrow> Inl e
                 | Inr time_point \<Rightarrow>
                (case opt_instance msg_real_world_value_map (referenced_real_world_value_map a)
                        (\<lambda>m. [m]) of
                   Inl e \<Rightarrow> Inl e
                 | Inr value_map \<Rightarrow>
                (case (case measurements a of
                         None \<Rightarrow> Inr []
                       | Some ms \<Rightarrow> instances msg_measurements ms) of
                   Inl e \<Rightarrow> Inl e
                 | Inr ms \<Rightarrow>
                (case (case qualitative_evaluations a of
                         None \<Rightarrow> Inr []
                       | Some qs \<Rightarrow> instances msg_qualitative_evaluations qs) of
                   Inl e \<Rightarrow> Inl e
                 | Inr qs \<Rightarrow>
                     (let content =
                            content @ sites @ algorithm @ time_point @ value_map @ concat ms @
                            concat qs;
                          group_item =
                            (if length content > 0 then set_ContentSequence group_item content
                             else group_item)
                      in Inr [group_item]))))))))"

text \<open>
  An append to the content sequence of an item (\<^verbatim>\<open>item.ContentSequence.extend(...)\<close>),
  which reads the attribute first.
\<close>

definition extend_ContentSequence :: "content_item \<Rightarrow> content_item list \<Rightarrow> error + content_item" where
  "extend_ContentSequence item new_items =
     (case ContentSequence item of
        None \<Rightarrow> Inl (AttributeError ''ContentSequence'')
      | Some items \<Rightarrow> Inr (set_ContentSequence item (items @ new_items)))"

text \<open>
  \<^verbatim>\<open>MeasurementsAndQualitativeEvaluations.__init__\<close>: the base constructor, then the
  source images are tested and added to the content sequence of the group.
\<close>

definition MeasurementsAndQualitativeEvaluations_init ::
  "group_args \<Rightarrow> content_item arg list option \<Rightarrow> error + content_item list" where
  "MeasurementsAndQualitativeEvaluations_init a source_images =
     (case MeasurementsAndQualitativeEvaluations_base_init a of
        Inl e \<Rightarrow> Inl e
      | Inr self \<Rightarrow>
          (case self of
             [] \<Rightarrow> Inl (IndexError ''list index out of range'')
           | group_item # rest \<Rightarrow>
               (case source_images of
                  None \<Rightarrow> Inr (group_item # rest)
                | Some imgs \<Rightarrow>
                    (case instances msg_source_images imgs of
                       Inl e \<Rightarrow> Inl e
                     | Inr imgs \<Rightarrow>
                         (case extend_ContentSequence group_item imgs of
                            Inl e \<Rightarrow> Inl e
                          | Inr group_item \<Rightarrow> Inr (group_item # rest))))))"

text \<open>
  The property \<^verbatim>\<open>Measurement.referenced_coordinates\<close>, read by the ROI constructor:
  the SCOORD children of the NUM item, then its SCOORD3D children.
\<close>

definition Measurement_referenced_coordinates ::
  "content_item list \<Rightarrow> error + content_item list" where
  "Measurement_referenced_coordinates self =
     (case self of
        [] \<Rightarrow> Inl (IndexError ''list index out of range'')
      | item # _ \<Rightarrow>
          if ContentSequence item = None then Inr []
          else
            (case find_content_items item None (Some SCOORD) None of
               Inl e \<Rightarrow> Inl e
             | Inr scoord_matches \<Rightarrow>
                 (case find_content_items item None (Some SCOORD3D) None of
                    Inl e \<Rightarrow> Inl e
                  | Inr scoord3d_matches \<Rightarrow> Inr (scoord_matches @ scoord3d_matches))))"

definition msg_referenced_coordinates :: string where
  "msg_referenced_coordinates = ''Referenced coordinates in measurements are not allowed.''"

fun check_no_referenced_coordinates :: "content_item list list \<Rightarrow> error + unit" where
  "check_no_referenced_coordinates [] = Inr ()"
| "check_no_referenced_coordinates (measurement # rest) =
     (case Measurement_referenced_coordinates measurement of
        Inl e \<Rightarrow> Inl e
      | Inr coords \<Rightarrow>
          if coords \<noteq> [] then
            Inl (ValueError msg_referenced_coordinates)
          else check_no_referenced_coordinates rest)"

text \<open>
  The ROI references a constructor is given. A region is an object of class
  \<^verbatim>\<open>ImageRegion\<close> (a SCOORD item) or \<^verbatim>\<open>ImageRegion3D\<close> (a SCOORD3D item); a
  segment reference is a template of class \<^verbatim>\<open>ReferencedSegment\<close> or
  \<^verbatim>\<open>ReferencedSegmentationFrame\<close>; a volume surface is a template. Each may also be
  an object of none of these classes.
\<close>

datatype image_region = ImageRegion content_item | ImageRegion3D content_item

datatype segment_reference =
    ReferencedSegment "content_item list"
  | ReferencedSegmentationFrame "content_item list"

fun region_item :: "image_region \<Rightarrow> content_item" where
  "region_item (ImageRegion item) = item"
| "region_item (ImageRegion3D item) = item"

fun segment_items :: "segment_reference \<Rightarrow> content_item list" where
  "segment_items (ReferencedSegment items) = items"
| "segment_items (ReferencedSegmentationFrame items) = items"

fun is_ImageRegion3D :: "image_region arg \<Rightarrow> bool" where
  "is_ImageRegion3D (Instance (ImageRegion3D _)) = True"
| "is_ImageRegion3D _ = False"

fun is_ReferencedSegment :: "segment_reference arg \<Rightarrow> bool" where
  "is_ReferencedSegment (Instance (ReferencedSegment _)) = True"
| "is_ReferencedSegment _ = False"

fun is_ReferencedSegmentationFrame :: "segment_reference arg \<Rightarrow> bool" where
  "is_ReferencedSegmentationFrame (Instance (ReferencedSegmentationFrame _)) = True"
| "is_ReferencedSegmentationFrame _ = False"

definition sum_provided :: "bool list \<Rightarrow> nat" where
  "sum_provided were_references_provided = length (filter (\<lambda>b. b) were_references_provided)"

definition msg_no_reference :: string where
  "msg_no_reference = ''One of the following arguments must be provided: referenced_regions, referenced_volume_surface, or referenced_segment.''"

definition msg_many_references :: string where
  "msg_many_references = ''Only one of the following arguments should be provided: referenced_regions, referenced_volume_surface, or referenced_segment.''"

definition msg_empty_regions :: string where
  "msg_empty_regions = ''Argument referenced_region must have non-zero length.''"

definition msg_region_items :: string where
  "msg_region_items = ''Items of argument referenced_regions must have type ImageRegion or ImageRegion3D.''"

definition msg_volume_surface :: string where
  "msg_volume_surface = ''Items of argument referenced_volume_surface must have type VolumeSurface.''"

definition msg_segment :: string where
  "msg_segment = ''Argument referenced_segment must have type ReferencedSegment or ReferencedSegmentationFrame.''"

text \<open>
  The loop of the shared ROI constructor over \<^verbatim>\<open>referenced_regions\<close>: each region is
  tested, then appended to the content sequence of the group.
\<close>

fun append_regions :: "content_item \<Rightarrow> image_region arg list \<Rightarrow> error + content_item" where
  "append_regions group_item [] = Inr group_item"
| "append_regions group_item (region # rest) =
     (case region of
        OtherObject \<Rightarrow> Inl (TypeError msg_region_items)
      | Instance r \<Rightarrow>
          (case extend_ContentSequence group_item [region_item r] of
             Inl e \<Rightarrow> Inl e
           | Inr group_item \<Rightarrow> append_regions group_item rest))"

text \<open>The members of a collection that passed the test of their class.\<close>

fun instance_values :: "'a arg list \<Rightarrow> 'a list" where
  "instance_values [] = []"
| "instance_values (Instance v # xs) = v # instance_values xs"
| "instance_values (OtherObject # xs) = instance_values xs"

text \<open>
  \<^verbatim>\<open>_ROIMeasurementsAndQualitativeEvaluations.__init__\<close>: the base constructor runs
  first, then the test that exactly one reference is given, then the geometric purpose and
  the reference are added to the content sequence of the group, then the measurements are
  searched for referenced coordinates (every measurement passed the test of the base
  constructor by then).
\<close>

definition ROIMeasurementsAndQualitativeEvaluations_init ::
  "group_args \<Rightarrow> image_region arg list option \<Rightarrow> segment_reference arg option \<Rightarrow>
     content_item list arg option \<Rightarrow> coded_concept option \<Rightarrow> error + content_item list" where
  "ROIMeasurementsAndQualitativeEvaluations_init a referenced_regions referenced_segment
       referenced_volume_surface geometric_purpose =
     (case MeasurementsAndQualitativeEvaluations_base_init a of
        Inl e \<Rightarrow> Inl e
      | Inr self \<Rightarrow>
          (case self of
             [] \<Rightarrow> Inl (IndexError ''list index out of range'')
           | group_item # rest \<Rightarrow>
               (let were_references_provided =
                      [referenced_regions \<noteq> None,
                       referenced_volume_surface \<noteq> None,
                       referenced_segment \<noteq> None]
                in if sum_provided were_references_provided = 0 then
                     Inl (ValueError msg_no_reference)
                   else if sum_provided were_references_provided > 1 then
                     Inl (ValueError msg_many_references)
                   else
                     (case (case geometric_purpose of
                              None \<Rightarrow> Inr group_item
                            | Some c \<Rightarrow>
                                extend_ContentSequence group_item
                                  [CodeContentItem
                                     (Code ''130400'' ''DCM'' ''Geometric purpose of region'')
                                     c CONTAINS]) of
                        Inl e \<Rightarrow> Inl e
                      | Inr group_item \<Rightarrow>
                          (case (case referenced_regions of
                                   Some regions \<Rightarrow>
                                     if length regions = 0 then
                                       Inl (ValueError msg_empty_regions)
                                     else append_regions group_item regions
                                 | None \<Rightarrow>
                                     (case referenced_volume_surface of
                                        Some OtherObject \<Rightarrow> Inl (TypeError msg_volume_surface)
                                      | Some (Instance surface) \<Rightarrow>
                                          extend_ContentSequence group_item surface
                                      | None \<Rightarrow>
                                          (case referenced_segment of
                                             Some OtherObject \<Rightarrow> Inl (TypeError msg_segment)
                                           | Some (Instance segment) \<Rightarrow>
                                               extend_ContentSequence group_item
                                                 (segment_items segment)
                                           | None \<Rightarrow> Inr group_item))) of
                             Inl e \<Rightarrow> Inl e
                           | Inr group_item \<Rightarrow>
                               (case check_no_referenced_coordinates
                                       (case measurements a of
                                          None \<Rightarrow> []
                                        | Some ms \<Rightarrow> instance_values ms) of
                                  Inl e \<Rightarrow> Inl e
                                | Inr _ \<Rightarrow> Inr (group_item # rest)))))))"

definition msg_planar_no_reference :: string where
  "msg_planar_no_reference = ''One of the following arguments must be provided: referenced_region, referenced_segment.''"

definition msg_planar_many_references :: string where
  "msg_planar_many_references = ''Only one of the following arguments should be provided: referenced_region, referenced_segment.''"

definition msg_planar_region_type :: string where
  "msg_planar_region_type = ''Argument referenced_region must have type ImageRegion or ImageRegion3D.''"

definition msg_planar_segment_type :: string where
  "msg_planar_segment_type = ''Argument referenced_segment must have type ReferencedSegmentationFrame.''"

text \<open>
  Setting the template identifier of the group a constructor of a subclass got from the
  shared ROI constructor; an error of that constructor is the error of the subclass.
\<close>

definition retag :: "string \<Rightarrow> error + content_item list \<Rightarrow> error + content_item list" where
  "retag tid r =
     (case r of
        Inl e \<Rightarrow> Inl e
      | Inr self \<Rightarrow>
          (case self of
             [] \<Rightarrow> Inl (IndexError ''list index out of range'')
           | group_item # rest \<Rightarrow> Inr (set_TemplateIdentifier group_item tid # rest)))"

text \<open>
  \<^verbatim>\<open>PlanarROIMeasurementsAndQualitativeEvaluations.__init__\<close>: the test that exactly one
  reference is given comes first, then the classes of the region and of the segment
  reference are tested, then the shared ROI constructor runs and the template identifier
  becomes 1410.
\<close>

definition PlanarROIMeasurementsAndQualitativeEvaluations_init ::
  "group_args \<Rightarrow> image_region arg option \<Rightarrow> segment_reference arg option \<Rightarrow>
     coded_concept option \<Rightarrow> error + content_item list" where
  "PlanarROIMeasurementsAndQualitativeEvaluations_init a referenced_region referenced_segment
       geometric_purpose =
     (let were_references_provided = [referenced_region \<noteq> None, referenced_segment \<noteq> None]
      in if sum_provided were_references_provided = 0 then
           Inl (ValueError msg_planar_no_reference)
         else if sum_provided were_references_provided > 1 then
           Inl (ValueError msg_planar_many_references)
         else
           (case (case referenced_region of
                    None \<Rightarrow> Inr None
                  | Some (Instance region) \<Rightarrow> Inr (Some [Instance region])
                  | Some OtherObject \<Rightarrow> Inl (TypeError msg_planar_region_type)) of
              Inl e \<Rightarrow> Inl e
            | Inr referenced_regions \<Rightarrow>
                if (case referenced_segment of
                      None \<Rightarrow> False
                    | Some s \<Rightarrow> \<not> is_ReferencedSegmentationFrame s) then
                  Inl (TypeError msg_planar_segment_type)
                else
                  retag ''1410''
                    (ROIMeasurementsAndQualitativeEvaluations_init a referenced_regions
                       referenced_segment None geometric_purpose)))"

definition msg_volumetric_region_type :: string where
  "msg_volumetric_region_type = ''Including items of type ImageRegion3D in referenced_regions is invalid within a volumetric ROI measurement group.''"

definition msg_volumetric_segment_type :: string where
  "msg_volumetric_segment_type = ''Argument referenced_segment must have type ReferencedSegment.''"

text \<open>
  \<^verbatim>\<open>VolumetricROIMeasurementsAndQualitativeEvaluations.__init__\<close>: the classes of the
  regions and of the segment reference are tested first, then the shared ROI constructor
  runs and the template identifier becomes 1411.
\<close>

definition VolumetricROIMeasurementsAndQualitativeEvaluations_init ::
  "group_args \<Rightarrow> image_region arg list option \<Rightarrow> content_item list arg option \<Rightarrow>
     segment_reference arg option \<Rightarrow> coded_concept option \<Rightarrow> error + content_item list" where
  "VolumetricROIMeasurementsAndQualitativeEvaluations_init a referenced_regions
       referenced_volume_surface referenced_segment geometric_purpose =
     (if (case referenced_regions of
            None \<Rightarrow> False
          | Some regions \<Rightarrow> list_ex is_ImageRegion3D regions) then
        Inl (TypeError msg_volumetric_region_type)
      else if (case referenced_segment of
                 None \<Rightarrow> False
               | Some s \<Rightarrow> \<not> is_ReferencedSegment s) then
        Inl (TypeError msg_volumetric_segment_type)
      else
        retag ''1411''
          (ROIMeasurementsAndQualitativeEvaluations_init a referenced_regions
             referenced_segment referenced_volume_surface geometric_purpose))"

text \<open>
  The vocabulary of the claims about the constructors: the number of reference mechanisms
  a call supplies, and the errors of the test that exactly one is supplied.
\<close>

definition n_references ::
  "'a option \<Rightarrow> 'b option \<Rightarrow> 'c option \<Rightarrow> nat" where
  "n_references regions surface segment =
     (if regions = None then 0 else 1) + (if surface = None then 0 else 1) +
     (if segment = None then 0 else 1)"

definition n_planar_references :: "'a option \<Rightarrow> 'b option \<Rightarrow> nat" where
  "n_planar_references region segment =
     (if region = None then 0 else 1) + (if segment = None then 0 else 1)"


text \<open>
  The arguments of a call are as the constructor annotates them when every tested object is
  an instance of the class of the annotation. For the shared arguments: the collection of
  finding sites is a sequence (a list, a tuple or another sequence, not a set). For the
  planar constructor: the region is an \<^verbatim>\<open>ImageRegion\<close> or an \<^verbatim>\<open>ImageRegion3D\<close>, the
  segment reference a \<^verbatim>\<open>ReferencedSegmentationFrame\<close>. For the volumetric constructor:
  the regions are \<^verbatim>\<open>ImageRegion\<close> objects, the segment reference is a
  \<^verbatim>\<open>ReferencedSegment\<close>.
\<close>

fun is_instance :: "'a arg \<Rightarrow> bool" where
  "is_instance (Instance _) = True"
| "is_instance OtherObject = False"

definition opt_all :: "('a \<Rightarrow> bool) \<Rightarrow> 'a option \<Rightarrow> bool" where
  "opt_all p x = (case x of None \<Rightarrow> True | Some v \<Rightarrow> p v)"

definition annotated_args :: "group_args \<Rightarrow> bool" where
  "annotated_args a \<longleftrightarrow>
     is_instance (tracking_identifier a) \<and>
     opt_all is_instance (referenced_real_world_value_map a) \<and>
     opt_all is_instance (time_point_context a) \<and>
     opt_all is_instance (algorithm_id a) \<and>
     opt_all (\<lambda>(cls, sites). cls \<noteq> PySet \<and> list_all is_instance sites) (finding_sites a) \<and>
     opt_all (list_all is_instance) (measurements a) \<and>
     opt_all (list_all is_instance) (qualitative_evaluations a)"

fun is_ImageRegion :: "image_region arg \<Rightarrow> bool" where
  "is_ImageRegion (Instance (ImageRegion _)) = True"
| "is_ImageRegion _ = False"

definition annotated_planar ::
  "image_region arg option \<Rightarrow> segment_reference arg option \<Rightarrow> bool" where
  "annotated_planar referenced_region referenced_segment \<longleftrightarrow>
     opt_all is_instance referenced_region \<and>
     opt_all is_ReferencedSegmentationFrame referenced_segment"

definition annotated_volumetric ::
  "image_region arg list option \<Rightarrow> content_item list arg option \<Rightarrow>
     segment_reference arg option \<Rightarrow> bool" where
  "annotated_volumetric referenced_regions referenced_volume_surface referenced_segment \<longleftrightarrow>
     opt_all (list_all is_ImageRegion) referenced_regions \<and>
     opt_all is_instance referenced_volume_surface \<and>
     opt_all is_ReferencedSegment referenced_segment"

text \<open>
  The one test of the base constructor that an annotated call can fail: the collection of
  finding sites is a sequence that is neither a list nor a tuple.
\<close>

definition other_sequence_sites :: "group_args \<Rightarrow> bool" where
  "other_sequence_sites a \<longleftrightarrow>
     (case finding_sites a of None \<Rightarrow> False | Some (cls, _) \<Rightarrow> cls = OtherSequence)"

text \<open>
  The tracking identifier of a call is a \<^verbatim>\<open>TrackingIdentifier\<close> of exactly one item.
\<close>

definition short_tracking :: "group_args \<Rightarrow> bool" where
  "short_tracking a \<longleftrightarrow>
     (case tracking_identifier a of Instance tracking \<Rightarrow> length tracking = 1 | OtherObject \<Rightarrow> False)"

text \<open>
  The two tests of the classes at the head of the volumetric constructor, and the two of
  the planar constructor.
\<close>

definition volumetric_type_error ::
  "image_region arg list option \<Rightarrow> segment_reference arg option \<Rightarrow> bool" where
  "volumetric_type_error referenced_regions referenced_segment \<longleftrightarrow>
     (case referenced_regions of None \<Rightarrow> False | Some regions \<Rightarrow> list_ex is_ImageRegion3D regions) \<or>
     (case referenced_segment of None \<Rightarrow> False | Some s \<Rightarrow> \<not> is_ReferencedSegment s)"

definition planar_type_error ::
  "image_region arg option \<Rightarrow> segment_reference arg option \<Rightarrow> bool" where
  "planar_type_error referenced_region referenced_segment \<longleftrightarrow>
     referenced_region = Some OtherObject \<or>
     (case referenced_segment of None \<Rightarrow> False | Some s \<Rightarrow> \<not> is_ReferencedSegmentationFrame s)"

section \<open>Accessors of measurements and measurement groups\<close>

definition SCT_MeasurementMethod :: coded_concept where
  "SCT_MeasurementMethod = Code ''370129005'' ''SCT'' ''Measurement Method''"

definition DCM_Derivation :: coded_concept where
  "DCM_Derivation = Code ''121401'' ''DCM'' ''Derivation''"

definition DCM_Finding :: coded_concept where
  "DCM_Finding = Code ''121071'' ''DCM'' ''Finding''"

definition SCT_FindingSite :: coded_concept where
  "SCT_FindingSite = Code ''363698007'' ''SCT'' ''Finding Site''"

definition DCM_SourceOfMeasurement :: coded_concept where
  "DCM_SourceOfMeasurement = Code ''121112'' ''DCM'' ''Source of Measurement''"

text \<open>
  An accessor is a property of a template, that is of the list of its items; it reads
  \<^verbatim>\<open>self[0]\<close>, which raises \<^verbatim>\<open>IndexError\<close> on an empty list. It returns what
  \<^verbatim>\<open>logger.warning\<close> was called with, and its value. The value of a matched item
  (\<^verbatim>\<open>matches[0].value\<close>) is its payload; \<^verbatim>\<open>UID(...)\<close> and the
  \<^verbatim>\<open>from_dataset\<close> conversions of the content module keep the item they are given.
\<close>

definition Measurement_derivation ::
  "content_item list \<Rightarrow> error + (string list \<times> item_value option)" where
  "Measurement_derivation self =
     (case self of
        [] \<Rightarrow> Inl (IndexError ''list index out of range'')
      | item0 # _ \<Rightarrow>
          if ContentSequence item0 = None then Inr ([], None)
          else
            (case find_content_items item0 (Some DCM_Derivation) (Some CODE) None of
               Inl e \<Rightarrow> Inl e
             | Inr matches \<Rightarrow>
                 if length matches > 0 then Inr ([], Some (value_of (matches ! 0)))
                 else Inr ([], None)))"

definition Measurement_method ::
  "content_item list \<Rightarrow> error + (string list \<times> item_value option)" where
  "Measurement_method self =
     (case self of
        [] \<Rightarrow> Inl (IndexError ''list index out of range'')
      | item0 # _ \<Rightarrow>
          if ContentSequence item0 = None then Inr ([], None)
          else
            (case find_content_items item0 (Some SCT_MeasurementMethod) (Some CODE) None of
               Inl e \<Rightarrow> Inl e
             | Inr matches \<Rightarrow>
                 if length matches > 0 then Inr ([], Some (value_of (matches ! 0)))
                 else Inr ([], None)))"

definition Measurement_referenced_images ::
  "content_item list \<Rightarrow> error + (string list \<times> content_item list)" where
  "Measurement_referenced_images self =
     (case self of
        [] \<Rightarrow> Inl (IndexError ''list index out of range'')
      | item0 # _ \<Rightarrow>
          if ContentSequence item0 = None then Inr ([], [])
          else
            (case find_content_items item0 (Some DCM_SourceOfMeasurement) (Some IMAGE) None of
               Inl e \<Rightarrow> Inl e
             | Inr matches \<Rightarrow> Inr ([], matches)))"

definition Measurement_finding_sites ::
  "content_item list \<Rightarrow> error + (string list \<times> content_item list)" where
  "Measurement_finding_sites self =
     (case self of
        [] \<Rightarrow> Inl (IndexError ''list index out of range'')
      | item0 # _ \<Rightarrow>
          if ContentSequence item0 = None then Inr ([], [])
          else
            (case find_content_items item0 (Some SCT_FindingSite) (Some CODE) None of
               Inl e \<Rightarrow> Inl e
             | Inr matches \<Rightarrow> if length matches > 0 then Inr ([], matches) else Inr ([], [])))"

definition MeasurementsAndQualitativeEvaluations_method ::
  "content_item list \<Rightarrow> error + (string list \<times> item_value option)" where
  "MeasurementsAndQualitativeEvaluations_method self =
     (case self of
        [] \<Rightarrow> Inl (IndexError ''list index out of range'')
      | root_item # _ \<Rightarrow>
          (case find_content_items root_item (Some SCT_MeasurementMethod) (Some CODE) None of
             Inl e \<Rightarrow> Inl e
           | Inr matches \<Rightarrow>
               (let log = (if length matches > 1
                           then [''found more than one Measurement Method content item''] else [])
                in if length matches > 0 then Inr (log, Some (value_of (matches ! 0)))
                   else Inr (log, None))))"

definition MeasurementsAndQualitativeEvaluations_tracking_identifier ::
  "content_item list \<Rightarrow> error + (string list \<times> item_value option)" where
  "MeasurementsAndQualitativeEvaluations_tracking_identifier self =
     (case self of
        [] \<Rightarrow> Inl (IndexError ''list index out of range'')
      | root_item # _ \<Rightarrow>
          (case find_content_items root_item (Some DCM_TrackingIdentifier) (Some TEXT) None of
             Inl e \<Rightarrow> Inl e
           | Inr matches \<Rightarrow>
               (let log = (if length matches > 1
                           then [''found more than one Tracking Identifier content item''] else [])
                in if length matches > 0 then Inr (log, Some (value_of (matches ! 0)))
                   else Inr (log, None))))"

definition MeasurementsAndQualitativeEvaluations_tracking_uid ::
  "content_item list \<Rightarrow> error + (string list \<times> item_value option)" where
  "MeasurementsAndQualitativeEvaluations_tracking_uid self =
     (case self of
        [] \<Rightarrow> Inl (IndexError ''list index out of range'')
      | root_item # _ \<Rightarrow>
          (case find_content_items root_item (Some DCM_TrackingUniqueIdentifier) (Some UIDREF) None of
             Inl e \<Rightarrow> Inl e
           | Inr matches \<Rightarrow>
               (let log = (if length matches > 1
                           then [''found more than one Tracking Unique Identifier content item''] else [])
                in if length matches > 0 then Inr (log, Some (value_of (matches ! 0)))
                   else Inr (log, None))))"

definition MeasurementsAndQualitativeEvaluations_finding_category ::
  "content_item list \<Rightarrow> error + (string list \<times> item_value option)" where
  "MeasurementsAndQualitativeEvaluations_finding_category self =
     (case self of
        [] \<Rightarrow> Inl (IndexError ''list index out of range'')
      | root_item # _ \<Rightarrow>
          (case find_content_items root_item (Some (Code ''276214006'' ''SCT'' ''Finding category'')) (Some CODE) None of
             Inl e \<Rightarrow> Inl e
           | Inr matches \<Rightarrow>
               (let log = (if length matches > 1
                           then [''found more than one Finding category content item''] else [])
                in if length matches > 0 then Inr (log, Some (value_of (matches ! 0)))
                   else Inr (log, None))))"

definition MeasurementsAndQualitativeEvaluations_finding_type ::
  "content_item list \<Rightarrow> error + (string list \<times> item_value option)" where
  "MeasurementsAndQualitativeEvaluations_finding_type self =
     (case self of
        [] \<Rightarrow> Inl (IndexError ''list index out of range'')
      | root_item # _ \<Rightarrow>
          (case find_content_items root_item (Some DCM_Finding) (Some CODE) None of
             Inl e \<Rightarrow> Inl e
           | Inr matches \<Rightarrow>
               (let log = (if length matches > 1
                           then [''found more than one Finding content item''] else [])
                in if length matches > 0 then Inr (log, Some (value_of (matches ! 0)))
                   else Inr (log, None))))"

definition MeasurementsAndQualitativeEvaluations_finding_sites ::
  "content_item list \<Rightarrow> error + (string list \<times> content_item list)" where
  "MeasurementsAndQualitativeEvaluations_finding_sites self =
     (case self of
        [] \<Rightarrow> Inl (IndexError ''list index out of range'')
      | root_item # _ \<Rightarrow>
          (case find_content_items root_item (Some SCT_FindingSite) (Some CODE) None of
             Inl e \<Rightarrow> Inl e
           | Inr matches \<Rightarrow> if length matches > 0 then Inr ([], matches) else Inr ([], [])))"

text \<open>
  The vocabulary of the claim about the accessors. A child matches a concept name and a
  value type. On a first item that has a content sequence, an accessor of a singular field
  returns \<open>None\<close> when no child matches, and the value of the first matching child in
  document order when there is one, whatever follows it; an accessor of a list-valued field
  returns the matching children in document order. On a first item without content
  sequence an accessor either returns its default or raises \<^verbatim>\<open>AttributeError\<close>.
\<close>

definition item_matches :: "coded_concept \<Rightarrow> value_type \<Rightarrow> content_item \<Rightarrow> bool" where
  "item_matches n t item \<longleftrightarrow> code_eq (name item) n \<and> value_type item = t"

definition returns_first_match ::
  "(content_item list \<Rightarrow> error + (string list \<times> item_value option)) \<Rightarrow>
     coded_concept \<Rightarrow> value_type \<Rightarrow> bool" where
  "returns_first_match accessor n t \<longleftrightarrow>
     (\<forall>root rest items.
        ContentSequence root = Some items \<longrightarrow>
        ((\<forall>item \<in> set items. \<not> item_matches n t item) \<longrightarrow>
           (\<exists>log. accessor (root # rest) = Inr (log, None))) \<and>
        (\<forall>before m after.
           items = before @ m # after \<and> item_matches n t m \<and>
           (\<forall>item \<in> set before. \<not> item_matches n t item) \<longrightarrow>
           (\<exists>log. accessor (root # rest) = Inr (log, Some (value_of m)))))"

definition returns_all_matches ::
  "(content_item list \<Rightarrow> error + (string list \<times> content_item list)) \<Rightarrow>
     coded_concept \<Rightarrow> value_type \<Rightarrow> bool" where
  "returns_all_matches accessor n t \<longleftrightarrow>
     (\<forall>root rest items.
        ContentSequence root = Some items \<longrightarrow>
        (\<exists>log. accessor (root # rest) = Inr (log, filter (item_matches n t) items)))"

definition default_without_content ::
  "(content_item list \<Rightarrow> error + (string list \<times> 'a)) \<Rightarrow> 'a \<Rightarrow> bool" where
  "default_without_content accessor dflt \<longleftrightarrow>
     (\<forall>root rest. ContentSequence root = None \<longrightarrow> accessor (root # rest) = Inr ([], dflt))"

definition raises_without_content ::
  "(content_item list \<Rightarrow> error + (string list \<times> 'a)) \<Rightarrow> bool" where
  "raises_without_content accessor \<longleftrightarrow>
     (\<forall>root rest.
        ContentSequence root = None \<longrightarrow>
        accessor (root # rest) = Inl (AttributeError ''ContentSequence''))"

section \<open>The generic dataset representation\<close>

text \<open>
  Modelled from the spec: the generic dataset a content item is serialized to, the
  serialization, and the parser \<^verbatim>\<open>ContentSequence.from_sequence\<close>
  (highdicom/sr/value_types.py and the dataset library are not among the sources). The
  specification, section 6: "The dataset representation carries attribute-style fields
  (ValueType, ContentSequence, ConceptNameCodeSequence,
  ContentTemplateSequence[0].TemplateIdentifier, etc.)"; section 4.1: "serializing a
  ContentSequence to the generic dataset format and re-parsing with from_sequence must
  reproduce equal ContentItems in the same order (lossless for all defined variants)".
  A dataset has the attribute \<^verbatim>\<open>ValueType\<close> as the name of the value type, the
  concept name, and the attributes of the value of that type; an attribute it lacks is
  \<open>None\<close>.
\<close>

datatype dataset = Dataset
  (ds_ValueType: string)
  (ds_ConceptNameCodeSequence: coded_concept)
  (ds_RelationshipType: "string option")
  (ds_ConceptCodeSequence: "coded_concept option")
  (ds_TextValue: "string option")
  (ds_MeasuredValueSequence: "(int \<times> coded_concept) option")
  (ds_NumericValueQualifierCodeSequence: "coded_concept option")
  (ds_UID: "string option")
  (ds_PersonName: "string option")
  (ds_ReferencedSOPSequence: "(string \<times> string) option")
  (ds_GraphicType: "string option")
  (ds_GraphicData: "int list option")
  (ds_DateTime: "string option")
  (ds_TemplateIdentifier: "string option")
  (ds_ContentSequence: "dataset list option")

fun value_type_name :: "value_type \<Rightarrow> string" where
  "value_type_name CODE = ''CODE''"
| "value_type_name TEXT = ''TEXT''"
| "value_type_name NUM = ''NUM''"
| "value_type_name UIDREF = ''UIDREF''"
| "value_type_name PNAME = ''PNAME''"
| "value_type_name IMAGE = ''IMAGE''"
| "value_type_name COMPOSITE = ''COMPOSITE''"
| "value_type_name CONTAINER = ''CONTAINER''"
| "value_type_name SCOORD = ''SCOORD''"
| "value_type_name SCOORD3D = ''SCOORD3D''"
| "value_type_name DATETIME = ''DATETIME''"

fun relationship_type_name :: "relationship_type \<Rightarrow> string" where
  "relationship_type_name CONTAINS = ''CONTAINS''"
| "relationship_type_name HAS_PROPERTIES = ''HAS PROPERTIES''"
| "relationship_type_name HAS_OBS_CONTEXT = ''HAS OBS CONTEXT''"
| "relationship_type_name HAS_ACQ_CONTEXT = ''HAS ACQ CONTEXT''"
| "relationship_type_name HAS_CONCEPT_MOD = ''HAS CONCEPT MOD''"
| "relationship_type_name SELECTED_FROM = ''SELECTED FROM''"
| "relationship_type_name INFERRED_FROM = ''INFERRED FROM''"

fun graphic_type_name :: "graphic_type \<Rightarrow> string" where
  "graphic_type_name CIRCLE = ''CIRCLE''"
| "graphic_type_name ELLIPSE = ''ELLIPSE''"
| "graphic_type_name MULTIPOINT = ''MULTIPOINT''"
| "graphic_type_name POINT = ''POINT''"
| "graphic_type_name POLYLINE = ''POLYLINE''"

fun graphic_type_3d_name :: "graphic_type_3d \<Rightarrow> string" where
  "graphic_type_3d_name ELLIPSE_3D = ''ELLIPSE''"
| "graphic_type_3d_name ELLIPSOID = ''ELLIPSOID''"
| "graphic_type_3d_name MULTIPOINT_3D = ''MULTIPOINT''"
| "graphic_type_3d_name POINT_3D = ''POINT''"
| "graphic_type_3d_name POLYLINE_3D = ''POLYLINE''"
| "graphic_type_3d_name POLYGON = ''POLYGON''"

definition parse_name :: "('a \<Rightarrow> string) \<Rightarrow> 'a list \<Rightarrow> string \<Rightarrow> 'a option" where
  "parse_name to_name values s = find (\<lambda>v. to_name v = s) values"

definition all_value_types :: "value_type list" where
  "all_value_types =
     [CODE, TEXT, NUM, UIDREF, PNAME, IMAGE, COMPOSITE, CONTAINER, SCOORD, SCOORD3D, DATETIME]"

definition all_relationship_types :: "relationship_type list" where
  "all_relationship_types =
     [CONTAINS, HAS_PROPERTIES, HAS_OBS_CONTEXT, HAS_ACQ_CONTEXT, HAS_CONCEPT_MOD,
      SELECTED_FROM, INFERRED_FROM]"

definition all_graphic_types :: "graphic_type list" where
  "all_graphic_types = [CIRCLE, ELLIPSE, MULTIPOINT, POINT, POLYLINE]"

definition all_graphic_types_3d :: "graphic_type_3d list" where
  "all_graphic_types_3d = [ELLIPSE_3D, ELLIPSOID, MULTIPOINT_3D, POINT_3D, POLYLINE_3D, POLYGON]"

fun flatten2 :: "(int \<times> int) list \<Rightarrow> int list" where
  "flatten2 [] = []"
| "flatten2 ((x, y) # ps) = x # y # flatten2 ps"

fun unflatten2 :: "int list \<Rightarrow> (int \<times> int) list option" where
  "unflatten2 [] = Some []"
| "unflatten2 [x] = None"
| "unflatten2 (x # y # zs) = map_option (\<lambda>ps. (x, y) # ps) (unflatten2 zs)"

fun flatten3 :: "(int \<times> int \<times> int) list \<Rightarrow> int list" where
  "flatten3 [] = []"
| "flatten3 ((x, y, z) # ps) = x # y # z # flatten3 ps"

fun unflatten3 :: "int list \<Rightarrow> (int \<times> int \<times> int) list option" where
  "unflatten3 [] = Some []"
| "unflatten3 [x] = None"
| "unflatten3 [x, y] = None"
| "unflatten3 (x # y # z # ws) = map_option (\<lambda>ps. (x, y, z) # ps) (unflatten3 ws)"

definition empty_dataset :: "string \<Rightarrow> coded_concept \<Rightarrow> dataset" where
  "empty_dataset vt n =
     Dataset vt n None None None None None None None None None None None None None"

fun value_to_dataset :: "item_value \<Rightarrow> dataset \<Rightarrow> dataset" where
  "value_to_dataset (CodeValue c) (Dataset vt n r _ tv mv q u p s g gd dt tid cs) =
     Dataset vt n r (Some c) tv mv q u p s g gd dt tid cs"
| "value_to_dataset (TextValue t) (Dataset vt n r c _ mv q u p s g gd dt tid cs) =
     Dataset vt n r c (Some t) mv q u p s g gd dt tid cs"
| "value_to_dataset (NumValue v unit qual) (Dataset vt n r c tv _ _ u p s g gd dt tid cs) =
     Dataset vt n r c tv (Some (v, unit)) qual u p s g gd dt tid cs"
| "value_to_dataset (UIDRefValue v) (Dataset vt n r c tv mv q _ p s g gd dt tid cs) =
     Dataset vt n r c tv mv q (Some v) p s g gd dt tid cs"
| "value_to_dataset (PnameValue v) (Dataset vt n r c tv mv q u _ s g gd dt tid cs) =
     Dataset vt n r c tv mv q u (Some v) s g gd dt tid cs"
| "value_to_dataset (ImageValue cls inst) (Dataset vt n r c tv mv q u p _ g gd dt tid cs) =
     Dataset vt n r c tv mv q u p (Some (cls, inst)) g gd dt tid cs"
| "value_to_dataset (CompositeValue cls inst) (Dataset vt n r c tv mv q u p _ g gd dt tid cs) =
     Dataset vt n r c tv mv q u p (Some (cls, inst)) g gd dt tid cs"
| "value_to_dataset ContainerValue d = d"
| "value_to_dataset (ScoordValue gt pts) (Dataset vt n r c tv mv q u p s _ _ dt tid cs) =
     Dataset vt n r c tv mv q u p s (Some (graphic_type_name gt)) (Some (flatten2 pts)) dt tid cs"
| "value_to_dataset (Scoord3DValue gt pts) (Dataset vt n r c tv mv q u p s _ _ dt tid cs) =
     Dataset vt n r c tv mv q u p s (Some (graphic_type_3d_name gt)) (Some (flatten3 pts)) dt tid cs"
| "value_to_dataset (DateTimeValue v) (Dataset vt n r c tv mv q u p s g gd _ tid cs) =
     Dataset vt n r c tv mv q u p s g gd (Some v) tid cs"

fun to_dataset :: "content_item \<Rightarrow> dataset" where
  "to_dataset (ContentItem n r v tid cs) =
     (case value_to_dataset v (empty_dataset (value_type_name (value_type_of v)) n) of
        Dataset vt n' _ c tv mv q u p s g gd dt _ _ \<Rightarrow>
          Dataset vt n' (map_option relationship_type_name r) c tv mv q u p s g gd dt tid
            (map_option (map to_dataset) cs))"

definition attribute :: "string \<Rightarrow> 'a option \<Rightarrow> error + 'a" where
  "attribute attr v = (case v of None \<Rightarrow> Inl (AttributeError attr) | Some x \<Rightarrow> Inr x)"

definition value_from_dataset :: "value_type \<Rightarrow> dataset \<Rightarrow> error + item_value" where
  "value_from_dataset vt d =
     (case vt of
        CODE \<Rightarrow> map_sum id CodeValue (attribute ''ConceptCodeSequence'' (ds_ConceptCodeSequence d))
      | TEXT \<Rightarrow> map_sum id TextValue (attribute ''TextValue'' (ds_TextValue d))
      | NUM \<Rightarrow>
          map_sum id (\<lambda>(v, unit). NumValue v unit (ds_NumericValueQualifierCodeSequence d))
            (attribute ''MeasuredValueSequence'' (ds_MeasuredValueSequence d))
      | UIDREF \<Rightarrow> map_sum id UIDRefValue (attribute ''UID'' (ds_UID d))
      | PNAME \<Rightarrow> map_sum id PnameValue (attribute ''PersonName'' (ds_PersonName d))
      | IMAGE \<Rightarrow>
          map_sum id (\<lambda>(cls, inst). ImageValue cls inst)
            (attribute ''ReferencedSOPSequence'' (ds_ReferencedSOPSequence d))
      | COMPOSITE \<Rightarrow>
          map_sum id (\<lambda>(cls, inst). CompositeValue cls inst)
            (attribute ''ReferencedSOPSequence'' (ds_ReferencedSOPSequence d))
      | CONTAINER \<Rightarrow> Inr ContainerValue
      | SCOORD \<Rightarrow>
          (case (Option.bind (ds_GraphicType d) (parse_name graphic_type_name all_graphic_types),
                 Option.bind (ds_GraphicData d) unflatten2) of
             (Some gt, Some pts) \<Rightarrow> Inr (ScoordValue gt pts)
           | _ \<Rightarrow> Inl (ValueError ''GraphicType or GraphicData''))
      | SCOORD3D \<Rightarrow>
          (case (Option.bind (ds_GraphicType d) (parse_name graphic_type_3d_name all_graphic_types_3d),
                 Option.bind (ds_GraphicData d) unflatten3) of
             (Some gt, Some pts) \<Rightarrow> Inr (Scoord3DValue gt pts)
           | _ \<Rightarrow> Inl (ValueError ''GraphicType or GraphicData''))
      | DATETIME \<Rightarrow> map_sum id DateTimeValue (attribute ''DateTime'' (ds_DateTime d)))"

fun collect :: "(error + 'a) list \<Rightarrow> error + 'a list" where
  "collect [] = Inr []"
| "collect (Inl e # _) = Inl e"
| "collect (Inr x # rs) = (case collect rs of Inl e \<Rightarrow> Inl e | Inr xs \<Rightarrow> Inr (x # xs))"

fun from_dataset :: "dataset \<Rightarrow> error + content_item" where
  "from_dataset (Dataset vt n r c tv mv q u p s g gd dt tid cs) =
     (case parse_name value_type_name all_value_types vt of
        None \<Rightarrow> Inl (ValueError ''ValueType'')
      | Some t \<Rightarrow>
          (case (case r of
                   None \<Rightarrow> Inr None
                 | Some rn \<Rightarrow>
                     (case parse_name relationship_type_name all_relationship_types rn of
                        None \<Rightarrow> Inl (ValueError ''RelationshipType'')
                      | Some rt \<Rightarrow> Inr (Some rt))) of
             Inl e \<Rightarrow> Inl e
           | Inr rel \<Rightarrow>
               (case value_from_dataset t (Dataset vt n r c tv mv q u p s g gd dt tid cs) of
                  Inl e \<Rightarrow> Inl e
                | Inr v \<Rightarrow>
                    (case cs of
                       None \<Rightarrow> Inr (ContentItem n rel v tid None)
                     | Some ds \<Rightarrow>
                         (case collect (map from_dataset ds) of
                            Inl e \<Rightarrow> Inl e
                          | Inr items \<Rightarrow> Inr (ContentItem n rel v tid (Some items)))))))"

text \<open>
  A content sequence is its items and the flag \<^verbatim>\<open>is_root\<close>. It is serialized item by
  item, and \<^verbatim>\<open>from_sequence\<close> parses the datasets in their order.
\<close>

definition serialize :: "content_item list \<Rightarrow> dataset list" where
  "serialize items = map to_dataset items"

definition ContentSequence_from_sequence ::
  "dataset list \<Rightarrow> bool \<Rightarrow> error + (content_item list \<times> bool)" where
  "ContentSequence_from_sequence sequence is_root =
     (case collect (map from_dataset sequence) of
        Inl e \<Rightarrow> Inl e
      | Inr items \<Rightarrow> Inr (items, is_root))"

section \<open>Observer and subject contexts of a measurement report\<close>

definition DCM_ObserverType :: coded_concept where
  "DCM_ObserverType = Code ''121005'' ''DCM'' ''Observer Type''"

definition DCM_Person :: coded_concept where
  "DCM_Person = Code ''121006'' ''DCM'' ''Person''"

definition DCM_Device :: coded_concept where
  "DCM_Device = Code ''121007'' ''DCM'' ''Device''"

definition DCM_SubjectClass :: coded_concept where
  "DCM_SubjectClass = Code ''121024'' ''DCM'' ''Subject Class''"

definition DCM_Fetus :: coded_concept where
  "DCM_Fetus = Code ''121026'' ''DCM'' ''Fetus''"

definition DCM_Specimen :: coded_concept where
  "DCM_Specimen = Code ''121027'' ''DCM'' ''Specimen''"

text \<open>
  Python's \<^verbatim>\<open>xs[start:stop]\<close>: a negative bound counts from the end, both bounds are
  clipped to the list, and a stop before the start gives the empty list.
\<close>

definition py_slice :: "'a list \<Rightarrow> int \<Rightarrow> int \<Rightarrow> 'a list" where
  "py_slice xs start stop =
     (let n = int (length xs);
          lo = (if start < 0 then max (n + start) 0 else min start n);
          hi = (if stop < 0 then max (n + stop) 0 else min stop n)
      in take (nat (hi - lo)) (drop (nat lo) xs))"

text \<open>\<^verbatim>\<open>enumerate(xs, start)\<close>.\<close>

definition enumerate_from :: "nat \<Rightarrow> 'a list \<Rightarrow> (nat \<times> 'a) list" where
  "enumerate_from start xs = zip [start ..< start + length xs] xs"

text \<open>
  The loop shared by the \<^verbatim>\<open>from_sequence\<close> methods of the five context templates: for
  every item of the sequence and every pair of \<^verbatim>\<open>attr_codes\<close> whose concept is the name of
  the item, \<^verbatim>\<open>kwargs[param] = content_item.value\<close>. The value read from an item is its
  payload, and a constructor given it stores it as the payload of the item it builds.
\<close>

definition collect_kwargs ::
  "(string \<times> coded_concept) list \<Rightarrow> content_item list \<Rightarrow> (string \<rightharpoonup> item_value)" where
  "collect_kwargs attr_codes sequence =
     fold (\<lambda>content_item kwargs.
             fold (\<lambda>(param, n) kwargs.
                     if code_eq (name content_item) n
                     then kwargs(param \<mapsto> value_of content_item) else kwargs)
               attr_codes kwargs)
       sequence Map.empty"

definition opt_item ::
  "coded_concept \<Rightarrow> item_value option \<Rightarrow> content_item list" where
  "opt_item n v =
     (case v of None \<Rightarrow> [] | Some x \<Rightarrow> [ContentItem n (Some HAS_OBS_CONTEXT) x None None])"

definition PersonObserverIdentifyingAttributes_init ::
  "item_value \<Rightarrow> item_value option \<Rightarrow> item_value option \<Rightarrow> item_value option \<Rightarrow>
     item_value option \<Rightarrow> content_item list" where
  "PersonObserverIdentifyingAttributes_init nm login_name organization_name
       role_in_organization role_in_procedure =
     [ContentItem (Code ''121008'' ''DCM'' ''Person Observer Name'') (Some HAS_OBS_CONTEXT) nm
        None None] @
     opt_item (Code ''128774'' ''DCM'' ''Person Observer's Login Name'') login_name @
     opt_item (Code ''121009'' ''DCM'' ''Person Observer's Organization Name'') organization_name @
     opt_item (Code ''121010'' ''DCM'' ''Person Observer's Role in the Organization'')
       role_in_organization @
     opt_item (Code ''121011'' ''DCM'' ''Person Observer's Role in this Procedure'')
       role_in_procedure"

definition PersonObserverIdentifyingAttributes_from_sequence ::
  "content_item list \<Rightarrow> error + content_item list" where
  "PersonObserverIdentifyingAttributes_from_sequence sequence =
     (let attr_codes =
            [(''name'', Code ''121008'' ''DCM'' ''Person Observer Name''),
             (''login_name'', Code ''128774'' ''DCM'' ''Person Observer's Login Name''),
             (''organization_name'',
              Code ''121009'' ''DCM'' ''Person Observer's Organization Name''),
             (''role_in_organization'',
              Code ''121010'' ''DCM'' ''Person Observer's Role in the Organization''),
             (''role_in_procedure'',
              Code ''121011'' ''DCM'' ''Person Observer's Role in this Procedure'')];
          kwargs = collect_kwargs attr_codes sequence
      in case kwargs ''name'' of
           None \<Rightarrow> Inl (TypeError ''missing 1 required positional argument: name'')
         | Some nm \<Rightarrow>
             Inr (PersonObserverIdentifyingAttributes_init nm (kwargs ''login_name'')
                    (kwargs ''organization_name'') (kwargs ''role_in_organization'')
                    (kwargs ''role_in_procedure'')))"

definition DeviceObserverIdentifyingAttributes_init ::
  "item_value \<Rightarrow> item_value option \<Rightarrow> item_value option \<Rightarrow> item_value option \<Rightarrow>
     item_value option \<Rightarrow> item_value option \<Rightarrow> item_value option \<Rightarrow> content_item list" where
  "DeviceObserverIdentifyingAttributes_init uid nm manufacturer_name model_name serial_number
       physical_location role_in_procedure =
     [ContentItem (Code ''121012'' ''DCM'' ''Device Observer UID'') (Some HAS_OBS_CONTEXT) uid
        None None] @
     opt_item (Code ''121013'' ''DCM'' ''Device Observer Name'') nm @
     opt_item (Code ''121014'' ''DCM'' ''Device Observer Manufacturer'') manufacturer_name @
     opt_item (Code ''121015'' ''DCM'' ''Device Observer Model Name'') model_name @
     opt_item (Code ''121016'' ''DCM'' ''Device Observer Serial Number'') serial_number @
     opt_item (Code ''121017'' ''DCM'' ''Device Observer Physical Location During Observation'')
       physical_location @
     opt_item (Code ''113876'' ''DCM'' ''Device Role in Procedure'') role_in_procedure"

definition DeviceObserverIdentifyingAttributes_from_sequence ::
  "content_item list \<Rightarrow> error + content_item list" where
  "DeviceObserverIdentifyingAttributes_from_sequence sequence =
     (let attr_codes =
            [(''name'', Code ''121013'' ''DCM'' ''Device Observer Name''),
             (''uid'', Code ''121012'' ''DCM'' ''Device Observer UID''),
             (''manufacturer_name'', Code ''121014'' ''DCM'' ''Device Observer Manufacturer''),
             (''model_name'', Code ''121015'' ''DCM'' ''Device Observer Model Name''),
             (''serial_number'', Code ''121016'' ''DCM'' ''Device Observer Serial Number''),
             (''physical_location'',
              Code ''121017'' ''DCM'' ''Device Observer Physical Location During Observation'')];
          kwargs = collect_kwargs attr_codes sequence
      in case kwargs ''uid'' of
           None \<Rightarrow> Inl (TypeError ''missing 1 required positional argument: uid'')
         | Some uid \<Rightarrow>
             Inr (DeviceObserverIdentifyingAttributes_init uid (kwargs ''name'')
                    (kwargs ''manufacturer_name'') (kwargs ''model_name'')
                    (kwargs ''serial_number'') (kwargs ''physical_location'') None))"

text \<open>The classes of the attributes an observer context is built from.\<close>

datatype observer_attributes =
    PersonObserverIdentifyingAttributes "content_item list"
  | DeviceObserverIdentifyingAttributes "content_item list"

fun observer_attribute_items :: "observer_attributes \<Rightarrow> content_item list" where
  "observer_attribute_items (PersonObserverIdentifyingAttributes items) = items"
| "observer_attribute_items (DeviceObserverIdentifyingAttributes items) = items"

text \<open>\<^verbatim>\<open>item.value == code\<close> for the payload of an item.\<close>

definition value_is :: "item_value \<Rightarrow> coded_concept \<Rightarrow> bool" where
  "value_is v c = (case v of CodeValue x \<Rightarrow> code_eq x c | _ \<Rightarrow> False)"

definition ObserverContext_init ::
  "item_value \<Rightarrow> observer_attributes \<Rightarrow> error + content_item list" where
  "ObserverContext_init observer_type observer_identifying_attributes =
     (let observer_type_item =
            ContentItem (Code ''121005'' ''DCM'' ''Observer Type'') (Some HAS_OBS_CONTEXT)
              observer_type None None
      in if value_is observer_type DCM_Person then
           (case observer_identifying_attributes of
              PersonObserverIdentifyingAttributes items \<Rightarrow> Inr (observer_type_item # items)
            | _ \<Rightarrow> Inl (TypeError ''Observer identifying attributes must have type PersonObserverIdentifyingAttributes.''))
         else if value_is observer_type DCM_Device then
           (case observer_identifying_attributes of
              DeviceObserverIdentifyingAttributes items \<Rightarrow> Inr (observer_type_item # items)
            | _ \<Rightarrow> Inl (TypeError ''Observer identifying attributes must have type DeviceObserverIdentifyingAttributes.''))
         else Inl (ValueError ''Argument oberver_type must be either Person or Device.''))"

text \<open>
  The loop of \<^verbatim>\<open>get_observer_contexts\<close> over \<^verbatim>\<open>matches\<close>: the pairs still to visit
  are the argument, so that \<^verbatim>\<open>matches[i + 1][0]\<close> is the index of the next pair and the
  \<^verbatim>\<open>IndexError\<close> of the last one gives \<^verbatim>\<open>next_index = -1\<close>.
\<close>

fun observer_contexts_loop ::
  "content_item list \<Rightarrow> coded_concept option \<Rightarrow> (nat \<times> content_item) list \<Rightarrow>
     error + content_item list list" where
  "observer_contexts_loop content observer_type [] = Inr []"
| "observer_contexts_loop content observer_type ((index, item) # rest) =
     (if (case observer_type of None \<Rightarrow> False | Some t \<Rightarrow> \<not> value_is (value_of item) t) then
        observer_contexts_loop content observer_type rest
      else
        (let next_index = (case rest of [] \<Rightarrow> - 1 | (j, _) # _ \<Rightarrow> int j)
         in case (if value_is (value_of item) DCM_Device then
                    map_sum id DeviceObserverIdentifyingAttributes
                      (DeviceObserverIdentifyingAttributes_from_sequence
                         (py_slice content (int index) next_index))
                  else if value_is (value_of item) DCM_Person then
                    map_sum id PersonObserverIdentifyingAttributes
                      (PersonObserverIdentifyingAttributes_from_sequence
                         (py_slice content (int index) next_index))
                  else Inl (ValueError ''Unexpected observer type.'')) of
              Inl e \<Rightarrow> Inl e
            | Inr attributes \<Rightarrow>
                (case ObserverContext_init (value_of item) attributes of
                   Inl e \<Rightarrow> Inl e
                 | Inr ctx \<Rightarrow>
                     (case observer_contexts_loop content observer_type rest of
                        Inl e \<Rightarrow> Inl e
                      | Inr observer_contexts \<Rightarrow> Inr (ctx # observer_contexts)))))"

definition get_observer_contexts ::
  "content_item list \<Rightarrow> coded_concept option \<Rightarrow> error + content_item list list" where
  "get_observer_contexts self observer_type =
     (case self of
        [] \<Rightarrow> Inl (IndexError ''list index out of range'')
      | root_item # _ \<Rightarrow>
          (case ContentSequence root_item of
             None \<Rightarrow> Inl (AttributeError ''ContentSequence'')
           | Some content \<Rightarrow>
               (let matches =
                      filter (\<lambda>(i, item). code_eq (name item) DCM_ObserverType)
                        (enumerate_from 1 content)
                in observer_contexts_loop content observer_type matches)))"

definition SubjectContextFetus_from_sequence :: "content_item list \<Rightarrow> error + content_item list" where
  "SubjectContextFetus_from_sequence sequence =
     (let attr_codes = [(''subject_id'', Code ''121030'' ''DCM'' ''Subject ID'')];
          kwargs = collect_kwargs attr_codes sequence
      in case kwargs ''subject_id'' of
           None \<Rightarrow> Inl (TypeError ''missing 1 required positional argument: subject_id'')
         | Some subject_id \<Rightarrow>
             Inr [ContentItem (Code ''121030'' ''DCM'' ''Subject ID'') (Some HAS_OBS_CONTEXT)
                    subject_id None None])"

definition SubjectContextSpecimen_from_sequence ::
  "content_item list \<Rightarrow> error + content_item list" where
  "SubjectContextSpecimen_from_sequence sequence =
     (let attr_codes =
            [(''uid'', Code ''121039'' ''DCM'' ''Specimen UID''),
             (''identifier'', Code ''121041'' ''DCM'' ''Specimen Identifier''),
             (''container_identifier'', Code ''111700'' ''DCM'' ''Specimen Container Identifier''),
             (''specimen_type'', Code ''371439000'' ''SCT'' ''Specimen Type'')];
          kwargs = collect_kwargs attr_codes sequence
      in case kwargs ''uid'' of
           None \<Rightarrow> Inl (TypeError ''missing 1 required positional argument: uid'')
         | Some uid \<Rightarrow>
             Inr ([ContentItem (Code ''121039'' ''DCM'' ''Specimen UID'') (Some HAS_OBS_CONTEXT)
                     uid None None] @
                  opt_item (Code ''121041'' ''DCM'' ''Specimen Identifier'') (kwargs ''identifier'') @
                  opt_item (Code ''371439000'' ''SCT'' ''Specimen Type'') (kwargs ''specimen_type'') @
                  opt_item (Code ''111700'' ''DCM'' ''Specimen Container Identifier'')
                    (kwargs ''container_identifier'')))"

definition SubjectContextDevice_from_sequence ::
  "content_item list \<Rightarrow> error + content_item list" where
  "SubjectContextDevice_from_sequence sequence =
     (let attr_codes =
            [(''name'', Code ''121193'' ''DCM'' ''Device Subject Name''),
             (''uid'', Code ''121198'' ''DCM'' ''Device Subject UID''),
             (''manufacturer_name'', Code ''121194'' ''DCM'' ''Device Subject Manufacturer''),
             (''model_name'', Code ''121195'' ''DCM'' ''Device Subject Model Name''),
             (''serial_number'', Code ''121196'' ''DCM'' ''Device Subject Serial Number''),
             (''physical_location'',
              Code ''121197'' ''DCM'' ''Device Subject Physical Location During Observation'')];
          kwargs = collect_kwargs attr_codes sequence
      in case kwargs ''name'' of
           None \<Rightarrow> Inl (TypeError ''missing 1 required positional argument: name'')
         | Some nm \<Rightarrow>
             Inr ([ContentItem (Code ''121193'' ''DCM'' ''Device Subject Name'')
                     (Some HAS_OBS_CONTEXT) nm None None] @
                  opt_item (Code ''121198'' ''DCM'' ''Device Subject UID'') (kwargs ''uid'') @
                  opt_item (Code ''121194'' ''DCM'' ''Device Subject Manufacturer'')
                    (kwargs ''manufacturer_name'') @
                  opt_item (Code ''121195'' ''DCM'' ''Device Subject Model Name'')
                    (kwargs ''model_name'') @
                  opt_item (Code ''121196'' ''DCM'' ''Device Subject Serial Number'')
                    (kwargs ''serial_number'') @
                  opt_item (Code ''121197'' ''DCM'' ''Device Subject Physical Location During Observation'')
                    (kwargs ''physical_location'')))"

datatype subject_attributes =
    SubjectContextSpecimen "content_item list"
  | SubjectContextFetus "content_item list"
  | SubjectContextDevice "content_item list"

definition SubjectContext_init ::
  "item_value \<Rightarrow> subject_attributes \<Rightarrow> error + content_item list" where
  "SubjectContext_init subject_class subject_class_specific_context =
     (let subject_class_item =
            ContentItem (Code ''121024'' ''DCM'' ''Subject Class'') (Some HAS_OBS_CONTEXT)
              subject_class None None
      in case subject_class_specific_context of
           SubjectContextSpecimen items \<Rightarrow>
             if \<not> value_is subject_class DCM_Specimen then
               Inl (TypeError ''Subject class specific context does not match subject class Specimen.'')
             else Inr (subject_class_item # items)
         | SubjectContextFetus items \<Rightarrow>
             if \<not> value_is subject_class DCM_Fetus then
               Inl (TypeError ''Subject class specific context does not match subject class Fetus.'')
             else Inr (subject_class_item # items)
         | SubjectContextDevice items \<Rightarrow>
             if \<not> value_is subject_class DCM_Device then
               Inl (TypeError ''Subject class specific context does not match subject class Device.'')
             else Inr (subject_class_item # items))"

fun subject_contexts_loop ::
  "content_item list \<Rightarrow> coded_concept option \<Rightarrow> (nat \<times> content_item) list \<Rightarrow>
     error + content_item list list" where
  "subject_contexts_loop content subject_class [] = Inr []"
| "subject_contexts_loop content subject_class ((index, item) # rest) =
     (if (case subject_class of None \<Rightarrow> False | Some t \<Rightarrow> \<not> value_is (value_of item) t) then
        subject_contexts_loop content subject_class rest
      else
        (let next_index = (case rest of [] \<Rightarrow> - 1 | (j, _) # _ \<Rightarrow> int j)
         in case (if value_is (value_of item) DCM_Specimen then
                    map_sum id SubjectContextSpecimen
                      (SubjectContextSpecimen_from_sequence
                         (py_slice content (int index) next_index))
                  else if value_is (value_of item) DCM_Fetus then
                    map_sum id SubjectContextFetus
                      (SubjectContextFetus_from_sequence
                         (py_slice content (int index) next_index))
                  else if value_is (value_of item) DCM_Device then
                    map_sum id SubjectContextDevice
                      (SubjectContextDevice_from_sequence
                         (py_slice content (int index) next_index))
                  else Inl (ValueError ''Unexpected subject class.'')) of
              Inl e \<Rightarrow> Inl e
            | Inr attributes \<Rightarrow>
                (case SubjectContext_init (value_of item) attributes of
                   Inl e \<Rightarrow> Inl e
                 | Inr ctx \<Rightarrow>
                     (case subject_contexts_loop content subject_class rest of
                        Inl e \<Rightarrow> Inl e
                      | Inr subject_contexts \<Rightarrow> Inr (ctx # subject_contexts)))))"

definition get_subject_contexts ::
  "content_item list \<Rightarrow> coded_concept option \<Rightarrow> error + content_item list list" where
  "get_subject_contexts self subject_class =
     (case self of
        [] \<Rightarrow> Inl (IndexError ''list index out of range'')
      | root_item # _ \<Rightarrow>
          (case ContentSequence root_item of
             None \<Rightarrow> Inl (AttributeError ''ContentSequence'')
           | Some content \<Rightarrow>
               (let matches =
                      filter (\<lambda>(i, item). code_eq (name item) DCM_SubjectClass)
                        (map (\<lambda>(i, item). (i + 1, item)) (enumerate_from 0 content))
                in subject_contexts_loop content subject_class matches)))"

section \<open>Queries on the measurement groups of a report\<close>

definition DCM_ImagingMeasurements :: coded_concept where
  "DCM_ImagingMeasurements = Code ''126010'' ''DCM'' ''Imaging Measurements''"

definition DCM_SourceImageForSegmentation :: coded_concept where
  "DCM_SourceImageForSegmentation = Code ''121233'' ''DCM'' ''Source Image for Segmentation''"

definition SOURCE :: coded_concept where
  "SOURCE = Code ''260753009'' ''SCT'' ''Source''"

text \<open>\<^verbatim>\<open>_contains_code_items\<close>: the loop over the matched items returns at the first hit.\<close>

fun code_items_loop :: "coded_concept option \<Rightarrow> content_item list \<Rightarrow> bool" where
  "code_items_loop v [] = False"
| "code_items_loop v (item # matched_items) =
     (case v of
        Some c \<Rightarrow> if value_is (value_of item) c then True else code_items_loop v matched_items
      | None \<Rightarrow> True)"

definition contains_code_items ::
  "content_item \<Rightarrow> coded_concept \<Rightarrow> coded_concept option \<Rightarrow> relationship_type option \<Rightarrow>
     error + bool" where
  "contains_code_items parent_item n v rel =
     (case find_content_items parent_item (Some n) (Some CODE) rel of
        Inl e \<Rightarrow> Inl e
      | Inr matched_items \<Rightarrow> Inr (code_items_loop v matched_items))"

text \<open>\<^verbatim>\<open>_contains_uidref_items\<close>: \<^verbatim>\<open>item.UID\<close> is the payload of a UIDREF item.\<close>

fun uidref_items_loop :: "string option \<Rightarrow> content_item list \<Rightarrow> bool" where
  "uidref_items_loop v [] = False"
| "uidref_items_loop v (item # matched_items) =
     (case v of
        Some u \<Rightarrow> if value_of item = UIDRefValue u then True else uidref_items_loop v matched_items
      | None \<Rightarrow> True)"

definition contains_uidref_items ::
  "content_item \<Rightarrow> coded_concept \<Rightarrow> string option \<Rightarrow> relationship_type option \<Rightarrow>
     error + bool" where
  "contains_uidref_items parent_item n v rel =
     (case find_content_items parent_item (Some n) (Some UIDREF) rel of
        Inl e \<Rightarrow> Inl e
      | Inr matched_items \<Rightarrow> Inr (uidref_items_loop v matched_items))"

text \<open>
  \<^verbatim>\<open>_contains_image_items\<close>: the referenced SOP class and instance UID of an IMAGE item
  are read from its payload.
\<close>

definition referenced_sop :: "content_item \<Rightarrow> (string \<times> string) option" where
  "referenced_sop item =
     (case value_of item of
        ImageValue cls inst \<Rightarrow> Some (cls, inst)
      | CompositeValue cls inst \<Rightarrow> Some (cls, inst)
      | _ \<Rightarrow> None)"

fun image_items_loop :: "string option \<Rightarrow> string option \<Rightarrow> content_item list \<Rightarrow> bool" where
  "image_items_loop referenced_sop_class_uid referenced_sop_instance_uid [] = False"
| "image_items_loop referenced_sop_class_uid referenced_sop_instance_uid (item # matched_items) =
     (if (case referenced_sop_class_uid of
            None \<Rightarrow> False
          | Some c \<Rightarrow> map_option fst (referenced_sop item) \<noteq> Some c) then
        image_items_loop referenced_sop_class_uid referenced_sop_instance_uid matched_items
      else if (case referenced_sop_instance_uid of
                 None \<Rightarrow> False
               | Some i \<Rightarrow> map_option snd (referenced_sop item) \<noteq> Some i) then
        image_items_loop referenced_sop_class_uid referenced_sop_instance_uid matched_items
      else True)"

definition contains_image_items ::
  "content_item \<Rightarrow> coded_concept option \<Rightarrow> string option \<Rightarrow> string option \<Rightarrow>
     relationship_type option \<Rightarrow> error + bool" where
  "contains_image_items parent_item n referenced_sop_class_uid referenced_sop_instance_uid rel =
     (case find_content_items parent_item n (Some IMAGE) rel of
        Inl e \<Rightarrow> Inl e
      | Inr matched_items \<Rightarrow>
          Inr (image_items_loop referenced_sop_class_uid referenced_sop_instance_uid
                 matched_items))"

text \<open>\<^verbatim>\<open>MeasurementReport._find_measurement_groups\<close>.\<close>

definition find_measurement_groups :: "content_item list \<Rightarrow> error + content_item list" where
  "find_measurement_groups self =
     (case self of
        [] \<Rightarrow> Inl (IndexError ''list index out of range'')
      | root_item # _ \<Rightarrow>
          (case find_content_items root_item (Some DCM_ImagingMeasurements) (Some CONTAINER)
                  None of
             Inl e \<Rightarrow> Inl e
           | Inr imaging_measurement_items \<Rightarrow>
               (case imaging_measurement_items of
                  [] \<Rightarrow> Inr []
                | first # _ \<Rightarrow>
                    find_content_items first (Some DCM_MeasurementGroup) (Some CONTAINER) None)))"

text \<open>
  \<^verbatim>\<open>_MeasurementsAndQualitativeEvaluations.from_sequence\<close>, which the subclasses call:
  the tests of the source, then \<^verbatim>\<open>ContentSequence.from_sequence\<close>, which by the
  specification reproduces the items it is given.
\<close>

definition MeasurementsAndQualitativeEvaluations_from_sequence ::
  "content_item list \<Rightarrow> error + content_item list" where
  "MeasurementsAndQualitativeEvaluations_from_sequence sequence =
     (if length sequence > 1 then
        Inl (ValueError ''Sequence contains more than one SR Content Item.'')
      else
        (case sequence of
           [] \<Rightarrow> Inl (IndexError ''list index out of range'')
         | ds # _ \<Rightarrow>
             if value_type ds \<noteq> CONTAINER then
               Inl (ValueError ''Item #1 of sequence does not have Value Type CONTAINER.'')
             else if \<not> code_eq (name ds) DCM_MeasurementGroup then
               Inl (ValueError ''Item #1 of sequence does not have name Measurement Group.'')
             else Inr sequence))"

text \<open>The argument \<^verbatim>\<open>graphic_type\<close> is a value of one of two enumerations.\<close>

datatype graphic_type_arg =
    GraphicTypeValues graphic_type
  | GraphicTypeValues3D graphic_type_3d

definition opt_code_eq :: "coded_concept option \<Rightarrow> coded_concept \<Rightarrow> bool" where
  "opt_code_eq found c = (case found of None \<Rightarrow> False | Some f \<Rightarrow> code_eq f c)"

text \<open>The tests of the arguments at the head of \<^verbatim>\<open>get_planar_roi_measurement_groups\<close>.\<close>

definition check_planar_query ::
  "coded_concept option \<Rightarrow> graphic_type_arg option \<Rightarrow> string option \<Rightarrow> string option \<Rightarrow>
     error option" where
  "check_planar_query reference_type graphic_type referenced_sop_instance_uid
       referenced_sop_class_uid =
     (case (case graphic_type of
              None \<Rightarrow> None
            | Some (GraphicTypeValues g) \<Rightarrow>
                if g = MULTIPOINT then
                  Some (ValueError ''Graphic type MULTIPOINT is not valid for image regions within a planar ROI measurements group.'')
                else None
            | Some (GraphicTypeValues3D g) \<Rightarrow>
                if g \<in> set [MULTIPOINT_3D, POLYLINE_3D, ELLIPSOID] then
                  Some (ValueError ''Graphic type 3D value is not valid for image regions within a planar ROI measurements group.'')
                else if referenced_sop_class_uid \<noteq> None \<or> referenced_sop_instance_uid \<noteq> None then
                  Some (TypeError ''Supplying a referenced_sop_class_uid or referenced_sop_instance_uid is not valid when graphic_type is an instance of GraphicTypeValues3D.'')
                else None) of
        Some e \<Rightarrow> Some e
      | None \<Rightarrow>
          (case reference_type of
             None \<Rightarrow> None
           | Some rt \<Rightarrow>
               if \<not> code_in rt planar_allowed_roi_reference_types then
                 Some (ValueError ''Concept is not valid as a reference type in Planar ROI Measurements and Qualitative Evaluations.'')
               else if graphic_type \<noteq> None \<and> \<not> code_eq rt DCM_ImageRegion then
                 Some (ValueError ''Specifying a graphic type is invalid when using this reference type.'')
               else None))"

text \<open>
  The part of the loop body that looks at the one item describing the ROI reference.
  \<open>planar_uid_match\<close> is the value of \<^verbatim>\<open>matches_uids\<close>.
\<close>

definition planar_uid_match ::
  "string option \<Rightarrow> string option \<Rightarrow> content_item \<Rightarrow> coded_concept option \<Rightarrow> content_item \<Rightarrow>
     error + bool" where
  "planar_uid_match referenced_sop_instance_uid referenced_sop_class_uid group_item
       found_ref_type ref_item =
     (case (if opt_code_eq found_ref_type DCM_ReferencedSegmentationFrame \<or>
               opt_code_eq found_ref_type REGION_IN_SPACE then
              (case referenced_sop ref_item of
                 None \<Rightarrow> Inl (AttributeError ''ReferencedSOPSequence'')
               | Some (cls, inst) \<Rightarrow>
                   (let matches_instance_uid =
                          (referenced_sop_instance_uid = None \<or>
                           Some inst = referenced_sop_instance_uid);
                        matches_class_uid =
                          (referenced_sop_class_uid = None \<or> Some cls = referenced_sop_class_uid)
                    in Inr (matches_class_uid \<and> matches_instance_uid)))
            else Inr False) of
        Inl e \<Rightarrow> Inl e
      | Inr matches_uids \<Rightarrow>
          (case (if opt_code_eq found_ref_type DCM_ImageRegion \<and> value_type ref_item = SCOORD then
                   (case contains_image_items ref_item None referenced_sop_class_uid
                           referenced_sop_instance_uid (Some SELECTED_FROM) of
                      Inl e \<Rightarrow> Inl e
                    | Inr found \<Rightarrow> Inr (if found then True else matches_uids))
                 else Inr matches_uids) of
             Inl e \<Rightarrow> Inl e
           | Inr matches_uids \<Rightarrow>
               (if opt_code_eq found_ref_type DCM_ReferencedSegmentationFrame then
                  (case contains_image_items group_item (Some DCM_SourceImageForSegmentation)
                          referenced_sop_class_uid referenced_sop_instance_uid (Some CONTAINS) of
                     Inl e \<Rightarrow> Inl e
                   | Inr found \<Rightarrow> Inr (if found then True else matches_uids))
                else Inr matches_uids)))"

definition graphic_type_match :: "graphic_type_arg \<Rightarrow> content_item \<Rightarrow> bool" where
  "graphic_type_match graphic_type ref_item =
     (case graphic_type of
        GraphicTypeValues g \<Rightarrow>
          (case value_of ref_item of ScoordValue found_gt _ \<Rightarrow> found_gt = g | _ \<Rightarrow> False)
      | GraphicTypeValues3D g \<Rightarrow>
          (case value_of ref_item of Scoord3DValue found_gt _ \<Rightarrow> found_gt = g | _ \<Rightarrow> False))"

definition planar_reference_matches ::
  "coded_concept option \<Rightarrow> graphic_type_arg option \<Rightarrow> string option \<Rightarrow> string option \<Rightarrow>
     content_item \<Rightarrow> error + bool list" where
  "planar_reference_matches reference_type graphic_type referenced_sop_instance_uid
       referenced_sop_class_uid group_item =
     (if reference_type \<noteq> None \<or> graphic_type \<noteq> None \<or> referenced_sop_class_uid \<noteq> None \<or>
         referenced_sop_instance_uid \<noteq> None then
        (case get_planar_roi_reference_item group_item of
           Inl e \<Rightarrow> Inl e
         | Inr (found_ref_type, ref_item) \<Rightarrow>
             (let matches =
                    (case reference_type of
                       None \<Rightarrow> []
                     | Some rt \<Rightarrow> [opt_code_eq found_ref_type rt]) @
                    (case graphic_type of
                       None \<Rightarrow> []
                     | Some gt \<Rightarrow> [graphic_type_match gt ref_item])
              in if referenced_sop_instance_uid \<noteq> None \<or> referenced_sop_class_uid \<noteq> None then
                   (case planar_uid_match referenced_sop_instance_uid referenced_sop_class_uid
                           group_item found_ref_type ref_item of
                      Inl e \<Rightarrow> Inl e
                    | Inr matches_uids \<Rightarrow> Inr (matches @ [matches_uids]))
                 else Inr matches))
      else Inr [])"

text \<open>
  The three filters both getters share, as the list \<^verbatim>\<open>matches\<close> they append to; a
  filter that is supplied is evaluated, in the order of the source, and the first that
  raises ends the call.
\<close>

definition opt_check :: "'a option \<Rightarrow> ('a \<Rightarrow> error + bool) \<Rightarrow> error + bool list" where
  "opt_check x f =
     (case x of
        None \<Rightarrow> Inr []
      | Some v \<Rightarrow> (case f v of Inl e \<Rightarrow> Inl e | Inr b \<Rightarrow> Inr [b]))"

definition then_matches :: "error + bool list \<Rightarrow> error + bool list \<Rightarrow> error + bool list" where
  "then_matches r s =
     (case r of
        Inl e \<Rightarrow> Inl e
      | Inr matches \<Rightarrow> (case s of Inl e \<Rightarrow> Inl e | Inr further \<Rightarrow> Inr (matches @ further)))"

definition common_matches ::
  "string option \<Rightarrow> coded_concept option \<Rightarrow> coded_concept option \<Rightarrow> content_item \<Rightarrow>
     error + bool list" where
  "common_matches tracking_uid finding_type' finding_site group_item =
     then_matches
       (opt_check finding_type' (\<lambda>ft.
          contains_code_items group_item DCM_Finding (Some ft) (Some CONTAINS)))
       (then_matches
          (opt_check finding_site (\<lambda>fs.
             contains_code_items group_item SCT_FindingSite (Some fs) (Some HAS_CONCEPT_MOD)))
          (opt_check tracking_uid (\<lambda>u.
             contains_uidref_items group_item DCM_TrackingUniqueIdentifier (Some u)
               (Some HAS_OBS_CONTEXT))))"

fun planar_groups_loop ::
  "string option \<Rightarrow> coded_concept option \<Rightarrow> coded_concept option \<Rightarrow> coded_concept option \<Rightarrow>
     graphic_type_arg option \<Rightarrow> string option \<Rightarrow> string option \<Rightarrow> content_item list \<Rightarrow>
     error + content_item list list" where
  "planar_groups_loop tracking_uid finding_type' finding_site reference_type graphic_type
       referenced_sop_instance_uid referenced_sop_class_uid [] = Inr []"
| "planar_groups_loop tracking_uid finding_type' finding_site reference_type graphic_type
       referenced_sop_instance_uid referenced_sop_class_uid (group_item # rest) =
     (case (case template_id group_item of
              Some tid \<Rightarrow> Inr (tid = ''1410'')
            | None \<Rightarrow> contains_planar_rois group_item) of
        Inl e \<Rightarrow> Inl e
      | Inr False \<Rightarrow>
          planar_groups_loop tracking_uid finding_type' finding_site reference_type graphic_type
            referenced_sop_instance_uid referenced_sop_class_uid rest
      | Inr True \<Rightarrow>
          (case then_matches
                  (common_matches tracking_uid finding_type' finding_site group_item)
                  (planar_reference_matches reference_type graphic_type
                     referenced_sop_instance_uid referenced_sop_class_uid group_item) of
             Inl e \<Rightarrow> Inl e
           | Inr matches \<Rightarrow>
               if length matches = 0 \<or> list_all (\<lambda>b. b) matches then
                 (case MeasurementsAndQualitativeEvaluations_from_sequence [group_item] of
                    Inl e \<Rightarrow> Inl e
                  | Inr seq \<Rightarrow>
                      (case planar_groups_loop tracking_uid finding_type' finding_site
                              reference_type graphic_type referenced_sop_instance_uid
                              referenced_sop_class_uid rest of
                         Inl e \<Rightarrow> Inl e
                       | Inr sequences \<Rightarrow> Inr (seq # sequences)))
               else
                 planar_groups_loop tracking_uid finding_type' finding_site reference_type
                   graphic_type referenced_sop_instance_uid referenced_sop_class_uid rest))"

definition get_planar_roi_measurement_groups ::
  "content_item list \<Rightarrow> string option \<Rightarrow> coded_concept option \<Rightarrow> coded_concept option \<Rightarrow>
     coded_concept option \<Rightarrow> graphic_type_arg option \<Rightarrow> string option \<Rightarrow> string option \<Rightarrow>
     error + content_item list list" where
  "get_planar_roi_measurement_groups self tracking_uid finding_type' finding_site reference_type
       graphic_type referenced_sop_instance_uid referenced_sop_class_uid =
     (case check_planar_query reference_type graphic_type referenced_sop_instance_uid
             referenced_sop_class_uid of
        Some e \<Rightarrow> Inl e
      | None \<Rightarrow>
          (case find_measurement_groups self of
             Inl e \<Rightarrow> Inl e
           | Inr measurement_group_items \<Rightarrow>
               planar_groups_loop tracking_uid finding_type' finding_site reference_type
                 graphic_type referenced_sop_instance_uid referenced_sop_class_uid
                 measurement_group_items))"

fun image_groups_loop ::
  "string option \<Rightarrow> coded_concept option \<Rightarrow> coded_concept option \<Rightarrow> string option \<Rightarrow>
     string option \<Rightarrow> content_item list \<Rightarrow> error + content_item list list" where
  "image_groups_loop tracking_uid finding_type' finding_site referenced_sop_instance_uid
       referenced_sop_class_uid [] = Inr []"
| "image_groups_loop tracking_uid finding_type' finding_site referenced_sop_instance_uid
       referenced_sop_class_uid (group_item # rest) =
     (case (case template_id group_item of
              Some tid \<Rightarrow> Inr (tid = ''1501'')
            | None \<Rightarrow>
                (case contains_planar_rois group_item of
                   Inl e \<Rightarrow> Inl e
                 | Inr contains_rois \<Rightarrow>
                     (case contains_volumetric_rois group_item of
                        Inl e \<Rightarrow> Inl e
                      | Inr v \<Rightarrow> Inr (\<not> (contains_rois \<or> v))))) of
        Inl e \<Rightarrow> Inl e
      | Inr False \<Rightarrow>
          image_groups_loop tracking_uid finding_type' finding_site referenced_sop_instance_uid
            referenced_sop_class_uid rest
      | Inr True \<Rightarrow>
          (case then_matches
                  (common_matches tracking_uid finding_type' finding_site group_item)
                  (if referenced_sop_instance_uid \<noteq> None \<or> referenced_sop_class_uid \<noteq> None then
                     (case contains_image_items group_item (Some SOURCE)
                             referenced_sop_class_uid referenced_sop_instance_uid
                             (Some CONTAINS) of
                        Inl e \<Rightarrow> Inl e
                      | Inr matches_uids \<Rightarrow> Inr [matches_uids])
                   else Inr []) of
             Inl e \<Rightarrow> Inl e
           | Inr matches \<Rightarrow>
               (case MeasurementsAndQualitativeEvaluations_from_sequence [group_item] of
                  Inl e \<Rightarrow> Inl e
                | Inr seq \<Rightarrow>
                    (case image_groups_loop tracking_uid finding_type' finding_site
                            referenced_sop_instance_uid referenced_sop_class_uid rest of
                       Inl e \<Rightarrow> Inl e
                     | Inr sequences \<Rightarrow>
                         if length matches = 0 then Inr (seq # sequences)
                         else if list_all (\<lambda>b. b) matches then Inr (seq # sequences)
                         else Inr sequences))))"

definition get_image_measurement_groups ::
  "content_item list \<Rightarrow> string option \<Rightarrow> coded_concept option \<Rightarrow> coded_concept option \<Rightarrow>
     string option \<Rightarrow> string option \<Rightarrow> error + content_item list list" where
  "get_image_measurement_groups self tracking_uid finding_type' finding_site
       referenced_sop_instance_uid referenced_sop_class_uid =
     (case find_measurement_groups self of
        Inl e \<Rightarrow> Inl e
      | Inr measurement_group_items \<Rightarrow>
          image_groups_loop tracking_uid finding_type' finding_site referenced_sop_instance_uid
            referenced_sop_class_uid measurement_group_items)"

text \<open>
  The vocabulary of the claim about the queries. A group is a candidate of a getter when its
  template identifier is the getter's, or, without template identifier, when the heuristic
  classifies it so. It passes a filter when the filter is not supplied or the predicate of
  the source evaluates to true for it; the filters on the ROI reference are passed only by
  a group whose single reference item can be extracted.
\<close>

definition is_planar_candidate :: "content_item \<Rightarrow> bool" where
  "is_planar_candidate g \<longleftrightarrow>
     (case template_id g of
        Some tid \<Rightarrow> tid = ''1410''
      | None \<Rightarrow> contains_planar_rois g = Inr True)"

definition is_image_candidate :: "content_item \<Rightarrow> bool" where
  "is_image_candidate g \<longleftrightarrow>
     (case template_id g of
        Some tid \<Rightarrow> tid = ''1501''
      | None \<Rightarrow> contains_planar_rois g = Inr False \<and> contains_volumetric_rois g = Inr False)"

definition passes_common ::
  "string option \<Rightarrow> coded_concept option \<Rightarrow> coded_concept option \<Rightarrow> content_item \<Rightarrow> bool" where
  "passes_common tracking_uid finding_type' finding_site g \<longleftrightarrow>
     (case finding_type' of
        None \<Rightarrow> True
      | Some ft \<Rightarrow> contains_code_items g DCM_Finding (Some ft) (Some CONTAINS) = Inr True) \<and>
     (case finding_site of
        None \<Rightarrow> True
      | Some fs \<Rightarrow>
          contains_code_items g SCT_FindingSite (Some fs) (Some HAS_CONCEPT_MOD) = Inr True) \<and>
     (case tracking_uid of
        None \<Rightarrow> True
      | Some u \<Rightarrow>
          contains_uidref_items g DCM_TrackingUniqueIdentifier (Some u) (Some HAS_OBS_CONTEXT) =
            Inr True)"

definition passes_planar_reference ::
  "coded_concept option \<Rightarrow> graphic_type_arg option \<Rightarrow> string option \<Rightarrow> string option \<Rightarrow>
     content_item \<Rightarrow> bool" where
  "passes_planar_reference reference_type graphic_type referenced_sop_instance_uid
       referenced_sop_class_uid g \<longleftrightarrow>
     (if reference_type = None \<and> graphic_type = None \<and> referenced_sop_instance_uid = None \<and>
         referenced_sop_class_uid = None then True
      else
        (case get_planar_roi_reference_item g of
           Inl _ \<Rightarrow> False
         | Inr (found_ref_type, ref_item) \<Rightarrow>
             (case reference_type of None \<Rightarrow> True | Some rt \<Rightarrow> opt_code_eq found_ref_type rt) \<and>
             (case graphic_type of None \<Rightarrow> True | Some gt \<Rightarrow> graphic_type_match gt ref_item) \<and>
             (if referenced_sop_instance_uid = None \<and> referenced_sop_class_uid = None then True
              else planar_uid_match referenced_sop_instance_uid referenced_sop_class_uid g
                     found_ref_type ref_item = Inr True)))"

definition passes_image_uids :: "string option \<Rightarrow> string option \<Rightarrow> content_item \<Rightarrow> bool" where
  "passes_image_uids referenced_sop_instance_uid referenced_sop_class_uid g \<longleftrightarrow>
     (if referenced_sop_instance_uid = None \<and> referenced_sop_class_uid = None then True
      else contains_image_items g (Some SOURCE) referenced_sop_class_uid
             referenced_sop_instance_uid (Some CONTAINS) = Inr True)"

text \<open>
  The reads a getter makes of the groups succeed. A group without template identifier is
  classified by the heuristic, which reads its content sequence. A candidate is searched
  for each supplied filter, which reads its content sequence. When a filter on the ROI
  reference is supplied the planar getter extracts the ROI reference of every planar
  candidate: the group holds exactly one ROI reference item and, when the referenced SOP
  UIDs are asked for, a reference of type Referenced Segmentation Frame or Region In Space
  carries its \<^verbatim>\<open>ReferencedSOPSequence\<close> and an image region of value type SCOORD has a
  content sequence.
\<close>

definition classifiable :: "content_item list \<Rightarrow> bool" where
  "classifiable groups \<longleftrightarrow>
     list_all (\<lambda>g. template_id g \<noteq> None \<or> ContentSequence g \<noteq> None) groups"

definition no_common_filter ::
  "string option \<Rightarrow> coded_concept option \<Rightarrow> coded_concept option \<Rightarrow> bool" where
  "no_common_filter tracking_uid finding_type' finding_site \<longleftrightarrow>
     tracking_uid = None \<and> finding_type' = None \<and> finding_site = None"

definition no_reference_filter ::
  "coded_concept option \<Rightarrow> graphic_type_arg option \<Rightarrow> string option \<Rightarrow> string option \<Rightarrow> bool" where
  "no_reference_filter reference_type graphic_type referenced_sop_instance_uid
       referenced_sop_class_uid \<longleftrightarrow>
     reference_type = None \<and> graphic_type = None \<and> referenced_sop_instance_uid = None \<and>
     referenced_sop_class_uid = None"

definition reference_readable :: "string option \<Rightarrow> string option \<Rightarrow> content_item \<Rightarrow> bool" where
  "reference_readable referenced_sop_instance_uid referenced_sop_class_uid g \<longleftrightarrow>
     (case get_planar_roi_reference_item g of
        Inl _ \<Rightarrow> False
      | Inr (found_ref_type, ref_item) \<Rightarrow>
          (referenced_sop_instance_uid = None \<and> referenced_sop_class_uid = None) \<or>
          (if opt_code_eq found_ref_type DCM_ReferencedSegmentationFrame \<or>
              opt_code_eq found_ref_type REGION_IN_SPACE
           then referenced_sop ref_item \<noteq> None else True) \<and>
          (if opt_code_eq found_ref_type DCM_ImageRegion \<and> value_type ref_item = SCOORD
           then ContentSequence ref_item \<noteq> None else True))"

definition planar_readable ::
  "string option \<Rightarrow> coded_concept option \<Rightarrow> coded_concept option \<Rightarrow> coded_concept option \<Rightarrow>
     graphic_type_arg option \<Rightarrow> string option \<Rightarrow> string option \<Rightarrow> content_item list \<Rightarrow> bool" where
  "planar_readable tracking_uid finding_type' finding_site reference_type graphic_type
       referenced_sop_instance_uid referenced_sop_class_uid groups \<longleftrightarrow>
     classifiable groups \<and>
     list_all
       (\<lambda>g. \<not> is_planar_candidate g \<or>
            (no_common_filter tracking_uid finding_type' finding_site \<or>
             ContentSequence g \<noteq> None) \<and>
            (no_reference_filter reference_type graphic_type referenced_sop_instance_uid
               referenced_sop_class_uid \<or>
             reference_readable referenced_sop_instance_uid referenced_sop_class_uid g))
       groups"

definition image_readable ::
  "string option \<Rightarrow> coded_concept option \<Rightarrow> coded_concept option \<Rightarrow> string option \<Rightarrow>
     string option \<Rightarrow> content_item list \<Rightarrow> bool" where
  "image_readable tracking_uid finding_type' finding_site referenced_sop_instance_uid
       referenced_sop_class_uid groups \<longleftrightarrow>
     classifiable groups \<and>
     list_all
       (\<lambda>g. \<not> is_image_candidate g \<or>
            (no_common_filter tracking_uid finding_type' finding_site \<and>
             referenced_sop_instance_uid = None \<and> referenced_sop_class_uid = None) \<or>
            ContentSequence g \<noteq> None)
       groups"

section \<open>Example items\<close>

definition scoord_region :: content_item where
  "scoord_region =
     ContentItem DCM_ImageRegion (Some CONTAINS) (ScoordValue POLYLINE [(0, 0), (4, 0), (4, 4)]) None None"

definition finding_item :: "coded_concept \<Rightarrow> content_item" where
  "finding_item c =
     ContentItem (Code ''121071'' ''DCM'' ''Finding'') (Some CONTAINS) (CodeValue c) None None"

definition measurement_group_of :: "string option \<Rightarrow> content_item list \<Rightarrow> content_item" where
  "measurement_group_of tid items =
     ContentItem DCM_MeasurementGroup (Some CONTAINS) ContainerValue tid (Some items)"

text \<open>Arguments of a measurement group with nothing optional, and two ROI references.\<close>

definition plain_args :: "content_item list \<Rightarrow> group_args" where
  "plain_args ti =
     \<lparr>tracking_identifier = Instance ti, referenced_real_world_value_map = None,
      time_point_context = None, finding_type = None, method_arg = None, algorithm_id = None,
      finding_sites = None, session = None, measurements = None,
      qualitative_evaluations = None, finding_category = None\<rparr>"

definition scoord3d_region :: content_item where
  "scoord3d_region =
     ContentItem DCM_ImageRegion (Some CONTAINS)
       (Scoord3DValue POLYGON [(0, 0, 0), (4, 0, 0), (4, 4, 0)]) None None"


definition method_item :: "coded_concept \<Rightarrow> content_item" where
  "method_item c = ContentItem SCT_MeasurementMethod (Some CONTAINS) (CodeValue c) None None"

text \<open>A report root, an observer of type Person, the observer's name, a reported procedure.\<close>

definition report_root :: "content_item list \<Rightarrow> content_item" where
  "report_root items =
     ContentItem (Code ''126000'' ''DCM'' ''Imaging Measurement Report'') None ContainerValue
       (Some ''1500'') (Some items)"

definition person_observer_type_item :: content_item where
  "person_observer_type_item =
     ContentItem DCM_ObserverType (Some HAS_OBS_CONTEXT) (CodeValue DCM_Person) None None"

definition person_name_item :: content_item where
  "person_name_item =
     ContentItem (Code ''121008'' ''DCM'' ''Person Observer Name'') (Some HAS_OBS_CONTEXT)
       (PnameValue ''Doe^John'') None None"

definition procedure_item :: content_item where
  "procedure_item =
     ContentItem (Code ''121058'' ''DCM'' ''Procedure reported'') (Some HAS_CONCEPT_MOD)
       (CodeValue (Code ''363679005'' ''SCT'' ''Imaging procedure'')) None None"

text \<open>
  Reports for the queries: the container of the imaging measurements, a finding site, and
  the two coded sites of the scenario of the specification.
\<close>

definition imaging_measurements :: "content_item list \<Rightarrow> content_item" where
  "imaging_measurements groups =
     ContentItem DCM_ImagingMeasurements (Some CONTAINS) ContainerValue None (Some groups)"

definition finding_site_item :: "coded_concept \<Rightarrow> content_item" where
  "finding_site_item c =
     ContentItem SCT_FindingSite (Some HAS_CONCEPT_MOD) (CodeValue c) None None"

definition site_A :: coded_concept where
  "site_A = Code ''39607008'' ''SCT'' ''Lung''"

definition site_B :: coded_concept where
  "site_B = Code ''10200004'' ''SCT'' ''Liver''"

text \<open>
  Arguments of a measurement group with one finding site, in a collection of a given class.
\<close>

definition sites_args :: "content_item list \<Rightarrow> collection_class \<Rightarrow> group_args" where
  "sites_args ti cls =
     (plain_args ti)\<lparr>finding_sites := Some (cls, [Instance (finding_site_item site_A)])\<rparr>"

text \<open>
  A measurement group and a numeric measurement item without content sequence, as
  \<^verbatim>\<open>from_sequence\<close> builds them from a dataset that has no \<^verbatim>\<open>ContentSequence\<close>.
\<close>

definition empty_group :: content_item where
  "empty_group = ContentItem DCM_MeasurementGroup (Some CONTAINS) ContainerValue (Some ''1501'') None"

definition bare_measurement :: content_item where
  "bare_measurement =
     ContentItem (Code ''410668003'' ''SCT'' ''Length'') (Some CONTAINS)
       (NumValue 12 (Code ''mm'' ''UCUM'' ''millimeter'') None) None None"

section \<open>Properties of the counting pass\<close>

lemma fold_count_roi_item:
  "fold count_roi_item items (a, b, c, d, e, f) =
     (a + n_items DCM_ImageRegion SCOORD items,
      b + n_items DCM_ImageRegion SCOORD3D items,
      c + n_items DCM_VolumeSurface SCOORD3D items,
      d + n_items DCM_ReferencedSegment IMAGE items,
      e + n_items DCM_ReferencedSegmentationFrame IMAGE items,
      f + n_items REGION_IN_SPACE COMPOSITE items)"
proof (induction items arbitrary: a b c d e f)
  case Nil
  show ?case by (simp add: n_items_def)
next
  case (Cons item items)
  have step: "fold count_roi_item (item # items) (a, b, c, d, e, f) =
      fold count_roi_item items (count_roi_item item (a, b, c, d, e, f))"
    by simp
  show ?case
    unfolding step
    by (simp add: count_roi_item_def Let_def Cons.IH n_items_def)
qed

lemma count_roi_items_group:
  assumes "is_measurement_group g" and "ContentSequence g = Some items"
  shows "count_roi_items g =
     Inr (n_items DCM_ImageRegion SCOORD items,
          n_items DCM_ImageRegion SCOORD3D items,
          n_items DCM_VolumeSurface SCOORD3D items,
          n_items DCM_ReferencedSegment IMAGE items,
          n_items DCM_ReferencedSegmentationFrame IMAGE items,
          n_items REGION_IN_SPACE COMPOSITE items)"
  using assms
  by (simp add: count_roi_items_def is_measurement_group_def fold_count_roi_item)

lemma count_roi_items_no_content:
  assumes "is_measurement_group g" and "ContentSequence g = None"
  shows "count_roi_items g = Inl (AttributeError ''ContentSequence'')"
  using assms by (simp add: count_roi_items_def is_measurement_group_def)


lemmas concept_defs =
  DCM_MeasurementGroup_def DCM_ImageRegion_def DCM_VolumeSurface_def DCM_ReferencedSegment_def
  DCM_ReferencedSegmentationFrame_def REGION_IN_SPACE_def

lemma code_eq_Code [simp]:
  "code_eq (Code v s m) (Code v' s' m') \<longleftrightarrow> v = v' \<and> s = s'"
  by (simp add: code_eq_def Code_def)

lemma code_eq_refl [simp]: "code_eq c c"
  by (simp add: code_eq_def)

lemma code_eq_sym: "code_eq a b \<Longrightarrow> code_eq b a"
  by (simp add: code_eq_def)

lemma code_eq_trans: "code_eq a b \<Longrightarrow> code_eq b c \<Longrightarrow> code_eq a c"
  by (simp add: code_eq_def)

lemma is_measurement_group_of [simp]: "is_measurement_group (measurement_group_of tid items)"
  by (simp add: is_measurement_group_def measurement_group_of_def value_type_def)

lemma children_measurement_group_of [simp]: "children (measurement_group_of tid items) = items"
  by (simp add: children_def measurement_group_of_def)

lemma ContentSequence_measurement_group_of [simp]:
  "ContentSequence (measurement_group_of tid items) = Some items"
  by (simp add: measurement_group_of_def)

section \<open>The classification heuristic\<close>

text \<open>
  C3. A measurement group (a CONTAINER named "Measurement Group") whose children hold
  exactly one Image Region item of value type SCOORD and no other ROI reference item (no
  Image Region of type SCOORD3D, no Volume Surface, Referenced Segment, Referenced
  Segmentation Frame or Region in Space item) is classified as planar and not as
  volumetric: \<open>contains_planar_rois\<close> returns \<open>True\<close> and \<open>contains_volumetric_rois\<close>
  returns \<open>False\<close>, whatever other children the group has.
\<close>

theorem single_image_region_is_planar:
  assumes "is_measurement_group g"
    and "n_items DCM_ImageRegion SCOORD (children g) = 1"
    and "n_items DCM_ImageRegion SCOORD3D (children g) = 0"
    and "n_items DCM_VolumeSurface SCOORD3D (children g) = 0"
    and "n_items DCM_ReferencedSegment IMAGE (children g) = 0"
    and "n_items DCM_ReferencedSegmentationFrame IMAGE (children g) = 0"
    and "n_items REGION_IN_SPACE COMPOSITE (children g) = 0"
  shows "contains_planar_rois g = Inr True \<and> contains_volumetric_rois g = Inr False"
proof (cases "ContentSequence g")
  case None
  then have "children g = []" by (simp add: children_def)
  with assms(2) show ?thesis by (simp add: n_items_def)
next
  case (Some items)
  then have ch: "children g = items" by (simp add: children_def)
  note cnt = count_roi_items_group [OF assms(1) Some]
  from assms(2-7) show ?thesis
    unfolding ch by (simp add: contains_planar_rois_def contains_volumetric_rois_def cnt)
qed

theorem single_image_region_is_planar_witness:
  "is_measurement_group (measurement_group_of None [finding_item DCM_ImageRegion, scoord_region]) \<and>
   contains_planar_rois (measurement_group_of None [finding_item DCM_ImageRegion, scoord_region]) = Inr True \<and>
   contains_volumetric_rois (measurement_group_of None [finding_item DCM_ImageRegion, scoord_region]) = Inr False"
proof -
  let ?g = "measurement_group_of None [finding_item DCM_ImageRegion, scoord_region]"
  have counts:
    "n_items DCM_ImageRegion SCOORD (children ?g) = 1"
    "n_items DCM_ImageRegion SCOORD3D (children ?g) = 0"
    "n_items DCM_VolumeSurface SCOORD3D (children ?g) = 0"
    "n_items DCM_ReferencedSegment IMAGE (children ?g) = 0"
    "n_items DCM_ReferencedSegmentationFrame IMAGE (children ?g) = 0"
    "n_items REGION_IN_SPACE COMPOSITE (children ?g) = 0"
    by (simp_all add: n_items_def finding_item_def scoord_region_def value_type_def concept_defs)
  from single_image_region_is_planar [OF is_measurement_group_of counts]
  show ?thesis by simp
qed

text \<open>
  C4. For a measurement group, \<open>contains_volumetric_rois\<close> returns \<open>True\<close> if and only if
  (more than one Image Region item of type SCOORD, or at least one Referenced Segment
  item, or at least one Volume Surface item, or at least one Region in Space item) and
  there is no Referenced Segmentation Frame item and no Image Region item of type
  SCOORD3D, the counts being taken over the children of the group by concept name and value
  type. Whenever the group has a content sequence the function returns that truth value;
  a group without the attribute raises \<^verbatim>\<open>AttributeError\<close>.
\<close>

theorem contains_volumetric_rois_iff:
  assumes "is_measurement_group g"
  shows "(contains_volumetric_rois g = Inr True \<longleftrightarrow>
           (n_items DCM_ImageRegion SCOORD (children g) > 1 \<or>
            n_items DCM_ReferencedSegment IMAGE (children g) > 0 \<or>
            n_items DCM_VolumeSurface SCOORD3D (children g) > 0 \<or>
            n_items REGION_IN_SPACE COMPOSITE (children g) > 0) \<and>
           n_items DCM_ReferencedSegmentationFrame IMAGE (children g) = 0 \<and>
           n_items DCM_ImageRegion SCOORD3D (children g) = 0) \<and>
         contains_volumetric_rois g =
           (case ContentSequence g of
              None \<Rightarrow> Inl (AttributeError ''ContentSequence'')
            | Some items \<Rightarrow>
                Inr ((n_items DCM_ImageRegion SCOORD items > 1 \<or>
                      n_items DCM_ReferencedSegment IMAGE items > 0 \<or>
                      n_items DCM_VolumeSurface SCOORD3D items > 0 \<or>
                      n_items REGION_IN_SPACE COMPOSITE items > 0) \<and>
                     n_items DCM_ReferencedSegmentationFrame IMAGE items = 0 \<and>
                     n_items DCM_ImageRegion SCOORD3D items = 0))"
proof (cases "ContentSequence g")
  case None
  then have ch: "children g = []" by (simp add: children_def)
  note cnt = count_roi_items_no_content [OF assms None]
  show ?thesis
    unfolding ch by (simp add: contains_volumetric_rois_def cnt None n_items_def)
next
  case (Some items)
  then have ch: "children g = items" by (simp add: children_def)
  note cnt = count_roi_items_group [OF assms Some]
  show ?thesis
    unfolding ch by (simp add: contains_volumetric_rois_def cnt Some)
qed

theorem contains_volumetric_rois_iff_witness:
  "is_measurement_group (measurement_group_of None [scoord_region, scoord_region]) \<and>
   contains_volumetric_rois (measurement_group_of None [scoord_region, scoord_region]) = Inr True \<and>
   contains_volumetric_rois (measurement_group_of None [scoord_region]) = Inr False"
proof -
  have two: "n_items DCM_ImageRegion SCOORD [scoord_region, scoord_region] = 2"
    and one: "n_items DCM_ImageRegion SCOORD [scoord_region] = 1"
    and others:
      "\<And>items. set items \<subseteq> {scoord_region} \<Longrightarrow> n_items DCM_ImageRegion SCOORD3D items = 0"
      "\<And>items. set items \<subseteq> {scoord_region} \<Longrightarrow> n_items DCM_VolumeSurface SCOORD3D items = 0"
      "\<And>items. set items \<subseteq> {scoord_region} \<Longrightarrow> n_items DCM_ReferencedSegment IMAGE items = 0"
      "\<And>items. set items \<subseteq> {scoord_region} \<Longrightarrow> n_items DCM_ReferencedSegmentationFrame IMAGE items = 0"
      "\<And>items. set items \<subseteq> {scoord_region} \<Longrightarrow> n_items REGION_IN_SPACE COMPOSITE items = 0"
    by (auto simp add: n_items_def scoord_region_def value_type_def concept_defs filter_empty_conv)
  from contains_volumetric_rois_iff [OF is_measurement_group_of [of None "[scoord_region, scoord_region]"]]
       contains_volumetric_rois_iff [OF is_measurement_group_of [of None "[scoord_region]"]]
  show ?thesis
    by (simp add: two one others)
qed

section \<open>The extraction of ROI references\<close>


lemma loop_some:
  "roi_reference_loop al cs acc (Some r) = Inr (rt', items) \<Longrightarrow>
     rt' = Some r \<and> items = acc @ filter (is_roi_reference al) cs \<and>
     (\<forall>i \<in> set (filter (is_roi_reference al) cs).
        code_eq (name i) r \<and> code_in r [DCM_ImageRegion, DCM_VolumeSurface])"
proof (induction cs arbitrary: acc)
  case Nil
  then show ?case by simp
next
  case (Cons item rest)
  show ?case
  proof (cases "is_roi_reference al item")
    case True
    with Cons.prems have
      "code_eq (name item) r" "code_in r [DCM_ImageRegion, DCM_VolumeSurface]"
      "roi_reference_loop al rest (acc @ [item]) (Some r) = Inr (rt', items)"
      by (auto simp add: is_roi_reference_def split: option.splits if_splits)
    with Cons.IH [of "acc @ [item]"] True show ?thesis by simp
  next
    case False
    with Cons.prems have "roi_reference_loop al rest acc (Some r) = Inr (rt', items)"
      by (auto simp add: is_roi_reference_def split: option.splits if_splits)
    with Cons.IH [of acc] False show ?thesis by simp
  qed
qed

lemma loop_none:
  "roi_reference_loop al cs acc None = Inr (rt', items) \<Longrightarrow>
     items = acc @ filter (is_roi_reference al) cs \<and>
     (case filter (is_roi_reference al) cs of
        [] \<Rightarrow> rt' = None
      | x # xs \<Rightarrow> rt' = Some (name x) \<and>
          (\<forall>i \<in> set xs. code_eq (name i) (name x) \<and> code_in (name x) [DCM_ImageRegion, DCM_VolumeSurface]))"
proof (induction cs arbitrary: acc)
  case Nil
  then show ?case by simp
next
  case (Cons item rest)
  show ?case
  proof (cases "is_roi_reference al item")
    case True
    with Cons.prems have
      "roi_reference_loop al rest (acc @ [item]) (Some (name item)) = Inr (rt', items)"
      by (auto simp add: is_roi_reference_def split: option.splits if_splits)
    from loop_some [OF this] True show ?thesis by simp
  next
    case False
    with Cons.prems have "roi_reference_loop al rest acc None = Inr (rt', items)"
      by (auto simp add: is_roi_reference_def split: option.splits if_splits)
    with Cons.IH [of acc] False show ?thesis by simp
  qed
qed

lemma lookup_code_cong: "code_eq a b \<Longrightarrow> lookup_code kvs a = lookup_code kvs b"
  by (induction kvs) (auto simp add: code_eq_def)

lemma allowed_known_lookup:
  "allowed_known al \<Longrightarrow> code_in c al \<Longrightarrow> lookup_code ref_type_value_type_map c \<noteq> None"
  apply (auto simp add: allowed_known_def code_in_def list_all_iff list_ex_iff)
  using lookup_code_cong code_eq_sym by (metis option.distinct(1))

lemma loop_some_ok:
  assumes "allowed_known al"
    and "\<forall>i \<in> set (filter (is_roi_reference al) cs).
        code_eq (name i) r \<and> code_in r [DCM_ImageRegion, DCM_VolumeSurface]"
  shows "roi_reference_loop al cs acc (Some r) = Inr (Some r, acc @ filter (is_roi_reference al) cs)"
  using assms(2)
proof (induction cs arbitrary: acc)
  case Nil
  then show ?case by simp
next
  case (Cons item rest)
  show ?case
  proof (cases "is_roi_reference al item")
    case True
    with Cons.prems have a: "code_eq (name item) r" "code_in r [DCM_ImageRegion, DCM_VolumeSurface]"
      and b: "\<forall>i \<in> set (filter (is_roi_reference al) rest).
        code_eq (name i) r \<and> code_in r [DCM_ImageRegion, DCM_VolumeSurface]"
      by auto
    from True a Cons.IH [OF b, of "acc @ [item]"] show ?thesis
      by (auto simp add: is_roi_reference_def split: option.splits)
  next
    case False
    with Cons.prems have b: "\<forall>i \<in> set (filter (is_roi_reference al) rest).
        code_eq (name i) r \<and> code_in r [DCM_ImageRegion, DCM_VolumeSurface]"
      by auto
    from False Cons.IH [OF b, of acc] allowed_known_lookup [OF assms(1), of "name item"]
    show ?thesis
      by (auto simp add: is_roi_reference_def split: option.splits)
  qed
qed

lemma loop_none_ok:
  assumes "allowed_known al"
    and "case filter (is_roi_reference al) cs of
        [] \<Rightarrow> True
      | x # xs \<Rightarrow> (\<forall>i \<in> set xs. code_eq (name i) (name x) \<and> code_in (name x) [DCM_ImageRegion, DCM_VolumeSurface])"
  shows "roi_reference_loop al cs acc None =
     Inr (case filter (is_roi_reference al) cs of [] \<Rightarrow> None | x # _ \<Rightarrow> Some (name x),
          acc @ filter (is_roi_reference al) cs)"
  using assms(2)
proof (induction cs arbitrary: acc)
  case Nil
  then show ?case by simp
next
  case (Cons item rest)
  show ?case
  proof (cases "is_roi_reference al item")
    case True
    with Cons.prems have b: "\<forall>i \<in> set (filter (is_roi_reference al) rest).
        code_eq (name i) (name item) \<and> code_in (name item) [DCM_ImageRegion, DCM_VolumeSurface]"
      by auto
    from True obtain vts where lk: "lookup_code ref_type_value_type_map (name item) = Some vts"
        "value_type item \<in> set vts" "relationship_type item = Some CONTAINS"
        "code_in (name item) al"
      by (auto simp add: is_roi_reference_def split: option.splits)
    from True loop_some_ok [OF assms(1) b, of "acc @ [item]"] show ?thesis
      by (simp add: lk)
  next
    case False
    with Cons.prems have b: "case filter (is_roi_reference al) rest of
        [] \<Rightarrow> True
      | x # xs \<Rightarrow> (\<forall>i \<in> set xs. code_eq (name i) (name x) \<and> code_in (name x) [DCM_ImageRegion, DCM_VolumeSurface])"
      by auto
    from False Cons.IH [OF b, of acc] allowed_known_lookup [OF assms(1), of "name item"]
    show ?thesis
      by (auto simp add: is_roi_reference_def split: option.splits)
  qed
qed


lemma get_roi_reference_items_InrD:
  assumes "get_roi_reference_items g al = Inr (rt, items)"
  shows "\<exists>x xs. roi_references al g = x # xs \<and> items = x # xs \<and> rt = Some (name x) \<and>
           (\<forall>i \<in> set xs. code_eq (name i) (name x) \<and> code_in (name x) [DCM_ImageRegion, DCM_VolumeSurface])"
proof -
  from assms obtain cs where cs: "ContentSequence g = Some cs"
    by (auto simp add: get_roi_reference_items_def split: option.splits)
  with assms have loop: "roi_reference_loop al cs [] None = Inr (rt, items)" and ne: "items \<noteq> []"
    by (auto simp add: get_roi_reference_items_def split: sum.splits if_splits)
  from cs have ch: "roi_references al g = filter (is_roi_reference al) cs"
    by (simp add: roi_references_def children_def)
  from loop_none [OF loop] ne show ?thesis
    unfolding ch by (auto split: list.splits)
qed

lemma code_in_cong: "code_eq a b \<Longrightarrow> code_in a cs = code_in b cs"
  by (auto simp add: code_in_def list_ex_iff code_eq_def)

lemma filter_two_tail: "1 < length (filter Q (x # xs)) \<Longrightarrow> \<exists>i \<in> set xs. Q i"
proof -
  assume "1 < length (filter Q (x # xs))"
  then have "filter Q xs \<noteq> []" by (auto split: if_splits)
  then show ?thesis by (simp add: filter_empty_conv)
qed

text \<open>
  C5. \<open>get_roi_reference_items\<close> looks only at the direct children of the group that are
  related to it by CONTAINS, whose concept name is one of the allowed reference types and
  whose value type is one the dictionary expects for that name (\<open>roi_references\<close>). When it
  returns, it returns all of them, they all carry one concept name, and that name is the
  reference type returned. It raises when there is no such item, when two of them differ in
  their concept name, and when a concept other than Image Region and Volume Surface has
  more than one of them. When every allowed type is a key of the dictionary, it returns in
  all other cases.
\<close>

theorem get_roi_reference_items_spec:
  "(\<forall>rt items. get_roi_reference_items g al = Inr (rt, items) \<longrightarrow>
      items = roi_references al g \<and> items \<noteq> [] \<and> rt = Some (name (hd items)) \<and>
      (\<forall>i \<in> set items. code_eq (name i) (name (hd items)))) \<and>
   (roi_references al g = [] \<longrightarrow> raises (get_roi_reference_items g al)) \<and>
   ((\<exists>i \<in> set (roi_references al g). \<exists>j \<in> set (roi_references al g).
        \<not> code_eq (name i) (name j)) \<longrightarrow> raises (get_roi_reference_items g al)) \<and>
   ((\<exists>c. \<not> code_in c [DCM_ImageRegion, DCM_VolumeSurface] \<and>
         1 < length (filter (\<lambda>i. code_eq (name i) c) (roi_references al g))) \<longrightarrow>
      raises (get_roi_reference_items g al)) \<and>
   (allowed_known al \<and> roi_references al g \<noteq> [] \<and>
    (\<forall>i \<in> set (roi_references al g). code_eq (name i) (name (hd (roi_references al g)))) \<and>
    (length (roi_references al g) = 1 \<or>
     code_in (name (hd (roi_references al g))) [DCM_ImageRegion, DCM_VolumeSurface]) \<longrightarrow>
      get_roi_reference_items g al =
        Inr (Some (name (hd (roi_references al g))), roi_references al g))"
proof (intro conjI)
  show "\<forall>rt items. get_roi_reference_items g al = Inr (rt, items) \<longrightarrow>
      items = roi_references al g \<and> items \<noteq> [] \<and> rt = Some (name (hd items)) \<and>
      (\<forall>i \<in> set items. code_eq (name i) (name (hd items)))"
  proof (intro allI impI)
  fix rt items
  assume r: "get_roi_reference_items g al = Inr (rt, items)"
  from get_roi_reference_items_InrD [OF r]
  obtain x xs where "roi_references al g = x # xs" "items = x # xs" "rt = Some (name x)"
    "\<forall>i \<in> set xs. code_eq (name i) (name x)" by blast
  then show "items = roi_references al g \<and> items \<noteq> [] \<and> rt = Some (name (hd items)) \<and>
      (\<forall>i \<in> set items. code_eq (name i) (name (hd items)))"
    by simp
  qed
next
  show "roi_references al g = [] \<longrightarrow> raises (get_roi_reference_items g al)"
  proof
  assume e: "roi_references al g = []"
  show "raises (get_roi_reference_items g al)"
  proof (cases "get_roi_reference_items g al")
    case (Inl a)
    then show ?thesis by (simp add: raises_def)
  next
    case (Inr b)
    obtain rt items where "b = (rt, items)" by (cases b)
    with Inr get_roi_reference_items_InrD [of g al rt items] e show ?thesis by auto
  qed
  qed
next
  show "(\<exists>i \<in> set (roi_references al g). \<exists>j \<in> set (roi_references al g).
        \<not> code_eq (name i) (name j)) \<longrightarrow> raises (get_roi_reference_items g al)"
  proof
  assume d: "\<exists>i \<in> set (roi_references al g). \<exists>j \<in> set (roi_references al g).
        \<not> code_eq (name i) (name j)"
  show "raises (get_roi_reference_items g al)"
  proof (cases "get_roi_reference_items g al")
    case (Inl a)
    then show ?thesis by (simp add: raises_def)
  next
    case (Inr b)
    obtain rt items where "b = (rt, items)" by (cases b)
    with Inr get_roi_reference_items_InrD [of g al rt items]
    obtain x xs where xs: "roi_references al g = x # xs"
      "\<forall>i \<in> set xs. code_eq (name i) (name x)" by auto
    then have "\<forall>i \<in> set (roi_references al g). code_eq (name i) (name x)" by simp
    then have "\<forall>i \<in> set (roi_references al g). \<forall>j \<in> set (roi_references al g).
        code_eq (name i) (name j)"
      by (meson code_eq_sym code_eq_trans)
    with d show ?thesis by blast
  qed
  qed
next
  show "(\<exists>c. \<not> code_in c [DCM_ImageRegion, DCM_VolumeSurface] \<and>
         1 < length (filter (\<lambda>i. code_eq (name i) c) (roi_references al g))) \<longrightarrow>
      raises (get_roi_reference_items g al)"
  proof
  assume m: "\<exists>c. \<not> code_in c [DCM_ImageRegion, DCM_VolumeSurface] \<and>
         1 < length (filter (\<lambda>i. code_eq (name i) c) (roi_references al g))"
  then obtain c where c: "\<not> code_in c [DCM_ImageRegion, DCM_VolumeSurface]"
    "1 < length (filter (\<lambda>i. code_eq (name i) c) (roi_references al g))" by blast
  show "raises (get_roi_reference_items g al)"
  proof (cases "get_roi_reference_items g al")
    case (Inl a)
    then show ?thesis by (simp add: raises_def)
  next
    case (Inr b)
    obtain rt items where "b = (rt, items)" by (cases b)
    with Inr get_roi_reference_items_InrD [of g al rt items]
    obtain x xs where xs: "roi_references al g = x # xs"
      "\<forall>i \<in> set xs. code_eq (name i) (name x) \<and> code_in (name x) [DCM_ImageRegion, DCM_VolumeSurface]"
      by auto
    from c(2) filter_two_tail [of "\<lambda>i. code_eq (name i) c" x xs]
    obtain i where i: "i \<in> set xs" "code_eq (name i) c" unfolding xs(1) by blast
    with xs(2) have "code_eq (name i) (name x)" "code_in (name x) [DCM_ImageRegion, DCM_VolumeSurface]"
      by auto
    with i(2) have "code_in c [DCM_ImageRegion, DCM_VolumeSurface]"
      using code_in_cong code_eq_sym code_eq_trans by blast
    with c(1) show ?thesis by simp
  qed
  qed
next
  show "allowed_known al \<and> roi_references al g \<noteq> [] \<and>
    (\<forall>i \<in> set (roi_references al g). code_eq (name i) (name (hd (roi_references al g)))) \<and>
    (length (roi_references al g) = 1 \<or>
     code_in (name (hd (roi_references al g))) [DCM_ImageRegion, DCM_VolumeSurface]) \<longrightarrow>
      get_roi_reference_items g al =
        Inr (Some (name (hd (roi_references al g))), roi_references al g)"
  proof
  assume a: "allowed_known al \<and> roi_references al g \<noteq> [] \<and>
    (\<forall>i \<in> set (roi_references al g). code_eq (name i) (name (hd (roi_references al g)))) \<and>
    (length (roi_references al g) = 1 \<or>
     code_in (name (hd (roi_references al g))) [DCM_ImageRegion, DCM_VolumeSurface])"
  then obtain x xs where xs: "roi_references al g = x # xs" by (cases "roi_references al g") auto
  with a obtain cs where cs: "ContentSequence g = Some cs"
    by (cases "ContentSequence g") (auto simp add: roi_references_def children_def)
  then have ch: "roi_references al g = filter (is_roi_reference al) cs"
    by (simp add: roi_references_def children_def)
  from a xs have tail: "\<forall>i \<in> set xs. code_eq (name i) (name x) \<and>
      code_in (name x) [DCM_ImageRegion, DCM_VolumeSurface]"
    by auto
  from a have known: "allowed_known al" by simp
  have "roi_reference_loop al cs [] None = Inr (Some (name x), x # xs)"
    using loop_none_ok [OF known, of cs "[]"] tail xs unfolding ch by simp
  with cs xs show "get_roi_reference_items g al =
        Inr (Some (name (hd (roi_references al g))), roi_references al g)"
    by (simp add: get_roi_reference_items_def)
  qed
qed

lemma allowed_known_planar: "allowed_known planar_allowed_roi_reference_types"
  by (simp add: allowed_known_def planar_allowed_roi_reference_types_def
      ref_type_value_type_map_def concept_defs)

lemma allowed_known_volumetric: "allowed_known volumetric_allowed_roi_reference_types"
  by (simp add: allowed_known_def volumetric_allowed_roi_reference_types_def
      ref_type_value_type_map_def concept_defs)


theorem get_roi_reference_items_spec_witness:
  "get_roi_reference_items
     (measurement_group_of None [finding_item DCM_ImageRegion, scoord_region, scoord_region])
     planar_allowed_roi_reference_types = Inr (Some DCM_ImageRegion, [scoord_region, scoord_region]) \<and>
   raises (get_roi_reference_items (measurement_group_of None [finding_item DCM_ImageRegion])
     planar_allowed_roi_reference_types)"
proof -
  let ?al = "planar_allowed_roi_reference_types"
  let ?g = "measurement_group_of None [finding_item DCM_ImageRegion, scoord_region, scoord_region]"
  let ?h = "measurement_group_of None [finding_item DCM_ImageRegion]"
  have r: "is_roi_reference ?al scoord_region"
    by (simp add: is_roi_reference_def planar_allowed_roi_reference_types_def code_in_def
        scoord_region_def ref_type_value_type_map_def concept_defs value_type_def)
  have f: "\<not> is_roi_reference ?al (finding_item DCM_ImageRegion)"
    by (simp add: is_roi_reference_def planar_allowed_roi_reference_types_def code_in_def
        finding_item_def ref_type_value_type_map_def concept_defs value_type_def)
  have g: "roi_references ?al ?g = [scoord_region, scoord_region]"
    and h: "roi_references ?al ?h = []"
    by (simp_all add: roi_references_def r f)
  have n: "name scoord_region = DCM_ImageRegion"
    by (simp add: scoord_region_def)
  have m: "code_in DCM_ImageRegion [DCM_ImageRegion, DCM_VolumeSurface]"
    by (simp add: code_in_def)
  note ok = get_roi_reference_items_spec
    [of ?g ?al, THEN conjunct2, THEN conjunct2, THEN conjunct2, THEN conjunct2]
  note none = get_roi_reference_items_spec [of ?h ?al, THEN conjunct2, THEN conjunct1]
  have 1: "get_roi_reference_items ?g ?al = Inr (Some DCM_ImageRegion, [scoord_region, scoord_region])"
    using ok unfolding g by (simp add: n m allowed_known_planar)
  have 2: "raises (get_roi_reference_items ?h ?al)"
    using none h by simp
  from 1 2 show ?thesis by simp
qed

section \<open>Checking person names\<close>

text \<open>
  C10. \<open>check_person_name\<close> raises \<^verbatim>\<open>TypeError\<close> for every value that is neither a
  \<^verbatim>\<open>str\<close> nor a \<^verbatim>\<open>PersonName\<close>. For a value of one of these two types it raises
  \<^verbatim>\<open>ValueError\<close> if and only if the string is not empty and holds no caret, and returns
  normally otherwise: the empty string and every string with at least one caret pass.
\<close>

theorem check_person_name_spec:
  "(\<not> isinstance_str_or_PersonName p \<longrightarrow> is_TypeError (check_person_name p)) \<and>
   (isinstance_str_or_PersonName p \<longrightarrow>
      (is_ValueError (check_person_name p) \<longleftrightarrow>
         str_of p \<noteq> [] \<and> CHR ''^'' \<notin> set (str_of p)) \<and>
      (\<not> is_ValueError (check_person_name p) \<longrightarrow> check_person_name p = Inr ())) \<and>
   check_person_name (PyStr []) = Inr () \<and>
   check_person_name (PersonName []) = Inr () \<and>
   (CHR ''^'' \<in> set s \<longrightarrow>
      check_person_name (PyStr s) = Inr () \<and> check_person_name (PersonName s) = Inr ())"
  by (cases p)
    (simp_all add: check_person_name_def isinstance_str_or_PersonName_def str_of_def
      is_TypeError_def is_ValueError_def)

theorem check_person_name_spec_witness:
  "is_TypeError (check_person_name (PyInt 7)) \<and>
   is_ValueError (check_person_name (PyStr ''Bono'')) \<and>
   check_person_name (PyStr ''Bono^'') = Inr ()"
proof -
  have a: "\<not> isinstance_str_or_PersonName (PyInt 7)"
    and b: "isinstance_str_or_PersonName (PyStr ''Bono'')"
      "str_of (PyStr ''Bono'') \<noteq> []" "CHR ''^'' \<notin> set (str_of (PyStr ''Bono''))"
    and c: "CHR ''^'' \<in> set ''Bono^''"
    by (simp_all add: isinstance_str_or_PersonName_def str_of_def)
  note t1 = check_person_name_spec [of "PyInt 7" "[]", THEN conjunct1]
  note t2 = check_person_name_spec [of "PyStr ''Bono''" "[]", THEN conjunct2, THEN conjunct1]
  note t3 = check_person_name_spec [of PyNone "''Bono^''",
      THEN conjunct2, THEN conjunct2, THEN conjunct2, THEN conjunct2]
  from t1 a have 1: "is_TypeError (check_person_name (PyInt 7))" by blast
  from t2 b have 2: "is_ValueError (check_person_name (PyStr ''Bono''))" by blast
  from t3 c have 3: "check_person_name (PyStr ''Bono^'') = Inr ()" by blast
  from 1 2 3 show ?thesis by blast
qed

section \<open>The constructors of the measurement groups\<close>

lemmas msg_defs =
  msg_empty_regions_def msg_referenced_coordinates_def msg_tracking_identifier_def
  msg_no_reference_def msg_many_references_def msg_planar_no_reference_def
  msg_planar_many_references_def

lemma length_TrackingIdentifier:
  "length (TrackingIdentifier g uid ident) = (case ident of None \<Rightarrow> 1 | Some _ \<Rightarrow> 2)"
  by (simp add: TrackingIdentifier_def Let_def split: option.splits)

lemma instances_Inl: "instances msg xs = Inl e \<Longrightarrow> e = TypeError msg"
  by (induction xs) (auto split: arg.splits sum.splits)

lemma instances_all: "list_all is_instance xs \<Longrightarrow> instances msg xs = Inr (instance_values xs)"
proof (induction xs)
  case Nil
  then show ?case by simp
next
  case (Cons x xs)
  then show ?case by (cases x) simp_all
qed

lemma instances_Inr: "instances msg xs = Inr vs \<Longrightarrow> vs = instance_values xs"
proof (induction xs arbitrary: vs)
  case Nil
  then show ?case by simp
next
  case (Cons x xs)
  then show ?case by (cases x) (auto split: sum.splits)
qed

lemma opt_instance_Inl: "opt_instance msg x f = Inl e \<Longrightarrow> e = TypeError msg"
  by (auto simp add: opt_instance_def split: option.splits arg.splits)

lemma opt_instance_all: "opt_all is_instance x \<Longrightarrow> \<exists>vs. opt_instance msg x f = Inr vs"
  by (cases x) (auto simp add: opt_instance_def opt_all_def split: arg.splits)

lemma base_init_other_object:
  "tracking_identifier a = OtherObject \<Longrightarrow>
     MeasurementsAndQualitativeEvaluations_base_init a =
       Inl (TypeError msg_tracking_identifier_type)"
  by (simp add: MeasurementsAndQualitativeEvaluations_base_init_def Let_def)

lemma base_init_short:
  "tracking_identifier a = Instance ti \<Longrightarrow> length ti = 1 \<Longrightarrow>
     MeasurementsAndQualitativeEvaluations_base_init a = Inl (ValueError msg_tracking_identifier)"
  by (simp add: MeasurementsAndQualitativeEvaluations_base_init_def Let_def)

lemma base_init_Inr:
  "MeasurementsAndQualitativeEvaluations_base_init a = Inr self \<Longrightarrow> \<exists>g. self = [g]"
  unfolding MeasurementsAndQualitativeEvaluations_base_init_def Let_def
  by (auto split: arg.splits if_splits sum.splits)



lemma base_init_annotated:
  assumes "annotated_args a" and "tracking_identifier a = Instance ti" and "length ti \<noteq> 1"
  shows "(other_sequence_sites a \<longrightarrow>
            MeasurementsAndQualitativeEvaluations_base_init a = Inl (TypeError msg_finding_sites)) \<and>
         (\<not> other_sequence_sites a \<longrightarrow>
            (\<exists>g. MeasurementsAndQualitativeEvaluations_base_init a = Inr [g]))"
proof -
  from assms(1) have
    alg: "opt_all is_instance (algorithm_id a)" and
    tpc: "opt_all is_instance (time_point_context a)" and
    rwv: "opt_all is_instance (referenced_real_world_value_map a)" and
    fs: "opt_all (\<lambda>(cls, sites). cls \<noteq> PySet \<and> list_all is_instance sites) (finding_sites a)" and
    ms: "opt_all (list_all is_instance) (measurements a)" and
    qs: "opt_all (list_all is_instance) (qualitative_evaluations a)"
    by (simp_all add: annotated_args_def)
  from opt_instance_all [OF alg] obtain v1 where
    v1: "opt_instance msg_algorithm_id (algorithm_id a) (\<lambda>t. t) = Inr v1" by blast
  from opt_instance_all [OF tpc] obtain v2 where
    v2: "opt_instance msg_time_point_context (time_point_context a) (\<lambda>t. t) = Inr v2" by blast
  from opt_instance_all [OF rwv] obtain v3 where
    v3: "opt_instance msg_real_world_value_map (referenced_real_world_value_map a) (\<lambda>m. [m]) =
      Inr v3" by blast
  from ms obtain v4 where
    v4: "(case measurements a of None \<Rightarrow> Inr [] | Some ms \<Rightarrow> instances msg_measurements ms) =
      Inr v4"
    by (cases "measurements a") (auto simp add: opt_all_def instances_all)
  from qs obtain v5 where
    v5: "(case qualitative_evaluations a of None \<Rightarrow> Inr []
          | Some qs \<Rightarrow> instances msg_qualitative_evaluations qs) = Inr v5"
    by (cases "qualitative_evaluations a") (auto simp add: opt_all_def instances_all)
  show ?thesis
  proof (cases "finding_sites a")
    case None
    with assms(2,3) v1 v2 v3 v4 v5 show ?thesis
      by (simp add: MeasurementsAndQualitativeEvaluations_base_init_def Let_def
          other_sequence_sites_def)
  next
    case (Some p)
    obtain cls sites where p: "p = (cls, sites)" by (cases p)
    from fs Some p have c: "cls \<noteq> PySet" and i: "list_all is_instance sites"
      by (simp_all add: opt_all_def)
    show ?thesis
    proof (cases "cls = OtherSequence")
      case True
      with assms(2,3) Some p show ?thesis
        by (simp add: MeasurementsAndQualitativeEvaluations_base_init_def Let_def
            other_sequence_sites_def)
    next
      case False
      with c have "cls = PyList \<or> cls = PyTuple" by (cases cls) simp_all
      with assms(2,3) Some p False v1 v2 v3 v4 v5 instances_all [OF i, of msg_finding_site_items]
      show ?thesis
        by (auto simp add: MeasurementsAndQualitativeEvaluations_base_init_def Let_def
            other_sequence_sites_def)
    qed
  qed
qed

lemma extend_ContentSequence_Inl:
  "extend_ContentSequence item new_items = Inl e \<Longrightarrow> e = AttributeError ''ContentSequence''"
  by (auto simp add: extend_ContentSequence_def split: option.splits)

lemma append_regions_Inl:
  "append_regions g regions = Inl e \<Longrightarrow>
     e = AttributeError ''ContentSequence'' \<or> e = TypeError msg_region_items"
proof (induction regions arbitrary: g)
  case Nil
  then show ?case by simp
next
  case (Cons r regions)
  then show ?case
    by (cases r) (auto split: sum.splits dest: extend_ContentSequence_Inl)
qed

lemma check_coords_result:
  "check_no_referenced_coordinates ms = Inl e \<Longrightarrow>
     e = ValueError msg_referenced_coordinates \<or>
     e = IndexError ''list index out of range''"
  by (induction ms)
    (auto simp add: Measurement_referenced_coordinates_def find_content_items_def
      split: sum.splits if_splits list.splits option.splits)

lemma sum_provided_n_references:
  "sum_provided [rr \<noteq> None, rv \<noteq> None, rs \<noteq> None] = n_references rr rv rs"
  by (simp add: sum_provided_def n_references_def)

lemma sum_provided_n_planar_references:
  "sum_provided [region \<noteq> None, seg \<noteq> None] = n_planar_references region seg"
  by (simp add: sum_provided_def n_planar_references_def)

lemma roi_init_base_error:
  "MeasurementsAndQualitativeEvaluations_base_init a = Inl e \<Longrightarrow>
     ROIMeasurementsAndQualitativeEvaluations_init a rr rs rv gp = Inl e"
  by (simp add: ROIMeasurementsAndQualitativeEvaluations_init_def)

lemma roi_init_zero:
  assumes "MeasurementsAndQualitativeEvaluations_base_init a = Inr self"
    and "n_references rr rv rs = 0"
  shows "ROIMeasurementsAndQualitativeEvaluations_init a rr rs rv gp =
     Inl (ValueError msg_no_reference)"
proof -
  from base_init_Inr [OF assms(1)] obtain g where "self = [g]" by blast
  with assms show ?thesis
    unfolding ROIMeasurementsAndQualitativeEvaluations_init_def Let_def
      sum_provided_n_references
    by simp
qed

lemma roi_init_many:
  assumes "MeasurementsAndQualitativeEvaluations_base_init a = Inr self"
    and "n_references rr rv rs > 1"
  shows "ROIMeasurementsAndQualitativeEvaluations_init a rr rs rv gp =
     Inl (ValueError msg_many_references)"
proof -
  from base_init_Inr [OF assms(1)] obtain g where "self = [g]" by blast
  with assms show ?thesis
    unfolding ROIMeasurementsAndQualitativeEvaluations_init_def Let_def
      sum_provided_n_references
    by simp
qed

lemma roi_init_one_Inl:
  assumes "MeasurementsAndQualitativeEvaluations_base_init a = Inr self"
    and "n_references rr rv rs = 1"
    and "ROIMeasurementsAndQualitativeEvaluations_init a rr rs rv gp = Inl e"
  shows "e = AttributeError ''ContentSequence'' \<or> e = ValueError msg_empty_regions \<or>
     e = TypeError msg_region_items \<or> e = TypeError msg_volume_surface \<or>
     e = TypeError msg_segment \<or> e = ValueError msg_referenced_coordinates \<or>
     e = IndexError ''list index out of range''"
proof -
  from base_init_Inr [OF assms(1)] obtain g where "self = [g]" by blast
  with assms show ?thesis
    unfolding ROIMeasurementsAndQualitativeEvaluations_init_def Let_def
      sum_provided_n_references
    by (auto split: sum.splits option.splits arg.splits if_splits
        dest: extend_ContentSequence_Inl append_regions_Inl check_coords_result)
qed




lemma base_init_not_tracking:
  assumes "\<not> short_tracking a"
  shows "MeasurementsAndQualitativeEvaluations_base_init a \<noteq>
     Inl (ValueError msg_tracking_identifier)"
  using assms unfolding MeasurementsAndQualitativeEvaluations_base_init_def Let_def
    short_tracking_def
  by (auto split: arg.splits if_splits sum.splits option.splits prod.splits
      dest: instances_Inl opt_instance_Inl)

lemma roi_init_short:
  assumes "short_tracking a"
  shows "ROIMeasurementsAndQualitativeEvaluations_init a rr rs rv gp =
     Inl (ValueError msg_tracking_identifier)"
proof -
  from assms obtain ti where "tracking_identifier a = Instance ti" "length ti = 1"
    by (auto simp add: short_tracking_def split: arg.splits)
  from roi_init_base_error [OF base_init_short [OF this]] show ?thesis .
qed

lemma roi_init_not_tracking:
  assumes "\<not> short_tracking a"
  shows "ROIMeasurementsAndQualitativeEvaluations_init a rr rs rv gp \<noteq>
     Inl (ValueError msg_tracking_identifier)"
proof (cases "MeasurementsAndQualitativeEvaluations_base_init a")
  case (Inl e)
  from roi_init_base_error [OF Inl, of rr rs rv gp] base_init_not_tracking [OF assms] Inl
  show ?thesis by simp
next
  case (Inr self)
  consider "n_references rr rv rs = 0" | "n_references rr rv rs > 1" | "n_references rr rv rs = 1"
    by (cases "n_references rr rv rs") auto
  then show ?thesis
  proof cases
    case 1
    from roi_init_zero [OF Inr 1] show ?thesis by (simp add: msg_defs)
  next
    case 2
    from roi_init_many [OF Inr 2] show ?thesis by (simp add: msg_defs)
  next
    case 3
    show ?thesis
    proof
      assume "ROIMeasurementsAndQualitativeEvaluations_init a rr rs rv gp =
        Inl (ValueError msg_tracking_identifier)"
      from roi_init_one_Inl [OF Inr 3 this] show False by (simp add: msg_defs)
    qed
  qed
qed

lemma retag_Inl [simp]: "retag tid (Inl e) = Inl e"
  by (simp add: retag_def)


lemma retag_not_tracking:
  "r \<noteq> Inl (ValueError msg_tracking_identifier) \<Longrightarrow>
     retag tid r \<noteq> Inl (ValueError msg_tracking_identifier)"
  by (auto simp add: retag_def split: sum.splits list.splits)

lemma planar_init_unfold:
  "PlanarROIMeasurementsAndQualitativeEvaluations_init a region seg gp =
     (if n_planar_references region seg = 0 then Inl (ValueError msg_planar_no_reference)
      else if n_planar_references region seg > 1 then Inl (ValueError msg_planar_many_references)
      else if region = Some OtherObject then Inl (TypeError msg_planar_region_type)
      else if (case seg of None \<Rightarrow> False | Some s \<Rightarrow> \<not> is_ReferencedSegmentationFrame s) then
        Inl (TypeError msg_planar_segment_type)
      else
        retag ''1410''
          (ROIMeasurementsAndQualitativeEvaluations_init a
             (case region of None \<Rightarrow> None | Some r \<Rightarrow> Some [r]) seg None gp))"
  unfolding PlanarROIMeasurementsAndQualitativeEvaluations_init_def
    sum_provided_n_planar_references Let_def
  by (simp split: option.splits arg.splits)

lemma volumetric_init_unfold:
  "VolumetricROIMeasurementsAndQualitativeEvaluations_init a rr rv rs gp =
     (if volumetric_type_error rr rs then
        Inl (TypeError
          (if (case rr of None \<Rightarrow> False | Some regions \<Rightarrow> list_ex is_ImageRegion3D regions)
           then msg_volumetric_region_type else msg_volumetric_segment_type))
      else
        retag ''1411'' (ROIMeasurementsAndQualitativeEvaluations_init a rr rs rv gp))"
  by (simp add: VolumetricROIMeasurementsAndQualitativeEvaluations_init_def
      volumetric_type_error_def)



lemma annotated_volumetric_no_type_error:
  assumes "annotated_volumetric rr rv rs"
  shows "\<not> volumetric_type_error rr rs"
proof -
  have r: "list_all is_ImageRegion regions \<Longrightarrow> \<not> list_ex is_ImageRegion3D regions" for regions
  proof (induction regions)
    case Nil
    then show ?case by simp
  next
    case (Cons x xs)
    then show ?case by (cases x rule: is_ImageRegion.cases) simp_all
  qed
  from assms r show ?thesis
    by (auto simp add: annotated_volumetric_def volumetric_type_error_def opt_all_def
        split: option.splits)
qed

lemma annotated_planar_no_type_error:
  "annotated_planar region seg \<Longrightarrow> \<not> planar_type_error region seg"
  by (auto simp add: annotated_planar_def planar_type_error_def opt_all_def
      split: option.splits)











lemma annotated_plain_args: "annotated_args (plain_args ti)"
  by (simp add: annotated_args_def plain_args_def opt_all_def)


lemma other_sequence_examples:
  "\<not> other_sequence_sites (plain_args ti)"
  "other_sequence_sites (sites_args ti cls) \<longleftrightarrow> cls = OtherSequence"
  by (simp_all add: other_sequence_sites_def sites_args_def plain_args_def)





lemma mqe_init_base_error:
  "MeasurementsAndQualitativeEvaluations_base_init a = Inl e \<Longrightarrow>
     MeasurementsAndQualitativeEvaluations_init a src = Inl e"
  by (simp add: MeasurementsAndQualitativeEvaluations_init_def)

lemma mqe_init_not_tracking:
  assumes "\<not> short_tracking a"
  shows "MeasurementsAndQualitativeEvaluations_init a src \<noteq>
     Inl (ValueError msg_tracking_identifier)"
proof (cases "MeasurementsAndQualitativeEvaluations_base_init a")
  case (Inl e)
  from mqe_init_base_error [OF Inl, of src] base_init_not_tracking [OF assms] Inl
  show ?thesis by simp
next
  case (Inr self)
  then show ?thesis
    by (auto simp add: MeasurementsAndQualitativeEvaluations_init_def
        split: list.splits option.splits sum.splits
        dest: instances_Inl extend_ContentSequence_Inl)
qed

lemma base_init_content:
  assumes "MeasurementsAndQualitativeEvaluations_base_init a = Inr [g]"
    and "tracking_identifier a = Instance ti" and "ti \<noteq> []"
  shows "ContentSequence g \<noteq> None"
  using assms unfolding MeasurementsAndQualitativeEvaluations_base_init_def Let_def
  by (auto simp add: set_ContentSequence_def split: if_splits sum.splits)

lemma mqe_init_accepts:
  assumes "MeasurementsAndQualitativeEvaluations_base_init a = Inr [g]"
    and "tracking_identifier a = Instance ti" and "ti \<noteq> []"
    and "opt_all (list_all is_instance) src"
  shows "\<exists>g'. MeasurementsAndQualitativeEvaluations_init a src = Inr [g']"
proof (cases src)
  case None
  with assms(1) show ?thesis by (simp add: MeasurementsAndQualitativeEvaluations_init_def)
next
  case (Some imgs)
  with assms(4) have "instances msg_source_images imgs = Inr (instance_values imgs)"
    by (simp add: opt_all_def instances_all)
  moreover from base_init_content [OF assms(1-3)] obtain items where
    "ContentSequence g = Some items" by auto
  ultimately show ?thesis using assms(1) Some
    by (simp add: MeasurementsAndQualitativeEvaluations_init_def extend_ContentSequence_def)
qed

lemma tracking_update [simp]:
  "tracking_identifier (a\<lparr>tracking_identifier := ti\<rparr>) = ti"
  by simp

lemma short_tracking_update [simp]:
  "short_tracking (a\<lparr>tracking_identifier := Instance ti\<rparr>) \<longleftrightarrow> length ti = 1"
  by (simp add: short_tracking_def)

text \<open>
  C9. A \<^verbatim>\<open>TrackingIdentifier\<close> built without the human readable identifier has one
  item, and its constructor accepts that. Given it, the base constructor, the constructor
  of \<^verbatim>\<open>MeasurementsAndQualitativeEvaluations\<close> and the shared ROI constructor raise the
  \<^verbatim>\<open>ValueError\<close> of the tracking identifier, whatever the other arguments. So do the
  planar and the volumetric constructor on references as they annotate them; the planar
  constructor raises the \<^verbatim>\<open>ValueError\<close> of its own test first when not exactly one
  reference is given. Outside the annotations the tests of the classes come first: the
  planar constructor raises \<^verbatim>\<open>TypeError\<close> for a region that is neither an
  \<^verbatim>\<open>ImageRegion\<close> nor an \<^verbatim>\<open>ImageRegion3D\<close> and for a segment reference that is not
  a \<^verbatim>\<open>ReferencedSegmentationFrame\<close>, the volumetric constructor for an
  \<^verbatim>\<open>ImageRegion3D\<close> among the regions and for a segment reference that is not a
  \<^verbatim>\<open>ReferencedSegment\<close>. A \<^verbatim>\<open>TrackingIdentifier\<close> with both items has two items
  and is accepted: no constructor raises the error of the tracking identifier, and on
  arguments as annotated, the finding sites in a list or a tuple, the base constructor and
  \<^verbatim>\<open>MeasurementsAndQualitativeEvaluations\<close> return a group.
\<close>

theorem tracking_identifier_needs_both_items:
  "length (TrackingIdentifier generated uid None) = 1 \<and>
   MeasurementsAndQualitativeEvaluations_base_init
       (a\<lparr>tracking_identifier := Instance (TrackingIdentifier generated uid None)\<rparr>) =
     Inl (ValueError msg_tracking_identifier) \<and>
   MeasurementsAndQualitativeEvaluations_init
       (a\<lparr>tracking_identifier := Instance (TrackingIdentifier generated uid None)\<rparr>)
       source_images =
     Inl (ValueError msg_tracking_identifier) \<and>
   ROIMeasurementsAndQualitativeEvaluations_init
       (a\<lparr>tracking_identifier := Instance (TrackingIdentifier generated uid None)\<rparr>)
       rr rs rv gp =
     Inl (ValueError msg_tracking_identifier) \<and>
   PlanarROIMeasurementsAndQualitativeEvaluations_init
       (a\<lparr>tracking_identifier := Instance (TrackingIdentifier generated uid None)\<rparr>)
       region seg gp =
     (if n_planar_references region seg = 0 then Inl (ValueError msg_planar_no_reference)
      else if n_planar_references region seg > 1 then Inl (ValueError msg_planar_many_references)
      else if planar_type_error region seg then
        Inl (TypeError
          (if region = Some OtherObject then msg_planar_region_type
           else msg_planar_segment_type))
      else Inl (ValueError msg_tracking_identifier)) \<and>
   (annotated_planar region seg \<longrightarrow>
      is_ValueError
        (PlanarROIMeasurementsAndQualitativeEvaluations_init
           (a\<lparr>tracking_identifier := Instance (TrackingIdentifier generated uid None)\<rparr>)
           region seg gp)) \<and>
   VolumetricROIMeasurementsAndQualitativeEvaluations_init
       (a\<lparr>tracking_identifier := Instance (TrackingIdentifier generated uid None)\<rparr>)
       rr rv rs gp =
     (if volumetric_type_error rr rs then
        Inl (TypeError
          (if (case rr of None \<Rightarrow> False | Some regions \<Rightarrow> list_ex is_ImageRegion3D regions)
           then msg_volumetric_region_type else msg_volumetric_segment_type))
      else Inl (ValueError msg_tracking_identifier)) \<and>
   (annotated_volumetric rr rv rs \<longrightarrow>
      VolumetricROIMeasurementsAndQualitativeEvaluations_init
          (a\<lparr>tracking_identifier := Instance (TrackingIdentifier generated uid None)\<rparr>)
          rr rv rs gp =
        Inl (ValueError msg_tracking_identifier)) \<and>
   length (TrackingIdentifier generated uid (Some ident)) = 2 \<and>
   (annotated_args
      (a\<lparr>tracking_identifier := Instance (TrackingIdentifier generated uid (Some ident))\<rparr>) \<and>
    \<not> other_sequence_sites
      (a\<lparr>tracking_identifier := Instance (TrackingIdentifier generated uid (Some ident))\<rparr>) \<longrightarrow>
      (\<exists>g. MeasurementsAndQualitativeEvaluations_base_init
             (a\<lparr>tracking_identifier :=
                  Instance (TrackingIdentifier generated uid (Some ident))\<rparr>) = Inr [g]) \<and>
      (opt_all (list_all is_instance) source_images \<longrightarrow>
         (\<exists>g. MeasurementsAndQualitativeEvaluations_init
                (a\<lparr>tracking_identifier :=
                     Instance (TrackingIdentifier generated uid (Some ident))\<rparr>)
                source_images = Inr [g]))) \<and>
   MeasurementsAndQualitativeEvaluations_base_init
       (a\<lparr>tracking_identifier := Instance (TrackingIdentifier generated uid (Some ident))\<rparr>) \<noteq>
     Inl (ValueError msg_tracking_identifier) \<and>
   MeasurementsAndQualitativeEvaluations_init
       (a\<lparr>tracking_identifier := Instance (TrackingIdentifier generated uid (Some ident))\<rparr>)
       source_images \<noteq>
     Inl (ValueError msg_tracking_identifier) \<and>
   ROIMeasurementsAndQualitativeEvaluations_init
       (a\<lparr>tracking_identifier := Instance (TrackingIdentifier generated uid (Some ident))\<rparr>)
       rr rs rv gp \<noteq>
     Inl (ValueError msg_tracking_identifier) \<and>
   PlanarROIMeasurementsAndQualitativeEvaluations_init
       (a\<lparr>tracking_identifier := Instance (TrackingIdentifier generated uid (Some ident))\<rparr>)
       region seg gp \<noteq>
     Inl (ValueError msg_tracking_identifier) \<and>
   VolumetricROIMeasurementsAndQualitativeEvaluations_init
       (a\<lparr>tracking_identifier := Instance (TrackingIdentifier generated uid (Some ident))\<rparr>)
       rr rv rs gp \<noteq>
     Inl (ValueError msg_tracking_identifier)"
proof -
  let ?a1 = "a\<lparr>tracking_identifier := Instance (TrackingIdentifier generated uid None)\<rparr>"
  let ?a2 = "a\<lparr>tracking_identifier := Instance (TrackingIdentifier generated uid (Some ident))\<rparr>"
  have 1: "length (TrackingIdentifier generated uid None) = 1"
    and 9: "length (TrackingIdentifier generated uid (Some ident)) = 2"
    by (simp_all add: length_TrackingIdentifier)
  have t1: "tracking_identifier ?a1 = Instance (TrackingIdentifier generated uid None)"
    and t2: "tracking_identifier ?a2 = Instance (TrackingIdentifier generated uid (Some ident))"
    by simp_all
  have s1: "short_tracking ?a1" and s2: "\<not> short_tracking ?a2"
    by (simp_all add: length_TrackingIdentifier)
  note 2 = base_init_short [OF t1 1]
  note 3 = mqe_init_base_error [OF 2, of source_images]
  note 4 = roi_init_short [OF s1, of rr rs rv gp]
  have 5: "PlanarROIMeasurementsAndQualitativeEvaluations_init ?a1 region seg gp =
     (if n_planar_references region seg = 0 then Inl (ValueError msg_planar_no_reference)
      else if n_planar_references region seg > 1 then Inl (ValueError msg_planar_many_references)
      else if planar_type_error region seg then
        Inl (TypeError
          (if region = Some OtherObject then msg_planar_region_type
           else msg_planar_segment_type))
      else Inl (ValueError msg_tracking_identifier))"
    unfolding planar_init_unfold roi_init_short [OF s1]
    by (simp add: planar_type_error_def)
  have 6: "annotated_planar region seg \<longrightarrow>
      is_ValueError (PlanarROIMeasurementsAndQualitativeEvaluations_init ?a1 region seg gp)"
    unfolding 5 using annotated_planar_no_type_error [of region seg]
    by (simp add: is_ValueError_def)
  have 7: "VolumetricROIMeasurementsAndQualitativeEvaluations_init ?a1 rr rv rs gp =
     (if volumetric_type_error rr rs then
        Inl (TypeError
          (if (case rr of None \<Rightarrow> False | Some regions \<Rightarrow> list_ex is_ImageRegion3D regions)
           then msg_volumetric_region_type else msg_volumetric_segment_type))
      else Inl (ValueError msg_tracking_identifier))"
    unfolding volumetric_init_unfold roi_init_short [OF s1] by simp
  have 8: "annotated_volumetric rr rv rs \<longrightarrow>
      VolumetricROIMeasurementsAndQualitativeEvaluations_init ?a1 rr rv rs gp =
        Inl (ValueError msg_tracking_identifier)"
    unfolding 7 using annotated_volumetric_no_type_error [of rr rv rs] by simp
  have 10: "annotated_args ?a2 \<and> \<not> other_sequence_sites ?a2 \<longrightarrow>
      (\<exists>g. MeasurementsAndQualitativeEvaluations_base_init ?a2 = Inr [g]) \<and>
      (opt_all (list_all is_instance) source_images \<longrightarrow>
         (\<exists>g. MeasurementsAndQualitativeEvaluations_init ?a2 source_images = Inr [g]))"
  proof (intro impI, elim conjE)
    assume an: "annotated_args ?a2" and os: "\<not> other_sequence_sites ?a2"
    have l: "length (TrackingIdentifier generated uid (Some ident)) \<noteq> 1"
      and ne: "TrackingIdentifier generated uid (Some ident) \<noteq> []"
      using 9 by auto
    from base_init_annotated [OF an t2 l] os obtain g where
      g: "MeasurementsAndQualitativeEvaluations_base_init ?a2 = Inr [g]" by blast
    from g mqe_init_accepts [OF g t2 ne, of source_images]
    show "(\<exists>g. MeasurementsAndQualitativeEvaluations_base_init ?a2 = Inr [g]) \<and>
      (opt_all (list_all is_instance) source_images \<longrightarrow>
         (\<exists>g. MeasurementsAndQualitativeEvaluations_init ?a2 source_images = Inr [g]))"
      by blast
  qed
  note 11 = base_init_not_tracking [OF s2]
  note 12 = mqe_init_not_tracking [OF s2, of source_images]
  note 13 = roi_init_not_tracking [OF s2, of rr rs rv gp]
  have 14: "PlanarROIMeasurementsAndQualitativeEvaluations_init ?a2 region seg gp \<noteq>
     Inl (ValueError msg_tracking_identifier)"
    using retag_not_tracking [OF roi_init_not_tracking [OF s2]]
    by (simp add: planar_init_unfold msg_defs)
  have 15: "VolumetricROIMeasurementsAndQualitativeEvaluations_init ?a2 rr rv rs gp \<noteq>
     Inl (ValueError msg_tracking_identifier)"
    using retag_not_tracking [OF roi_init_not_tracking [OF s2]]
    by (simp add: volumetric_init_unfold)
  from 1 2 3 4 5 6 7 8 9 10 11 12 13 14 15 show ?thesis by (intro conjI)
qed


text \<open>
  C9 on calls with nothing optional: with the one-item tracking identifier the constructor
  of \<^verbatim>\<open>MeasurementsAndQualitativeEvaluations\<close>, the planar constructor given one image
  region and the volumetric constructor given one list of image regions raise
  \<^verbatim>\<open>ValueError\<close>; with the two-item tracking identifier the first returns a group.
\<close>

theorem tracking_identifier_needs_both_items_witness:
  "MeasurementsAndQualitativeEvaluations_init
       (plain_args (TrackingIdentifier ''2.25.1'' (Some ''1.2.3'') None)) None =
     Inl (ValueError msg_tracking_identifier) \<and>
   is_ValueError
     (PlanarROIMeasurementsAndQualitativeEvaluations_init
        (plain_args (TrackingIdentifier ''2.25.1'' (Some ''1.2.3'') None))
        (Some (Instance (ImageRegion scoord_region))) None None) \<and>
   VolumetricROIMeasurementsAndQualitativeEvaluations_init
       (plain_args (TrackingIdentifier ''2.25.1'' (Some ''1.2.3'') None))
       (Some [Instance (ImageRegion scoord_region)]) None None None =
     Inl (ValueError msg_tracking_identifier) \<and>
   (\<exists>g. MeasurementsAndQualitativeEvaluations_init
          (plain_args (TrackingIdentifier ''2.25.1'' (Some ''1.2.3'') (Some ''lesion-1''))) None =
        Inr [g])"
proof -
  let ?a = "plain_args []"
  have a1: "?a\<lparr>tracking_identifier :=
        Instance (TrackingIdentifier ''2.25.1'' (Some ''1.2.3'') None)\<rparr> =
      plain_args (TrackingIdentifier ''2.25.1'' (Some ''1.2.3'') None)"
    and a2: "?a\<lparr>tracking_identifier :=
        Instance (TrackingIdentifier ''2.25.1'' (Some ''1.2.3'') (Some ''lesion-1''))\<rparr> =
      plain_args (TrackingIdentifier ''2.25.1'' (Some ''1.2.3'') (Some ''lesion-1''))"
    by (simp_all add: plain_args_def)
  note t = tracking_identifier_needs_both_items
    [where generated = "''2.25.1''" and uid = "Some ''1.2.3''" and a = ?a
       and source_images = None and rr = "Some [Instance (ImageRegion scoord_region)]"
       and rs = None and rv = None and gp = None
       and region = "Some (Instance (ImageRegion scoord_region))" and seg = None
       and ident = "''lesion-1''"]
  note t3 = t [THEN conjunct2, THEN conjunct2, THEN conjunct1]
  note t6 = t [THEN conjunct2, THEN conjunct2, THEN conjunct2, THEN conjunct2, THEN conjunct2,
    THEN conjunct1]
  note t8 = t [THEN conjunct2, THEN conjunct2, THEN conjunct2, THEN conjunct2, THEN conjunct2,
    THEN conjunct2, THEN conjunct2, THEN conjunct1]
  note t10 = t [THEN conjunct2, THEN conjunct2, THEN conjunct2, THEN conjunct2, THEN conjunct2,
    THEN conjunct2, THEN conjunct2, THEN conjunct2, THEN conjunct2, THEN conjunct1]
  have ap: "annotated_planar (Some (Instance (ImageRegion scoord_region))) None"
    by (simp add: annotated_planar_def opt_all_def)
  have av: "annotated_volumetric (Some [Instance (ImageRegion scoord_region)]) None None"
    by (simp add: annotated_volumetric_def opt_all_def)
  have si: "opt_all (list_all is_instance) (None :: content_item arg list option)"
    by (simp add: opt_all_def)
  from t3 have 1: "MeasurementsAndQualitativeEvaluations_init
       (plain_args (TrackingIdentifier ''2.25.1'' (Some ''1.2.3'') None)) None =
     Inl (ValueError msg_tracking_identifier)"
    unfolding a1 .
  from t6 ap have 2: "is_ValueError
     (PlanarROIMeasurementsAndQualitativeEvaluations_init
        (plain_args (TrackingIdentifier ''2.25.1'' (Some ''1.2.3'') None))
        (Some (Instance (ImageRegion scoord_region))) None None)"
    unfolding a1 by simp
  from t8 av have 3: "VolumetricROIMeasurementsAndQualitativeEvaluations_init
       (plain_args (TrackingIdentifier ''2.25.1'' (Some ''1.2.3'') None))
       (Some [Instance (ImageRegion scoord_region)]) None None None =
     Inl (ValueError msg_tracking_identifier)"
    unfolding a1 by simp
  from t10 si have 4: "\<exists>g. MeasurementsAndQualitativeEvaluations_init
          (plain_args (TrackingIdentifier ''2.25.1'' (Some ''1.2.3'') (Some ''lesion-1''))) None =
        Inr [g]"
    unfolding a2 by (simp add: annotated_plain_args other_sequence_examples)
  from 1 2 3 4 show ?thesis by (intro conjI)
qed

section \<open>The accessors\<close>

lemma find_content_items_name_type:
  "ContentSequence parent = Some items \<Longrightarrow>
     find_content_items parent (Some n) (Some t) None = Inr (filter (item_matches n t) items)"
proof -
  have "item_matches n t = (\<lambda>item. code_eq (name item) n \<and> value_type item = t)"
    by (rule ext) (simp add: item_matches_def)
  then show "ContentSequence parent = Some items \<Longrightarrow>
     find_content_items parent (Some n) (Some t) None = Inr (filter (item_matches n t) items)"
    by (simp add: find_content_items_def)
qed

lemma find_content_items_no_content:
  "ContentSequence parent = None \<Longrightarrow>
     find_content_items parent nm vt rel = Inl (AttributeError ''ContentSequence'')"
  by (simp add: find_content_items_def)

lemma filter_first_match:
  assumes "\<forall>item \<in> set before. \<not> P item" and "P m"
  shows "filter P (before @ m # after) = m # filter P after"
  using assms by (simp add: filter_empty_conv)

lemma first_match_from_filter:
  assumes "\<And>root rest items. ContentSequence root = Some items \<Longrightarrow>
      \<exists>log. accessor (root # rest) =
      Inr (log, case filter (item_matches n t) items of
                  [] \<Rightarrow> None | m # _ \<Rightarrow> Some (value_of m))"
  shows "returns_first_match accessor n t"
  unfolding returns_first_match_def
proof (intro allI conjI impI)
  fix root rest items
  assume c: "ContentSequence root = Some items"
    and "\<forall>item \<in> set items. \<not> item_matches n t item"
  then have "filter (item_matches n t) items = []"
    by (simp add: filter_empty_conv)
  with assms [OF c, of rest] show "\<exists>log. accessor (root # rest) = Inr (log, None)"
    by simp
next
  fix root rest items before m after
  assume c: "ContentSequence root = Some items"
    and "items = before @ m # after \<and> item_matches n t m \<and>
           (\<forall>item \<in> set before. \<not> item_matches n t item)"
  then have "filter (item_matches n t) items = m # filter (item_matches n t) after"
    by (simp add: filter_first_match)
  with assms [OF c, of rest] show "\<exists>log. accessor (root # rest) = Inr (log, Some (value_of m))"
    by simp
qed

lemma group_method_first: "returns_first_match MeasurementsAndQualitativeEvaluations_method
    SCT_MeasurementMethod CODE"
  by (rule first_match_from_filter)
    (simp add: MeasurementsAndQualitativeEvaluations_method_def Let_def
      find_content_items_name_type split: list.splits)

lemma group_tracking_identifier_first:
  "returns_first_match MeasurementsAndQualitativeEvaluations_tracking_identifier
    DCM_TrackingIdentifier TEXT"
  by (rule first_match_from_filter)
    (simp add: MeasurementsAndQualitativeEvaluations_tracking_identifier_def Let_def
      find_content_items_name_type split: list.splits)

lemma group_tracking_uid_first:
  "returns_first_match MeasurementsAndQualitativeEvaluations_tracking_uid
    DCM_TrackingUniqueIdentifier UIDREF"
  by (rule first_match_from_filter)
    (simp add: MeasurementsAndQualitativeEvaluations_tracking_uid_def Let_def
      find_content_items_name_type split: list.splits)

lemma group_finding_category_first:
  "returns_first_match MeasurementsAndQualitativeEvaluations_finding_category
    (Code ''276214006'' ''SCT'' ''Finding category'') CODE"
  by (rule first_match_from_filter)
    (simp add: MeasurementsAndQualitativeEvaluations_finding_category_def Let_def
      find_content_items_name_type split: list.splits)

lemma group_finding_type_first:
  "returns_first_match MeasurementsAndQualitativeEvaluations_finding_type DCM_Finding CODE"
  by (rule first_match_from_filter)
    (simp add: MeasurementsAndQualitativeEvaluations_finding_type_def Let_def
      find_content_items_name_type split: list.splits)

lemma measurement_method_first:
  "returns_first_match Measurement_method SCT_MeasurementMethod CODE"
  by (rule first_match_from_filter)
    (simp add: Measurement_method_def Let_def
      find_content_items_name_type split: list.splits)

lemma measurement_derivation_first:
  "returns_first_match Measurement_derivation DCM_Derivation CODE"
  by (rule first_match_from_filter)
    (simp add: Measurement_derivation_def Let_def
      find_content_items_name_type split: list.splits)

lemma group_finding_sites_all:
  "returns_all_matches MeasurementsAndQualitativeEvaluations_finding_sites SCT_FindingSite CODE"
  by (simp add: returns_all_matches_def MeasurementsAndQualitativeEvaluations_finding_sites_def
      Let_def find_content_items_name_type)

lemma measurement_finding_sites_all:
  "returns_all_matches Measurement_finding_sites SCT_FindingSite CODE"
  by (simp add: returns_all_matches_def Measurement_finding_sites_def
      Let_def find_content_items_name_type)

lemma measurement_referenced_images_all:
  "returns_all_matches Measurement_referenced_images DCM_SourceOfMeasurement IMAGE"
  by (simp add: returns_all_matches_def Measurement_referenced_images_def
      Let_def find_content_items_name_type)

lemma measurement_defaults:
  "default_without_content Measurement_method None"
  "default_without_content Measurement_derivation None"
  "default_without_content Measurement_finding_sites []"
  "default_without_content Measurement_referenced_images []"
  by (simp_all add: default_without_content_def Measurement_method_def
      Measurement_derivation_def Measurement_finding_sites_def Measurement_referenced_images_def)

lemma group_raises:
  "raises_without_content MeasurementsAndQualitativeEvaluations_method"
  "raises_without_content MeasurementsAndQualitativeEvaluations_tracking_identifier"
  "raises_without_content MeasurementsAndQualitativeEvaluations_tracking_uid"
  "raises_without_content MeasurementsAndQualitativeEvaluations_finding_category"
  "raises_without_content MeasurementsAndQualitativeEvaluations_finding_type"
  "raises_without_content MeasurementsAndQualitativeEvaluations_finding_sites"
  by (simp_all add: raises_without_content_def find_content_items_no_content
      MeasurementsAndQualitativeEvaluations_method_def
      MeasurementsAndQualitativeEvaluations_tracking_identifier_def
      MeasurementsAndQualitativeEvaluations_tracking_uid_def
      MeasurementsAndQualitativeEvaluations_finding_category_def
      MeasurementsAndQualitativeEvaluations_finding_type_def
      MeasurementsAndQualitativeEvaluations_finding_sites_def)

text \<open>
  C7. On a template whose first item has a content sequence the claim holds: the accessors
  of the singular fields of a measurement group (\<^verbatim>\<open>method\<close>, \<^verbatim>\<open>tracking_identifier\<close>,
  \<^verbatim>\<open>tracking_uid\<close>, \<^verbatim>\<open>finding_category\<close>, \<^verbatim>\<open>finding_type\<close>) and of a measurement
  (\<^verbatim>\<open>method\<close>, \<^verbatim>\<open>derivation\<close>) return \<open>None\<close> when no child has the concept name and
  value type of the field, and the value of the first such child in document order when
  there is one, also when several follow; the accessors of the list-valued fields
  (\<^verbatim>\<open>finding_sites\<close> of both, \<^verbatim>\<open>referenced_images\<close> of a measurement) return the
  matching children, the empty list when there is none. On a first item without content
  sequence, where no matching child exists, the accessors of a measurement test
  \<^verbatim>\<open>hasattr(self[0], 'ContentSequence')\<close> and return \<open>None\<close> or the empty list, but the
  six accessors of a measurement group search without that test and raise
  \<^verbatim>\<open>AttributeError\<close>.
\<close>

theorem group_accessors_need_content_sequence:
  "returns_first_match MeasurementsAndQualitativeEvaluations_method SCT_MeasurementMethod CODE \<and>
   returns_first_match MeasurementsAndQualitativeEvaluations_tracking_identifier
     DCM_TrackingIdentifier TEXT \<and>
   returns_first_match MeasurementsAndQualitativeEvaluations_tracking_uid
     DCM_TrackingUniqueIdentifier UIDREF \<and>
   returns_first_match MeasurementsAndQualitativeEvaluations_finding_category
     (Code ''276214006'' ''SCT'' ''Finding category'') CODE \<and>
   returns_first_match MeasurementsAndQualitativeEvaluations_finding_type DCM_Finding CODE \<and>
   returns_first_match Measurement_method SCT_MeasurementMethod CODE \<and>
   returns_first_match Measurement_derivation DCM_Derivation CODE \<and>
   returns_all_matches MeasurementsAndQualitativeEvaluations_finding_sites SCT_FindingSite CODE \<and>
   returns_all_matches Measurement_finding_sites SCT_FindingSite CODE \<and>
   returns_all_matches Measurement_referenced_images DCM_SourceOfMeasurement IMAGE \<and>
   default_without_content Measurement_method None \<and>
   default_without_content Measurement_derivation None \<and>
   default_without_content Measurement_finding_sites [] \<and>
   default_without_content Measurement_referenced_images [] \<and>
   raises_without_content MeasurementsAndQualitativeEvaluations_method \<and>
   raises_without_content MeasurementsAndQualitativeEvaluations_tracking_identifier \<and>
   raises_without_content MeasurementsAndQualitativeEvaluations_tracking_uid \<and>
   raises_without_content MeasurementsAndQualitativeEvaluations_finding_category \<and>
   raises_without_content MeasurementsAndQualitativeEvaluations_finding_type \<and>
   raises_without_content MeasurementsAndQualitativeEvaluations_finding_sites"
  by (intro conjI group_method_first group_tracking_identifier_first group_tracking_uid_first
      group_finding_category_first group_finding_type_first measurement_method_first
      measurement_derivation_first group_finding_sites_all measurement_finding_sites_all
      measurement_referenced_images_all measurement_defaults group_raises)

text \<open>
  C7 on examples. A group whose children are a region and two measurement methods: the
  first method is returned. A group whose only child is a region: \<open>None\<close>. A measurement
  whose numeric item has no content sequence: \<open>None\<close>. A measurement group whose item has
  no content sequence: \<^verbatim>\<open>method\<close> and \<^verbatim>\<open>tracking_uid\<close> raise \<^verbatim>\<open>AttributeError\<close>.
\<close>

theorem group_accessors_need_content_sequence_witness:
  "(\<exists>log. MeasurementsAndQualitativeEvaluations_method
       [measurement_group_of None
          [scoord_region, method_item DCM_Finding, method_item DCM_Derivation]] =
     Inr (log, Some (CodeValue DCM_Finding))) \<and>
   (\<exists>log. MeasurementsAndQualitativeEvaluations_method
       [measurement_group_of None [scoord_region]] = Inr (log, None)) \<and>
   Measurement_method [bare_measurement] = Inr ([], None) \<and>
   MeasurementsAndQualitativeEvaluations_method [empty_group] =
     Inl (AttributeError ''ContentSequence'') \<and>
   MeasurementsAndQualitativeEvaluations_tracking_uid [empty_group] =
     Inl (AttributeError ''ContentSequence'')"
proof -
  note t = group_accessors_need_content_sequence
  note first = t [THEN conjunct1, unfolded returns_first_match_def, rule_format]
  note dflt = t [THEN conjunct2, THEN conjunct2, THEN conjunct2, THEN conjunct2, THEN conjunct2,
      THEN conjunct2, THEN conjunct2, THEN conjunct2, THEN conjunct2, THEN conjunct2,
      THEN conjunct1, unfolded default_without_content_def, rule_format]
  note r1 = t [THEN conjunct2, THEN conjunct2, THEN conjunct2, THEN conjunct2, THEN conjunct2,
      THEN conjunct2, THEN conjunct2, THEN conjunct2, THEN conjunct2, THEN conjunct2,
      THEN conjunct2, THEN conjunct2, THEN conjunct2, THEN conjunct2,
      THEN conjunct1, unfolded raises_without_content_def, rule_format]
  note r3 = t [THEN conjunct2, THEN conjunct2, THEN conjunct2, THEN conjunct2, THEN conjunct2,
      THEN conjunct2, THEN conjunct2, THEN conjunct2, THEN conjunct2, THEN conjunct2,
      THEN conjunct2, THEN conjunct2, THEN conjunct2, THEN conjunct2,
      THEN conjunct2, THEN conjunct2, THEN conjunct1, unfolded raises_without_content_def,
      rule_format]
  have m: "item_matches SCT_MeasurementMethod CODE (method_item c)" for c
    by (simp add: item_matches_def method_item_def value_type_def)
  have s: "\<not> item_matches SCT_MeasurementMethod CODE scoord_region"
    by (simp add: item_matches_def scoord_region_def value_type_def)
  have v: "value_of (method_item c) = CodeValue c" for c
    by (simp add: method_item_def)
  have e: "ContentSequence empty_group = None" "ContentSequence bare_measurement = None"
    by (simp_all add: empty_group_def bare_measurement_def)
  have 1: "\<exists>log. MeasurementsAndQualitativeEvaluations_method
       [measurement_group_of None
          [scoord_region, method_item DCM_Finding, method_item DCM_Derivation]] =
     Inr (log, Some (value_of (method_item DCM_Finding)))"
    by (rule first [THEN conjunct2, rule_format,
          of _ "[scoord_region, method_item DCM_Finding, method_item DCM_Derivation]"
             "[scoord_region]" _ "[method_item DCM_Derivation]"])
      (simp_all add: m s)
  have 2: "\<exists>log. MeasurementsAndQualitativeEvaluations_method
       [measurement_group_of None [scoord_region]] = Inr (log, None)"
    by (rule first [THEN conjunct1, rule_format, of _ "[scoord_region]"]) (simp_all add: s)
  note 3 = dflt [OF e(2), of "[]"]
  note 4 = r1 [OF e(1), of "[]"]
  note 5 = r3 [OF e(1), of "[]"]
  from 1 2 3 4 5 show ?thesis by (simp add: v)
qed

section \<open>The round trip through the dataset representation\<close>

lemma parse_value_type_name [simp]:
  "parse_name value_type_name all_value_types (value_type_name t) = Some t"
  by (cases t) (simp_all add: parse_name_def all_value_types_def)

lemma parse_value_type_literals:
  "parse_name value_type_name all_value_types ''CODE'' = Some CODE"
  "parse_name value_type_name all_value_types ''TEXT'' = Some TEXT"
  "parse_name value_type_name all_value_types ''NUM'' = Some NUM"
  "parse_name value_type_name all_value_types ''UIDREF'' = Some UIDREF"
  "parse_name value_type_name all_value_types ''PNAME'' = Some PNAME"
  "parse_name value_type_name all_value_types ''IMAGE'' = Some IMAGE"
  "parse_name value_type_name all_value_types ''COMPOSITE'' = Some COMPOSITE"
  "parse_name value_type_name all_value_types ''CONTAINER'' = Some CONTAINER"
  "parse_name value_type_name all_value_types ''SCOORD'' = Some SCOORD"
  "parse_name value_type_name all_value_types ''SCOORD3D'' = Some SCOORD3D"
  "parse_name value_type_name all_value_types ''DATETIME'' = Some DATETIME"
  by (simp_all add: parse_name_def all_value_types_def)

lemma parse_relationship_type_name [simp]:
  "parse_name relationship_type_name all_relationship_types (relationship_type_name r) = Some r"
  by (cases r) (simp_all add: parse_name_def all_relationship_types_def)

lemma parse_graphic_type_name [simp]:
  "parse_name graphic_type_name all_graphic_types (graphic_type_name g) = Some g"
  by (cases g) (simp_all add: parse_name_def all_graphic_types_def)

lemma parse_graphic_type_3d_name [simp]:
  "parse_name graphic_type_3d_name all_graphic_types_3d (graphic_type_3d_name g) = Some g"
  by (cases g) (simp_all add: parse_name_def all_graphic_types_3d_def)

lemma unflatten2_flatten2 [simp]: "unflatten2 (flatten2 ps) = Some ps"
  by (induction ps rule: flatten2.induct) simp_all

lemma unflatten3_flatten3 [simp]: "unflatten3 (flatten3 ps) = Some ps"
  by (induction ps rule: flatten3.induct) simp_all

lemma collect_Inr:
  "(\<And>x. x \<in> set xs \<Longrightarrow> f x = Inr x) \<Longrightarrow> collect (map f xs) = Inr xs"
  by (induction xs) simp_all

lemma from_dataset_to_dataset: "from_dataset (to_dataset item) = Inr item"
proof (induction item)
  case (ContentItem n r v tid cs)
  have kids: "collect (map (from_dataset \<circ> to_dataset) items) = Inr items"
    if "cs = Some items" for items
    by (rule collect_Inr) (use ContentItem.IH that in auto)
  show ?case
    by (cases v; cases r; cases cs)
      (simp_all add: empty_dataset_def value_from_dataset_def attribute_def kids
        parse_value_type_literals)
qed

lemma from_sequence_serialize:
  "ContentSequence_from_sequence (serialize items) is_root = Inr (items, is_root)"
proof -
  have "collect (map (from_dataset \<circ> to_dataset) items) = Inr items"
    by (rule collect_Inr) (simp add: from_dataset_to_dataset)
  then show ?thesis
    by (simp add: ContentSequence_from_sequence_def serialize_def)
qed

text \<open>
  C8. \<^verbatim>\<open>TrackingIdentifier(uid="1.2.3", identifier="lesion-1")\<close> is a sequence of
  exactly two items: item 0 is a TEXT item with value "lesion-1" and concept name Tracking
  Identifier, item 1 is a UIDREF item with value "1.2.3" and concept name Tracking Unique
  Identifier. Serializing the sequence and parsing it again gives back both items.
\<close>

theorem tracking_identifier_scenario:
  "TrackingIdentifier generated (Some ''1.2.3'') (Some ''lesion-1'') =
     [ContentItem (Code ''112039'' ''DCM'' ''Tracking Identifier'') (Some HAS_OBS_CONTEXT)
        (TextValue ''lesion-1'') None None,
      ContentItem (Code ''112040'' ''DCM'' ''Tracking Unique Identifier'') (Some HAS_OBS_CONTEXT)
        (UIDRefValue ''1.2.3'') None None] \<and>
   length (TrackingIdentifier generated (Some ''1.2.3'') (Some ''lesion-1'')) = 2 \<and>
   value_type (TrackingIdentifier generated (Some ''1.2.3'') (Some ''lesion-1'') ! 0) = TEXT \<and>
   value_of (TrackingIdentifier generated (Some ''1.2.3'') (Some ''lesion-1'') ! 0) =
     TextValue ''lesion-1'' \<and>
   code_eq (name (TrackingIdentifier generated (Some ''1.2.3'') (Some ''lesion-1'') ! 0))
     DCM_TrackingIdentifier \<and>
   value_type (TrackingIdentifier generated (Some ''1.2.3'') (Some ''lesion-1'') ! 1) = UIDREF \<and>
   value_of (TrackingIdentifier generated (Some ''1.2.3'') (Some ''lesion-1'') ! 1) =
     UIDRefValue ''1.2.3'' \<and>
   code_eq (name (TrackingIdentifier generated (Some ''1.2.3'') (Some ''lesion-1'') ! 1))
     DCM_TrackingUniqueIdentifier \<and>
   ContentSequence_from_sequence
       (serialize (TrackingIdentifier generated (Some ''1.2.3'') (Some ''lesion-1''))) False =
     Inr (TrackingIdentifier generated (Some ''1.2.3'') (Some ''lesion-1''), False)"
proof -
  have t: "TrackingIdentifier generated (Some ''1.2.3'') (Some ''lesion-1'') =
     [ContentItem (Code ''112039'' ''DCM'' ''Tracking Identifier'') (Some HAS_OBS_CONTEXT)
        (TextValue ''lesion-1'') None None,
      ContentItem (Code ''112040'' ''DCM'' ''Tracking Unique Identifier'') (Some HAS_OBS_CONTEXT)
        (UIDRefValue ''1.2.3'') None None]"
    by (simp add: TrackingIdentifier_def TextContentItem_def UIDRefContentItem_def)
  have rt: "ContentSequence_from_sequence
       (serialize (TrackingIdentifier generated (Some ''1.2.3'') (Some ''lesion-1''))) False =
     Inr (TrackingIdentifier generated (Some ''1.2.3'') (Some ''lesion-1''), False)"
    by (rule from_sequence_serialize)
  show ?thesis
    unfolding rt unfolding t
    by (simp add: value_type_def DCM_TrackingIdentifier_def DCM_TrackingUniqueIdentifier_def)
qed

theorem tracking_identifier_scenario_witness:
  "length (TrackingIdentifier ''2.25.1'' (Some ''1.2.3'') (Some ''lesion-1'')) = 2 \<and>
   map value_of (TrackingIdentifier ''2.25.1'' (Some ''1.2.3'') (Some ''lesion-1'')) =
     [TextValue ''lesion-1'', UIDRefValue ''1.2.3'']"
proof -
  note t = tracking_identifier_scenario [of "''2.25.1''", THEN conjunct1]
  show ?thesis unfolding t by simp
qed

section \<open>The slices of the context getters\<close>

lemma py_slice_to_minus_one: "py_slice xs (int i) (- 1) = butlast (drop i xs)"
proof (cases "i < length xs")
  case True
  then have "nat (int (length xs) - 1 - int i) = length xs - i - 1" by linarith
  with True show ?thesis
    by (simp add: py_slice_def Let_def butlast_conv_take min_def max_def)
next
  case False
  then show ?thesis by (simp add: py_slice_def Let_def min_def max_def)
qed

lemma matches_two:
  "filter (\<lambda>(i, item). code_eq (name item) DCM_ObserverType)
     (enumerate_from (Suc 0) [person_observer_type_item, person_name_item]) =
   [(Suc 0, person_observer_type_item)]"
  by (simp add: enumerate_from_def upt_rec person_observer_type_item_def person_name_item_def
      DCM_ObserverType_def)

lemma matches_three:
  "filter (\<lambda>(i, item). code_eq (name item) DCM_ObserverType)
     (enumerate_from (Suc 0) [person_observer_type_item, person_name_item, procedure_item]) =
   [(Suc 0, person_observer_type_item)]"
  by (simp add: enumerate_from_def upt_rec person_observer_type_item_def person_name_item_def
      procedure_item_def DCM_ObserverType_def)

lemma person_value:
  "value_is (value_of person_observer_type_item) DCM_Person"
  "\<not> value_is (value_of person_observer_type_item) DCM_Device"
  by (simp_all add: value_is_def person_observer_type_item_def DCM_Person_def DCM_Device_def)

lemma from_sequence_empty:
  "PersonObserverIdentifyingAttributes_from_sequence [] =
     Inl (TypeError ''missing 1 required positional argument: name'')"
  by (simp add: PersonObserverIdentifyingAttributes_from_sequence_def collect_kwargs_def)

lemma from_sequence_name:
  "PersonObserverIdentifyingAttributes_from_sequence [person_name_item] = Inr [person_name_item]"
  by (simp add: PersonObserverIdentifyingAttributes_from_sequence_def collect_kwargs_def
      person_name_item_def PersonObserverIdentifyingAttributes_init_def opt_item_def)

text \<open>
  C6. The slice of the last marker is \<^verbatim>\<open>ContentSequence[index:-1]\<close>, which leaves the
  final item of the root content sequence out (\<open>py_slice_to_minus_one\<close>). On a report whose
  root holds an Observer Type item of value Person followed by the Person Observer Name
  item as the final item, the slice is empty, the name is not found and
  \<^verbatim>\<open>get_observer_contexts\<close> raises \<^verbatim>\<open>TypeError\<close>; with one more item behind the name
  the same observer context is returned.
\<close>

theorem last_observer_slice_drops_final_item:
  "get_observer_contexts [report_root [person_observer_type_item, person_name_item]] None =
     Inl (TypeError ''missing 1 required positional argument: name'') \<and>
   get_observer_contexts
       [report_root [person_observer_type_item, person_name_item, procedure_item]] None =
     Inr [[person_observer_type_item, person_name_item]] \<and>
   py_slice [person_observer_type_item, person_name_item] 1 (- 1) = [] \<and>
   py_slice [person_observer_type_item, person_name_item, procedure_item] 1 (- 1) =
     [person_name_item]"
proof -
  have s2: "py_slice [person_observer_type_item, person_name_item] 1 (- 1) = []"
    and s3: "py_slice [person_observer_type_item, person_name_item, procedure_item] 1 (- 1) =
      [person_name_item]"
    using py_slice_to_minus_one [of "[person_observer_type_item, person_name_item]" 1]
      py_slice_to_minus_one [of "[person_observer_type_item, person_name_item, procedure_item]" 1]
    by simp_all
  have ctx: "ObserverContext_init (value_of person_observer_type_item)
      (PersonObserverIdentifyingAttributes [person_name_item]) =
      Inr [person_observer_type_item, person_name_item]"
    by (simp add: ObserverContext_init_def person_value)
      (simp add: person_observer_type_item_def DCM_ObserverType_def DCM_Person_def)
  have 1: "get_observer_contexts [report_root [person_observer_type_item, person_name_item]] None =
     Inl (TypeError ''missing 1 required positional argument: name'')"
    by (simp add: get_observer_contexts_def report_root_def matches_two person_value s2
        from_sequence_empty)
  have 2: "get_observer_contexts
       [report_root [person_observer_type_item, person_name_item, procedure_item]] None =
     Inr [[person_observer_type_item, person_name_item]]"
    by (simp add: get_observer_contexts_def report_root_def matches_three person_value s3
        from_sequence_name ctx)
  from 1 2 s2 s3 show ?thesis by simp
qed

section \<open>The queries on the measurement groups\<close>

lemma find_content_items_subset:
  "find_content_items parent (Some n) (Some t) rel = Inr found \<Longrightarrow> item \<in> set found \<Longrightarrow>
     code_eq (name item) n \<and> value_type item = t"
  by (auto simp add: find_content_items_def split: option.splits)

lemma find_content_items_total:
  "ContentSequence parent \<noteq> None \<Longrightarrow> \<exists>found. find_content_items parent nm vt rel = Inr found"
  by (auto simp add: find_content_items_def)

lemma find_measurement_groups_are_groups:
  assumes "find_measurement_groups self = Inr groups" and "g \<in> set groups"
  shows "is_measurement_group g"
proof -
  from assms obtain first where
    "find_content_items first (Some DCM_MeasurementGroup) (Some CONTAINER) None = Inr groups"
    by (auto simp add: find_measurement_groups_def split: list.splits sum.splits)
  from find_content_items_subset [OF this assms(2)] show ?thesis
    by (simp add: is_measurement_group_def)
qed

lemma from_sequence_group:
  "is_measurement_group g \<Longrightarrow> MeasurementsAndQualitativeEvaluations_from_sequence [g] = Inr [g]"
  by (simp add: MeasurementsAndQualitativeEvaluations_from_sequence_def is_measurement_group_def)

lemma then_matches_Inr:
  "then_matches r s = Inr ms \<longleftrightarrow> (\<exists>a b. r = Inr a \<and> s = Inr b \<and> ms = a @ b)"
  by (auto simp add: then_matches_def split: sum.splits)

lemma then_matches_simps [simp]:
  "then_matches (Inr a) (Inr b) = Inr (a @ b)"
  "then_matches (Inl e) s = Inl e"
  "then_matches (Inr a) (Inl e) = Inl e"
  by (simp_all add: then_matches_def)

lemma opt_check_Inr:
  "opt_check x f = Inr ms \<Longrightarrow>
     list_all (\<lambda>b. b) ms = (case x of None \<Rightarrow> True | Some v \<Rightarrow> f v = Inr True)"
  by (auto simp add: opt_check_def split: option.splits sum.splits)

lemma opt_check_total:
  "(\<And>v. x = Some v \<Longrightarrow> \<exists>b. f v = Inr b) \<Longrightarrow> \<exists>ms. opt_check x f = Inr ms"
  by (cases x) (auto simp add: opt_check_def)

lemma contains_code_items_total:
  "ContentSequence g \<noteq> None \<Longrightarrow> \<exists>b. contains_code_items g n v rel = Inr b"
  using find_content_items_total [of g "Some n" "Some CODE" rel]
  by (auto simp add: contains_code_items_def)

lemma contains_uidref_items_total:
  "ContentSequence g \<noteq> None \<Longrightarrow> \<exists>b. contains_uidref_items g n v rel = Inr b"
  using find_content_items_total [of g "Some n" "Some UIDREF" rel]
  by (auto simp add: contains_uidref_items_def)

lemma contains_image_items_total:
  "ContentSequence g \<noteq> None \<Longrightarrow> \<exists>b. contains_image_items g n c i rel = Inr b"
  using find_content_items_total [of g n "Some IMAGE" rel]
  by (auto simp add: contains_image_items_def)

lemma common_matches_Inr:
  assumes "common_matches tu ft fs g = Inr ms"
  shows "list_all (\<lambda>b. b) ms = passes_common tu ft fs g"
proof -
  from assms obtain m1 m2 m3 where
    m1: "opt_check ft (\<lambda>ft.
          contains_code_items g DCM_Finding (Some ft) (Some CONTAINS)) = Inr m1"
    and m2: "opt_check fs (\<lambda>fs.
          contains_code_items g SCT_FindingSite (Some fs) (Some HAS_CONCEPT_MOD)) = Inr m2"
    and m3: "opt_check tu (\<lambda>u.
          contains_uidref_items g DCM_TrackingUniqueIdentifier (Some u)
            (Some HAS_OBS_CONTEXT)) = Inr m3"
    and ms: "ms = m1 @ m2 @ m3"
    unfolding common_matches_def then_matches_Inr by blast
  from opt_check_Inr [OF m1] opt_check_Inr [OF m2] opt_check_Inr [OF m3] ms
  show ?thesis by (simp add: passes_common_def)
qed

lemma common_matches_total:
  assumes "no_common_filter tu ft fs \<or> ContentSequence g \<noteq> None"
  shows "\<exists>ms. common_matches tu ft fs g = Inr ms"
proof (cases "no_common_filter tu ft fs")
  case True
  then show ?thesis
    by (simp add: common_matches_def no_common_filter_def opt_check_def)
next
  case False
  with assms have c: "ContentSequence g \<noteq> None" by simp
  from opt_check_total [of ft "\<lambda>ft. contains_code_items g DCM_Finding (Some ft) (Some CONTAINS)"]
    contains_code_items_total [OF c]
  obtain m1 where m1: "opt_check ft (\<lambda>ft.
          contains_code_items g DCM_Finding (Some ft) (Some CONTAINS)) = Inr m1" by blast
  from opt_check_total [of fs "\<lambda>fs.
          contains_code_items g SCT_FindingSite (Some fs) (Some HAS_CONCEPT_MOD)"]
    contains_code_items_total [OF c]
  obtain m2 where m2: "opt_check fs (\<lambda>fs.
          contains_code_items g SCT_FindingSite (Some fs) (Some HAS_CONCEPT_MOD)) = Inr m2"
    by blast
  from opt_check_total [of tu "\<lambda>u.
          contains_uidref_items g DCM_TrackingUniqueIdentifier (Some u) (Some HAS_OBS_CONTEXT)"]
    contains_uidref_items_total [OF c]
  obtain m3 where m3: "opt_check tu (\<lambda>u.
          contains_uidref_items g DCM_TrackingUniqueIdentifier (Some u)
            (Some HAS_OBS_CONTEXT)) = Inr m3" by blast
  from m1 m2 m3 show ?thesis by (simp add: common_matches_def)
qed

lemma common_matches_no_filter: "common_matches None None None g = Inr []"
  by (simp add: common_matches_def opt_check_def)


lemma planar_reference_item_content:
  "get_planar_roi_reference_item g = Inr r \<Longrightarrow> ContentSequence g \<noteq> None"
  by (auto simp add: get_planar_roi_reference_item_def get_roi_reference_items_def
      split: option.splits sum.splits)

lemma planar_reference_matches_Inr:
  assumes "planar_reference_matches rt gt inst cls g = Inr ms"
  shows "list_all (\<lambda>b. b) ms = passes_planar_reference rt gt inst cls g"
proof (cases "rt = None \<and> gt = None \<and> inst = None \<and> cls = None")
  case True
  with assms show ?thesis
    by (auto simp add: planar_reference_matches_def passes_planar_reference_def)
next
  case False
  then have any: "rt \<noteq> None \<or> gt \<noteq> None \<or> cls \<noteq> None \<or> inst \<noteq> None" by auto
  with assms obtain found ref_item where
    ref: "get_planar_roi_reference_item g = Inr (found, ref_item)"
    by (auto simp add: planar_reference_matches_def split: sum.splits)
  show ?thesis
  proof (cases "inst = None \<and> cls = None")
    case True
    with assms any ref show ?thesis
      by (auto simp add: planar_reference_matches_def passes_planar_reference_def Let_def
          split: option.splits)
  next
    case uids: False
    with assms any ref obtain mu where
      mu: "planar_uid_match inst cls g found ref_item = Inr mu"
      by (auto simp add: planar_reference_matches_def Let_def split: sum.splits)
    with assms any ref uids show ?thesis
      by (auto simp add: planar_reference_matches_def passes_planar_reference_def Let_def
          split: option.splits)
  qed
qed

lemma planar_uid_match_total:
  assumes "get_planar_roi_reference_item g = Inr (found, ref_item)"
    and "opt_code_eq found DCM_ReferencedSegmentationFrame \<or> opt_code_eq found REGION_IN_SPACE
      \<Longrightarrow> referenced_sop ref_item \<noteq> None"
    and "opt_code_eq found DCM_ImageRegion \<and> value_type ref_item = SCOORD
      \<Longrightarrow> ContentSequence ref_item \<noteq> None"
  shows "\<exists>mu. planar_uid_match inst cls g found ref_item = Inr mu"
proof -
  note gc = planar_reference_item_content [OF assms(1)]
  have 1: "\<exists>m. (if opt_code_eq found DCM_ReferencedSegmentationFrame \<or>
               opt_code_eq found REGION_IN_SPACE then
              (case referenced_sop ref_item of
                 None \<Rightarrow> Inl (AttributeError ''ReferencedSOPSequence'')
               | Some (c, i) \<Rightarrow>
                   (let matches_instance_uid = (inst = None \<or> Some i = inst);
                        matches_class_uid = (cls = None \<or> Some c = cls)
                    in Inr (matches_class_uid \<and> matches_instance_uid)))
            else Inr False) = Inr m"
    using assms(2) by (auto simp add: Let_def split: option.splits)
  then obtain m where m: "(if opt_code_eq found DCM_ReferencedSegmentationFrame \<or>
               opt_code_eq found REGION_IN_SPACE then
              (case referenced_sop ref_item of
                 None \<Rightarrow> Inl (AttributeError ''ReferencedSOPSequence'')
               | Some (c, i) \<Rightarrow>
                   (let matches_instance_uid = (inst = None \<or> Some i = inst);
                        matches_class_uid = (cls = None \<or> Some c = cls)
                    in Inr (matches_class_uid \<and> matches_instance_uid)))
            else Inr False) = Inr m" ..
  have 2: "\<exists>m'. (if opt_code_eq found DCM_ImageRegion \<and> value_type ref_item = SCOORD then
                   (case contains_image_items ref_item None cls inst (Some SELECTED_FROM) of
                      Inl e \<Rightarrow> Inl e
                    | Inr f \<Rightarrow> Inr (if f then True else m))
                 else Inr m) = Inr m'"
    using assms(3) contains_image_items_total [of ref_item None cls inst "Some SELECTED_FROM"]
    by auto
  then obtain m' where m': "(if opt_code_eq found DCM_ImageRegion \<and> value_type ref_item = SCOORD then
                   (case contains_image_items ref_item None cls inst (Some SELECTED_FROM) of
                      Inl e \<Rightarrow> Inl e
                    | Inr f \<Rightarrow> Inr (if f then True else m))
                 else Inr m) = Inr m'" ..
  have 3: "\<exists>m''. (if opt_code_eq found DCM_ReferencedSegmentationFrame then
                  (case contains_image_items g (Some DCM_SourceImageForSegmentation)
                          cls inst (Some CONTAINS) of
                     Inl e \<Rightarrow> Inl e
                   | Inr f \<Rightarrow> Inr (if f then True else m'))
                else Inr m') = Inr m''"
    using contains_image_items_total [OF gc, of "Some DCM_SourceImageForSegmentation" cls inst
        "Some CONTAINS"]
    by auto
  show ?thesis
    unfolding planar_uid_match_def m sum.case m' using 3 by simp
qed

lemma planar_reference_matches_total:
  assumes "no_reference_filter rt gt inst cls \<or> reference_readable inst cls g"
  shows "\<exists>ms. planar_reference_matches rt gt inst cls g = Inr ms"
proof (cases "no_reference_filter rt gt inst cls")
  case True
  then show ?thesis
    by (simp add: planar_reference_matches_def no_reference_filter_def)
next
  case False
  with assms have rr: "reference_readable inst cls g" by simp
  then obtain found ref_item where
    ref: "get_planar_roi_reference_item g = Inr (found, ref_item)"
    by (auto simp add: reference_readable_def split: sum.splits)
  show ?thesis
  proof (cases "inst = None \<and> cls = None")
    case True
    with ref show ?thesis
      by (simp add: planar_reference_matches_def Let_def)
  next
    case uids: False
    with rr ref have
      a: "opt_code_eq found DCM_ReferencedSegmentationFrame \<or> opt_code_eq found REGION_IN_SPACE
        \<Longrightarrow> referenced_sop ref_item \<noteq> None"
      and b: "opt_code_eq found DCM_ImageRegion \<and> value_type ref_item = SCOORD
        \<Longrightarrow> ContentSequence ref_item \<noteq> None"
      by (auto simp add: reference_readable_def split: if_splits)
    from planar_uid_match_total [OF ref a b, of inst cls] obtain mu where
      "planar_uid_match inst cls g found ref_item = Inr mu" by blast
    with ref uids show ?thesis
      by (auto simp add: planar_reference_matches_def Let_def)
  qed
qed

lemma planar_matches_Inr:
  assumes "then_matches (common_matches tu ft fs g)
      (planar_reference_matches rt gt inst cls g) = Inr ms"
  shows "list_all (\<lambda>b. b) ms \<longleftrightarrow>
     passes_common tu ft fs g \<and> passes_planar_reference rt gt inst cls g"
proof -
  from assms obtain a b where
    a: "common_matches tu ft fs g = Inr a"
    and b: "planar_reference_matches rt gt inst cls g = Inr b" and ms: "ms = a @ b"
    unfolding then_matches_Inr by blast
  from common_matches_Inr [OF a] planar_reference_matches_Inr [OF b] ms show ?thesis by simp
qed

lemma planar_matches_total:
  assumes "no_common_filter tu ft fs \<or> ContentSequence g \<noteq> None"
    and "no_reference_filter rt gt inst cls \<or> reference_readable inst cls g"
  shows "\<exists>ms. then_matches (common_matches tu ft fs g)
      (planar_reference_matches rt gt inst cls g) = Inr ms"
proof -
  from common_matches_total [OF assms(1)] obtain a where
    "common_matches tu ft fs g = Inr a" by blast
  moreover from planar_reference_matches_total [OF assms(2)] obtain b where
    "planar_reference_matches rt gt inst cls g = Inr b" by blast
  ultimately show ?thesis by simp
qed

lemma all_or_empty: "(length ms = 0 \<or> list_all (\<lambda>b. b) ms) = list_all (\<lambda>b. b) ms"
  by (cases ms) simp_all

lemma planar_kind_Inr:
  "(case template_id g of Some tid \<Rightarrow> Inr (tid = ''1410'') | None \<Rightarrow> contains_planar_rois g) =
     Inr b \<Longrightarrow> b = is_planar_candidate g"
  by (auto simp add: is_planar_candidate_def split: option.splits)

lemma contains_planar_rois_total:
  assumes "is_measurement_group g" and "ContentSequence g \<noteq> None"
  shows "\<exists>b. contains_planar_rois g = Inr b"
proof -
  from assms(2) obtain items where "ContentSequence g = Some items" by auto
  from count_roi_items_group [OF assms(1) this] show ?thesis
    by (auto simp add: contains_planar_rois_def)
qed

lemma contains_volumetric_rois_total:
  assumes "is_measurement_group g" and "ContentSequence g \<noteq> None"
  shows "\<exists>b. contains_volumetric_rois g = Inr b"
proof -
  from assms(2) obtain items where "ContentSequence g = Some items" by auto
  from count_roi_items_group [OF assms(1) this] show ?thesis
    by (auto simp add: contains_volumetric_rois_def)
qed

lemma planar_kind_total:
  assumes "is_measurement_group g" and "template_id g \<noteq> None \<or> ContentSequence g \<noteq> None"
  shows "(case template_id g of Some tid \<Rightarrow> Inr (tid = ''1410'') | None \<Rightarrow> contains_planar_rois g) =
     Inr (is_planar_candidate g)"
proof (cases "template_id g")
  case None
  with assms contains_planar_rois_total [of g] obtain b where "contains_planar_rois g = Inr b"
    by auto
  with None show ?thesis by (auto simp add: is_planar_candidate_def)
next
  case (Some tid)
  then show ?thesis by (simp add: is_planar_candidate_def)
qed

lemma planar_loop_step:
  assumes "is_measurement_group g"
    and "(case template_id g of Some tid \<Rightarrow> Inr (tid = ''1410'')
          | None \<Rightarrow> contains_planar_rois g) = Inr b"
    and "b \<Longrightarrow> then_matches (common_matches tu ft fs g)
      (planar_reference_matches rt gt inst cls g) = Inr ms"
  shows "planar_groups_loop tu ft fs rt gt inst cls (g # gs) =
     (case planar_groups_loop tu ft fs rt gt inst cls gs of
        Inl e \<Rightarrow> Inl e
      | Inr seqs \<Rightarrow>
          Inr (if b \<and> passes_common tu ft fs g \<and> passes_planar_reference rt gt inst cls g
               then [g] # seqs else seqs))"
proof (cases b)
  case False
  with assms(2) show ?thesis by (simp split: sum.splits)
next
  case True
  note m = assms(3) [OF True]
  note p = planar_matches_Inr [OF m]
  show ?thesis
    unfolding planar_groups_loop.simps assms(2) m all_or_empty
      from_sequence_group [OF assms(1)]
    using True p
    by (cases "planar_groups_loop tu ft fs rt gt inst cls gs") auto
qed

lemma planar_loop_Inr:
  assumes "\<forall>g \<in> set gs. is_measurement_group g"
    and "planar_groups_loop tu ft fs rt gt inst cls gs = Inr seqs"
  shows "seqs = map (\<lambda>g. [g])
     (filter (\<lambda>g. is_planar_candidate g \<and> passes_common tu ft fs g \<and>
                   passes_planar_reference rt gt inst cls g) gs)"
  using assms
proof (induction gs arbitrary: seqs)
  case Nil
  then show ?case by simp
next
  case (Cons g gs)
  from Cons.prems(1) have mg: "is_measurement_group g"
    and rest: "\<forall>g \<in> set gs. is_measurement_group g"
    by simp_all
  from Cons.prems(2) obtain b where
    kind: "(case template_id g of Some tid \<Rightarrow> Inr (tid = ''1410'')
            | None \<Rightarrow> contains_planar_rois g) = Inr b"
    by (auto split: sum.splits)
  have "\<exists>ms. b \<longrightarrow> then_matches (common_matches tu ft fs g)
      (planar_reference_matches rt gt inst cls g) = Inr ms"
  proof (cases b)
    case False
    then show ?thesis by simp
  next
    case True
    with Cons.prems(2) kind show ?thesis
      by (cases "then_matches (common_matches tu ft fs g)
          (planar_reference_matches rt gt inst cls g)") simp_all
  qed
  then obtain ms where ms: "b \<Longrightarrow> then_matches (common_matches tu ft fs g)
      (planar_reference_matches rt gt inst cls g) = Inr ms" by blast
  note step = planar_loop_step [OF mg kind ms, of gs]
  note cand = planar_kind_Inr [OF kind]
  from Cons.prems(2) step obtain seqs' where
    s: "planar_groups_loop tu ft fs rt gt inst cls gs = Inr seqs'"
      "seqs = (if b \<and> passes_common tu ft fs g \<and> passes_planar_reference rt gt inst cls g
               then [g] # seqs' else seqs')"
    by (auto split: sum.splits)
  from Cons.IH [OF rest s(1)] s(2) cand show ?case by simp
qed

lemma planar_loop_total:
  assumes "\<forall>g \<in> set gs. is_measurement_group g"
    and "planar_readable tu ft fs rt gt inst cls gs"
  shows "planar_groups_loop tu ft fs rt gt inst cls gs =
     Inr (map (\<lambda>g. [g])
       (filter (\<lambda>g. is_planar_candidate g \<and> passes_common tu ft fs g \<and>
                     passes_planar_reference rt gt inst cls g) gs))"
  using assms
proof (induction gs)
  case Nil
  then show ?case by simp
next
  case (Cons g gs)
  from Cons.prems have mg: "is_measurement_group g"
    and cs: "template_id g \<noteq> None \<or> ContentSequence g \<noteq> None"
    and rest: "\<forall>g \<in> set gs. is_measurement_group g"
      "planar_readable tu ft fs rt gt inst cls gs"
    and rd: "is_planar_candidate g \<Longrightarrow>
      (no_common_filter tu ft fs \<or> ContentSequence g \<noteq> None) \<and>
      (no_reference_filter rt gt inst cls \<or> reference_readable inst cls g)"
    by (auto simp add: planar_readable_def classifiable_def)
  note kind = planar_kind_total [OF mg cs]
  have "\<exists>ms. is_planar_candidate g \<longrightarrow> then_matches (common_matches tu ft fs g)
      (planar_reference_matches rt gt inst cls g) = Inr ms"
    using planar_matches_total [of tu ft fs g rt gt inst cls] rd by blast
  then obtain ms where ms: "is_planar_candidate g \<Longrightarrow>
      then_matches (common_matches tu ft fs g)
        (planar_reference_matches rt gt inst cls g) = Inr ms" by blast
  have "planar_groups_loop tu ft fs rt gt inst cls (g # gs) =
     (case planar_groups_loop tu ft fs rt gt inst cls gs of
        Inl e \<Rightarrow> Inl e
      | Inr seqs \<Rightarrow>
          Inr (if is_planar_candidate g \<and> passes_common tu ft fs g \<and>
                  passes_planar_reference rt gt inst cls g
               then [g] # seqs else seqs))"
    using mg kind ms by (rule planar_loop_step)
  also have "\<dots> = Inr (map (\<lambda>g. [g])
       (filter (\<lambda>g. is_planar_candidate g \<and> passes_common tu ft fs g \<and>
                     passes_planar_reference rt gt inst cls g) (g # gs)))"
    by (simp add: Cons.IH [OF rest])
  finally show ?case .
qed


lemma image_matches_Inr:
  assumes "then_matches (common_matches tu ft fs g)
      (if inst \<noteq> None \<or> cls \<noteq> None then
         (case contains_image_items g (Some SOURCE) cls inst (Some CONTAINS) of
            Inl e \<Rightarrow> Inl e
          | Inr matches_uids \<Rightarrow> Inr [matches_uids])
       else Inr []) = Inr ms"
  shows "list_all (\<lambda>b. b) ms \<longleftrightarrow> passes_common tu ft fs g \<and> passes_image_uids inst cls g"
proof -
  from assms obtain a b where
    a: "common_matches tu ft fs g = Inr a"
    and b: "(if inst \<noteq> None \<or> cls \<noteq> None then
         (case contains_image_items g (Some SOURCE) cls inst (Some CONTAINS) of
            Inl e \<Rightarrow> Inl e
          | Inr matches_uids \<Rightarrow> Inr [matches_uids])
       else Inr []) = Inr b" and ms: "ms = a @ b"
    unfolding then_matches_Inr by blast
  from b have "list_all (\<lambda>b. b) b = passes_image_uids inst cls g"
    by (auto simp add: passes_image_uids_def split: if_splits sum.splits)
  with common_matches_Inr [OF a] ms show ?thesis by simp
qed

lemma image_matches_total:
  assumes "(no_common_filter tu ft fs \<and> inst = None \<and> cls = None) \<or> ContentSequence g \<noteq> None"
  shows "\<exists>ms. then_matches (common_matches tu ft fs g)
      (if inst \<noteq> None \<or> cls \<noteq> None then
         (case contains_image_items g (Some SOURCE) cls inst (Some CONTAINS) of
            Inl e \<Rightarrow> Inl e
          | Inr matches_uids \<Rightarrow> Inr [matches_uids])
       else Inr []) = Inr ms"
proof -
  from assms have "no_common_filter tu ft fs \<or> ContentSequence g \<noteq> None" by blast
  from common_matches_total [OF this] obtain a where
    a: "common_matches tu ft fs g = Inr a" by blast
  have "\<exists>b. (if inst \<noteq> None \<or> cls \<noteq> None then
         (case contains_image_items g (Some SOURCE) cls inst (Some CONTAINS) of
            Inl e \<Rightarrow> Inl e
          | Inr matches_uids \<Rightarrow> Inr [matches_uids])
       else Inr []) = Inr b"
  proof (cases "inst \<noteq> None \<or> cls \<noteq> None")
    case True
    with assms have "ContentSequence g \<noteq> None" by blast
    from contains_image_items_total [OF this, of "Some SOURCE" cls inst "Some CONTAINS"] True
    show ?thesis by auto
  next
    case False
    then show ?thesis by simp
  qed
  then obtain b where "(if inst \<noteq> None \<or> cls \<noteq> None then
         (case contains_image_items g (Some SOURCE) cls inst (Some CONTAINS) of
            Inl e \<Rightarrow> Inl e
          | Inr matches_uids \<Rightarrow> Inr [matches_uids])
       else Inr []) = Inr b" ..
  with a show ?thesis by simp
qed

lemma image_kind_Inr:
  "(case template_id g of
      Some tid \<Rightarrow> Inr (tid = ''1501'')
    | None \<Rightarrow>
        (case contains_planar_rois g of
           Inl e \<Rightarrow> Inl e
         | Inr contains_rois \<Rightarrow>
             (case contains_volumetric_rois g of
                Inl e \<Rightarrow> Inl e
              | Inr v \<Rightarrow> Inr (\<not> (contains_rois \<or> v))))) = Inr b
     \<Longrightarrow> b = is_image_candidate g"
  by (auto simp add: is_image_candidate_def split: option.splits sum.splits)

lemma image_kind_total:
  assumes "is_measurement_group g" and "template_id g \<noteq> None \<or> ContentSequence g \<noteq> None"
  shows "(case template_id g of
      Some tid \<Rightarrow> Inr (tid = ''1501'')
    | None \<Rightarrow>
        (case contains_planar_rois g of
           Inl e \<Rightarrow> Inl e
         | Inr contains_rois \<Rightarrow>
             (case contains_volumetric_rois g of
                Inl e \<Rightarrow> Inl e
              | Inr v \<Rightarrow> Inr (\<not> (contains_rois \<or> v))))) = Inr (is_image_candidate g)"
proof (cases "template_id g")
  case None
  with assms contains_planar_rois_total [of g] contains_volumetric_rois_total [of g]
  obtain b v where "contains_planar_rois g = Inr b" "contains_volumetric_rois g = Inr v"
    by auto
  with None show ?thesis by (auto simp add: is_image_candidate_def)
next
  case (Some tid)
  then show ?thesis by (simp add: is_image_candidate_def)
qed

lemma image_loop_step:
  assumes "is_measurement_group g"
    and "(case template_id g of
      Some tid \<Rightarrow> Inr (tid = ''1501'')
    | None \<Rightarrow>
        (case contains_planar_rois g of
           Inl e \<Rightarrow> Inl e
         | Inr contains_rois \<Rightarrow>
             (case contains_volumetric_rois g of
                Inl e \<Rightarrow> Inl e
              | Inr v \<Rightarrow> Inr (\<not> (contains_rois \<or> v))))) = Inr b"
    and "b \<Longrightarrow> then_matches (common_matches tu ft fs g)
      (if inst \<noteq> None \<or> cls \<noteq> None then
         (case contains_image_items g (Some SOURCE) cls inst (Some CONTAINS) of
            Inl e \<Rightarrow> Inl e
          | Inr matches_uids \<Rightarrow> Inr [matches_uids])
       else Inr []) = Inr ms"
  shows "image_groups_loop tu ft fs inst cls (g # gs) =
     (case image_groups_loop tu ft fs inst cls gs of
        Inl e \<Rightarrow> Inl e
      | Inr seqs \<Rightarrow>
          Inr (if b \<and> passes_common tu ft fs g \<and> passes_image_uids inst cls g
               then [g] # seqs else seqs))"
proof (cases b)
  case False
  with assms(2) show ?thesis by (simp split: sum.splits)
next
  case True
  note m = assms(3) [OF True]
  note p = image_matches_Inr [OF m]
  have e: "length ms = 0 \<Longrightarrow> list_all (\<lambda>b. b) ms" by (cases ms) simp_all
  show ?thesis
    unfolding image_groups_loop.simps assms(2) m from_sequence_group [OF assms(1)]
    using True p e
    by (cases "image_groups_loop tu ft fs inst cls gs") auto
qed

lemma image_loop_Inr:
  assumes "\<forall>g \<in> set gs. is_measurement_group g"
    and "image_groups_loop tu ft fs inst cls gs = Inr seqs"
  shows "seqs = map (\<lambda>g. [g])
     (filter (\<lambda>g. is_image_candidate g \<and> passes_common tu ft fs g \<and>
                   passes_image_uids inst cls g) gs)"
  using assms
proof (induction gs arbitrary: seqs)
  case Nil
  then show ?case by simp
next
  case (Cons g gs)
  from Cons.prems(1) have mg: "is_measurement_group g"
    and rest: "\<forall>g \<in> set gs. is_measurement_group g"
    by simp_all
  from Cons.prems(2) obtain b where
    kind: "(case template_id g of
      Some tid \<Rightarrow> Inr (tid = ''1501'')
    | None \<Rightarrow>
        (case contains_planar_rois g of
           Inl e \<Rightarrow> Inl e
         | Inr contains_rois \<Rightarrow>
             (case contains_volumetric_rois g of
                Inl e \<Rightarrow> Inl e
              | Inr v \<Rightarrow> Inr (\<not> (contains_rois \<or> v))))) = Inr b"
    by (auto split: sum.splits)
  have "\<exists>ms. b \<longrightarrow> then_matches (common_matches tu ft fs g)
      (if inst \<noteq> None \<or> cls \<noteq> None then
         (case contains_image_items g (Some SOURCE) cls inst (Some CONTAINS) of
            Inl e \<Rightarrow> Inl e
          | Inr matches_uids \<Rightarrow> Inr [matches_uids])
       else Inr []) = Inr ms"
  proof (cases b)
    case False
    then show ?thesis by simp
  next
    case True
    with Cons.prems(2) kind show ?thesis
      by (cases "then_matches (common_matches tu ft fs g)
      (if inst \<noteq> None \<or> cls \<noteq> None then
         (case contains_image_items g (Some SOURCE) cls inst (Some CONTAINS) of
            Inl e \<Rightarrow> Inl e
          | Inr matches_uids \<Rightarrow> Inr [matches_uids])
       else Inr [])") simp_all
  qed
  then obtain ms where ms: "b \<Longrightarrow> then_matches (common_matches tu ft fs g)
      (if inst \<noteq> None \<or> cls \<noteq> None then
         (case contains_image_items g (Some SOURCE) cls inst (Some CONTAINS) of
            Inl e \<Rightarrow> Inl e
          | Inr matches_uids \<Rightarrow> Inr [matches_uids])
       else Inr []) = Inr ms" by blast
  note step = image_loop_step [OF mg kind ms, of gs]
  note cand = image_kind_Inr [OF kind]
  from Cons.prems(2) step obtain seqs' where
    s: "image_groups_loop tu ft fs inst cls gs = Inr seqs'"
      "seqs = (if b \<and> passes_common tu ft fs g \<and> passes_image_uids inst cls g
               then [g] # seqs' else seqs')"
    by (auto split: sum.splits)
  from Cons.IH [OF rest s(1)] s(2) cand show ?case by simp
qed

lemma image_loop_total:
  assumes "\<forall>g \<in> set gs. is_measurement_group g"
    and "image_readable tu ft fs inst cls gs"
  shows "image_groups_loop tu ft fs inst cls gs =
     Inr (map (\<lambda>g. [g])
       (filter (\<lambda>g. is_image_candidate g \<and> passes_common tu ft fs g \<and>
                     passes_image_uids inst cls g) gs))"
  using assms
proof (induction gs)
  case Nil
  then show ?case by simp
next
  case (Cons g gs)
  from Cons.prems have mg: "is_measurement_group g"
    and cs: "template_id g \<noteq> None \<or> ContentSequence g \<noteq> None"
    and rest: "\<forall>g \<in> set gs. is_measurement_group g"
      "image_readable tu ft fs inst cls gs"
    and rd: "is_image_candidate g \<Longrightarrow>
      (no_common_filter tu ft fs \<and> inst = None \<and> cls = None) \<or> ContentSequence g \<noteq> None"
    by (auto simp add: image_readable_def classifiable_def)
  note kind = image_kind_total [OF mg cs]
  have "\<exists>ms. is_image_candidate g \<longrightarrow> then_matches (common_matches tu ft fs g)
      (if inst \<noteq> None \<or> cls \<noteq> None then
         (case contains_image_items g (Some SOURCE) cls inst (Some CONTAINS) of
            Inl e \<Rightarrow> Inl e
          | Inr matches_uids \<Rightarrow> Inr [matches_uids])
       else Inr []) = Inr ms"
    using image_matches_total [of tu ft fs inst cls g] rd by blast
  then obtain ms where ms: "is_image_candidate g \<Longrightarrow>
      then_matches (common_matches tu ft fs g)
      (if inst \<noteq> None \<or> cls \<noteq> None then
         (case contains_image_items g (Some SOURCE) cls inst (Some CONTAINS) of
            Inl e \<Rightarrow> Inl e
          | Inr matches_uids \<Rightarrow> Inr [matches_uids])
       else Inr []) = Inr ms" by blast
  have "image_groups_loop tu ft fs inst cls (g # gs) =
     (case image_groups_loop tu ft fs inst cls gs of
        Inl e \<Rightarrow> Inl e
      | Inr seqs \<Rightarrow>
          Inr (if is_image_candidate g \<and> passes_common tu ft fs g \<and>
                  passes_image_uids inst cls g
               then [g] # seqs else seqs))"
    using mg kind ms by (rule image_loop_step)
  also have "\<dots> = Inr (map (\<lambda>g. [g])
       (filter (\<lambda>g. is_image_candidate g \<and> passes_common tu ft fs g \<and>
                     passes_image_uids inst cls g) (g # gs)))"
    by (simp add: Cons.IH [OF rest])
  finally show ?case .
qed


lemma check_planar_query_none: "check_planar_query None None None None = None"
  by (simp add: check_planar_query_def)

lemma planar_readable_none:
  "classifiable gs \<Longrightarrow> planar_readable None None None None None None None gs"
  by (simp add: planar_readable_def no_common_filter_def no_reference_filter_def
      list_all_iff)

lemma image_readable_none:
  "classifiable gs \<Longrightarrow> image_readable None None None None None gs"
  by (simp add: image_readable_def no_common_filter_def list_all_iff)

lemma passes_no_filter:
  "passes_common None None None g" "passes_planar_reference None None None None g"
  "passes_image_uids None None g"
  by (simp_all add: passes_common_def passes_planar_reference_def passes_image_uids_def)

lemma planar_getter_returns:
  assumes "get_planar_roi_measurement_groups self tu ft fs rt gt inst cls = Inr seqs"
  shows "\<exists>found. find_measurement_groups self = Inr found \<and>
     seqs = map (\<lambda>g. [g])
       (filter (\<lambda>g. is_planar_candidate g \<and> passes_common tu ft fs g \<and>
                     passes_planar_reference rt gt inst cls g) found)"
proof -
  from assms obtain groups where g: "find_measurement_groups self = Inr groups"
    and l: "planar_groups_loop tu ft fs rt gt inst cls groups = Inr seqs"
    by (auto simp add: get_planar_roi_measurement_groups_def split: option.splits sum.splits)
  have "\<forall>g \<in> set groups. is_measurement_group g"
    using find_measurement_groups_are_groups [OF g] by blast
  from planar_loop_Inr [OF this l] g show ?thesis by blast
qed

lemma planar_getter_total:
  assumes "find_measurement_groups self = Inr groups"
    and "check_planar_query rt gt inst cls = None"
    and "planar_readable tu ft fs rt gt inst cls groups"
  shows "get_planar_roi_measurement_groups self tu ft fs rt gt inst cls =
     Inr (map (\<lambda>g. [g])
       (filter (\<lambda>g. is_planar_candidate g \<and> passes_common tu ft fs g \<and>
                     passes_planar_reference rt gt inst cls g) groups))"
proof -
  have "\<forall>g \<in> set groups. is_measurement_group g"
    using find_measurement_groups_are_groups [OF assms(1)] by blast
  from planar_loop_total [OF this assms(3)] assms(1) assms(2) show ?thesis
    by (simp add: get_planar_roi_measurement_groups_def)
qed

lemma image_getter_returns:
  assumes "get_image_measurement_groups self tu ft fs inst cls = Inr seqs"
  shows "\<exists>found. find_measurement_groups self = Inr found \<and>
     seqs = map (\<lambda>g. [g])
       (filter (\<lambda>g. is_image_candidate g \<and> passes_common tu ft fs g \<and>
                     passes_image_uids inst cls g) found)"
proof -
  from assms obtain groups where g: "find_measurement_groups self = Inr groups"
    and l: "image_groups_loop tu ft fs inst cls groups = Inr seqs"
    by (auto simp add: get_image_measurement_groups_def split: sum.splits)
  have "\<forall>g \<in> set groups. is_measurement_group g"
    using find_measurement_groups_are_groups [OF g] by blast
  from image_loop_Inr [OF this l] g show ?thesis by blast
qed

lemma image_getter_total:
  assumes "find_measurement_groups self = Inr groups"
    and "image_readable tu ft fs inst cls groups"
  shows "get_image_measurement_groups self tu ft fs inst cls =
     Inr (map (\<lambda>g. [g])
       (filter (\<lambda>g. is_image_candidate g \<and> passes_common tu ft fs g \<and>
                     passes_image_uids inst cls g) groups))"
proof -
  have "\<forall>g \<in> set groups. is_measurement_group g"
    using find_measurement_groups_are_groups [OF assms(1)] by blast
  from image_loop_total [OF this assms(2)] assms(1) show ?thesis
    by (simp add: get_image_measurement_groups_def)
qed

text \<open>
  C2, as amended. Both getters walk the measurement groups of the report in document order
  and keep a candidate (a group of the requested kind: by its template identifier when it
  has one, by the classification heuristic otherwise) exactly when it passes every supplied
  filter; the result holds one single-item sequence per kept group.
  \<^item> Whenever \<^verbatim>\<open>get_planar_roi_measurement_groups\<close> returns, it returns exactly the planar
    candidates that pass the three common filters and the filters on the ROI reference.
  \<^item> It does return when the combination of filters is accepted by its validation and the
    reads it makes of the groups succeed: every group without template identifier has a
    content sequence; if a common filter is supplied, so has every planar candidate; if a
    filter on the ROI reference is supplied, the ROI reference of every planar candidate
    can be read. With no filter it returns all planar candidates.
  \<^item> A combination of filters that the validation rejects raises the error of the
    validation, and an error of the search for the measurement groups is the error of the
    call.
  \<^item> Whenever \<^verbatim>\<open>get_image_measurement_groups\<close> returns, it returns exactly the candidates
    of TID 1501 that pass the supplied filters. It does return when every group without
    template identifier has a content sequence and, if a filter is supplied, so has every
    candidate. With no filter it returns all such candidates.
\<close>

theorem measurement_group_queries:
  "(get_planar_roi_measurement_groups self tu ft fs rt gt inst cls = Inr seqs \<longrightarrow>
      (\<exists>found. find_measurement_groups self = Inr found \<and>
         seqs = map (\<lambda>g. [g])
           (filter (\<lambda>g. is_planar_candidate g \<and> passes_common tu ft fs g \<and>
                         passes_planar_reference rt gt inst cls g) found))) \<and>
   (find_measurement_groups self = Inr groups \<and> check_planar_query rt gt inst cls = None \<and>
    planar_readable tu ft fs rt gt inst cls groups \<longrightarrow>
      get_planar_roi_measurement_groups self tu ft fs rt gt inst cls =
        Inr (map (\<lambda>g. [g])
          (filter (\<lambda>g. is_planar_candidate g \<and> passes_common tu ft fs g \<and>
                        passes_planar_reference rt gt inst cls g) groups))) \<and>
   (find_measurement_groups self = Inr groups \<and> classifiable groups \<longrightarrow>
      get_planar_roi_measurement_groups self None None None None None None None =
        Inr (map (\<lambda>g. [g]) (filter is_planar_candidate groups))) \<and>
   (check_planar_query rt gt inst cls = Some e \<longrightarrow>
      get_planar_roi_measurement_groups self tu ft fs rt gt inst cls = Inl e) \<and>
   (check_planar_query rt gt inst cls = None \<and> find_measurement_groups self = Inl e \<longrightarrow>
      get_planar_roi_measurement_groups self tu ft fs rt gt inst cls = Inl e) \<and>
   (get_image_measurement_groups self tu ft fs inst cls = Inr seqs' \<longrightarrow>
      (\<exists>found. find_measurement_groups self = Inr found \<and>
         seqs' = map (\<lambda>g. [g])
           (filter (\<lambda>g. is_image_candidate g \<and> passes_common tu ft fs g \<and>
                         passes_image_uids inst cls g) found))) \<and>
   (find_measurement_groups self = Inr groups \<and> image_readable tu ft fs inst cls groups \<longrightarrow>
      get_image_measurement_groups self tu ft fs inst cls =
        Inr (map (\<lambda>g. [g])
          (filter (\<lambda>g. is_image_candidate g \<and> passes_common tu ft fs g \<and>
                        passes_image_uids inst cls g) groups))) \<and>
   (find_measurement_groups self = Inr groups \<and> classifiable groups \<longrightarrow>
      get_image_measurement_groups self None None None None None =
        Inr (map (\<lambda>g. [g]) (filter is_image_candidate groups))) \<and>
   (find_measurement_groups self = Inl e \<longrightarrow>
      get_image_measurement_groups self tu ft fs inst cls = Inl e)"
proof -
  have 1: "get_planar_roi_measurement_groups self tu ft fs rt gt inst cls = Inr seqs \<longrightarrow>
      (\<exists>found. find_measurement_groups self = Inr found \<and>
         seqs = map (\<lambda>g. [g])
           (filter (\<lambda>g. is_planar_candidate g \<and> passes_common tu ft fs g \<and>
                         passes_planar_reference rt gt inst cls g) found))"
    using planar_getter_returns by blast
  have 2: "find_measurement_groups self = Inr groups \<and>
    check_planar_query rt gt inst cls = None \<and>
    planar_readable tu ft fs rt gt inst cls groups \<longrightarrow>
      get_planar_roi_measurement_groups self tu ft fs rt gt inst cls =
        Inr (map (\<lambda>g. [g])
          (filter (\<lambda>g. is_planar_candidate g \<and> passes_common tu ft fs g \<and>
                        passes_planar_reference rt gt inst cls g) groups))"
    using planar_getter_total by blast
  have 3: "find_measurement_groups self = Inr groups \<and> classifiable groups \<longrightarrow>
      get_planar_roi_measurement_groups self None None None None None None None =
        Inr (map (\<lambda>g. [g]) (filter is_planar_candidate groups))"
    using planar_getter_total [of self groups None None None None None None None]
    by (simp add: check_planar_query_none planar_readable_none passes_no_filter)
  have 4: "check_planar_query rt gt inst cls = Some e \<longrightarrow>
      get_planar_roi_measurement_groups self tu ft fs rt gt inst cls = Inl e"
    by (simp add: get_planar_roi_measurement_groups_def)
  have 5: "check_planar_query rt gt inst cls = None \<and> find_measurement_groups self = Inl e \<longrightarrow>
      get_planar_roi_measurement_groups self tu ft fs rt gt inst cls = Inl e"
    by (simp add: get_planar_roi_measurement_groups_def)
  have 6: "get_image_measurement_groups self tu ft fs inst cls = Inr seqs' \<longrightarrow>
      (\<exists>found. find_measurement_groups self = Inr found \<and>
         seqs' = map (\<lambda>g. [g])
           (filter (\<lambda>g. is_image_candidate g \<and> passes_common tu ft fs g \<and>
                         passes_image_uids inst cls g) found))"
    using image_getter_returns by blast
  have 7: "find_measurement_groups self = Inr groups \<and>
    image_readable tu ft fs inst cls groups \<longrightarrow>
      get_image_measurement_groups self tu ft fs inst cls =
        Inr (map (\<lambda>g. [g])
          (filter (\<lambda>g. is_image_candidate g \<and> passes_common tu ft fs g \<and>
                        passes_image_uids inst cls g) groups))"
    using image_getter_total by blast
  have 8: "find_measurement_groups self = Inr groups \<and> classifiable groups \<longrightarrow>
      get_image_measurement_groups self None None None None None =
        Inr (map (\<lambda>g. [g]) (filter is_image_candidate groups))"
    using image_getter_total [of self groups None None None None None]
    by (simp add: image_readable_none passes_no_filter)
  have 9: "find_measurement_groups self = Inl e \<longrightarrow>
      get_image_measurement_groups self tu ft fs inst cls = Inl e"
    by (simp add: get_image_measurement_groups_def)
  from 1 2 3 4 5 6 7 8 9 show ?thesis by (intro conjI)
qed


lemma find_groups_example:
  "find_measurement_groups [report_root [procedure_item, imaging_measurements groups]] =
     Inr (filter is_measurement_group groups)"
proof -
  have "filter (\<lambda>item. code_eq (name item) DCM_MeasurementGroup \<and> value_type item = CONTAINER)
      groups = filter is_measurement_group groups"
    by (rule filter_cong) (auto simp add: is_measurement_group_def)
  then show ?thesis
    by (simp add: find_measurement_groups_def find_content_items_def report_root_def
        imaging_measurements_def procedure_item_def value_type_def
        DCM_ImagingMeasurements_def DCM_MeasurementGroup_def)
qed

lemma template_id_measurement_group_of: "template_id (measurement_group_of tid c) = tid"
  by (simp add: measurement_group_of_def)

lemma planar_reference_example:
  "get_planar_roi_reference_item (measurement_group_of (Some ''1410'') [scoord_region]) =
     Inr (Some DCM_ImageRegion, scoord_region)"
  "get_planar_roi_reference_item (measurement_group_of (Some ''1410'') []) =
     Inl (RuntimeError ''No content item representing a valid ROI reference was found.'')"
  by (simp_all add: get_planar_roi_reference_item_def get_roi_reference_items_def
      planar_allowed_roi_reference_types_def code_in_def ref_type_value_type_map_def
      scoord_region_def value_type_def concept_defs)

text \<open>
  The amended C2 on two reports. In the first, the scenario of the specification, the
  imaging measurements hold two groups of TID 1501 with finding sites A and B, and
  \<^verbatim>\<open>get_image_measurement_groups(finding_site=A)\<close> returns only the first. In the second they
  hold a planar group with an image region and a group of TID 1501: the planar getter
  returns the planar group, with no filter and with \<^verbatim>\<open>reference_type\<close> Image Region, and
  raises \<^verbatim>\<open>ValueError\<close> when a graphic type is combined with the reference type Referenced
  Segmentation Frame.
\<close>

theorem measurement_group_queries_witness:
  "get_image_measurement_groups
     [report_root [procedure_item,
        imaging_measurements [measurement_group_of (Some ''1501'') [finding_site_item site_A],
                              measurement_group_of (Some ''1501'') [finding_site_item site_B]]]]
     None None (Some site_A) None None =
     Inr [[measurement_group_of (Some ''1501'') [finding_site_item site_A]]] \<and>
   get_planar_roi_measurement_groups
     [report_root [procedure_item,
        imaging_measurements [measurement_group_of (Some ''1410'') [scoord_region],
                              measurement_group_of (Some ''1501'') [finding_site_item site_B]]]]
     None None None None None None None =
     Inr [[measurement_group_of (Some ''1410'') [scoord_region]]] \<and>
   get_planar_roi_measurement_groups
     [report_root [procedure_item,
        imaging_measurements [measurement_group_of (Some ''1410'') [scoord_region],
                              measurement_group_of (Some ''1501'') [finding_site_item site_B]]]]
     None None None (Some DCM_ImageRegion) None None None =
     Inr [[measurement_group_of (Some ''1410'') [scoord_region]]] \<and>
   get_planar_roi_measurement_groups
     [report_root [procedure_item,
        imaging_measurements [measurement_group_of (Some ''1410'') [scoord_region],
                              measurement_group_of (Some ''1501'') [finding_site_item site_B]]]]
     None None None (Some DCM_ReferencedSegmentationFrame) (Some (GraphicTypeValues POINT))
     None None =
     Inl (ValueError ''Specifying a graphic type is invalid when using this reference type.'')"
proof -
  let ?hA = "measurement_group_of (Some ''1501'') [finding_site_item site_A]"
  let ?hB = "measurement_group_of (Some ''1501'') [finding_site_item site_B]"
  let ?p = "measurement_group_of (Some ''1410'') [scoord_region]"
  let ?r1 = "[report_root [procedure_item, imaging_measurements [?hA, ?hB]]]"
  let ?r2 = "[report_root [procedure_item, imaging_measurements [?p, ?hB]]]"
  note t = template_id_measurement_group_of
  have f1: "find_measurement_groups ?r1 = Inr [?hA, ?hB]"
    and f2: "find_measurement_groups ?r2 = Inr [?p, ?hB]"
    by (simp_all add: find_groups_example)
  have c: "classifiable [measurement_group_of (Some a) x, measurement_group_of (Some b) y]"
    for a b x y
    by (simp add: classifiable_def t)
  have ir: "image_readable None None (Some site_A) None None [?hA, ?hB]"
    by (simp add: image_readable_def c)
  have q: "check_planar_query (Some DCM_ImageRegion) None None None = None"
    by (simp add: check_planar_query_def planar_allowed_roi_reference_types_def code_in_def)
  have q': "check_planar_query (Some DCM_ReferencedSegmentationFrame)
      (Some (GraphicTypeValues POINT)) None None =
      Some (ValueError ''Specifying a graphic type is invalid when using this reference type.'')"
    by (simp add: check_planar_query_def planar_allowed_roi_reference_types_def code_in_def
        concept_defs)
  have pr: "planar_readable None None None (Some DCM_ImageRegion) None None None [?p, ?hB]"
    by (simp add: planar_readable_def c no_common_filter_def reference_readable_def
        planar_reference_example is_planar_candidate_def t)
  note image = measurement_group_queries
    [where self = ?r1 and groups = "[?hA, ?hB]" and tu = None and ft = None
       and fs = "Some site_A" and inst = None and cls = None,
     THEN conjunct2, THEN conjunct2, THEN conjunct2, THEN conjunct2, THEN conjunct2,
     THEN conjunct2, THEN conjunct1, rule_format]
  note planar_all = measurement_group_queries
    [where self = ?r2 and groups = "[?p, ?hB]",
     THEN conjunct2, THEN conjunct2, THEN conjunct1, rule_format]
  note planar_ref = measurement_group_queries
    [where self = ?r2 and groups = "[?p, ?hB]" and tu = None and ft = None and fs = None
       and rt = "Some DCM_ImageRegion" and gt = None and inst = None and cls = None,
     THEN conjunct2, THEN conjunct1, rule_format]
  note planar_rejects = measurement_group_queries
    [where self = ?r2 and tu = None and ft = None and fs = None
       and rt = "Some DCM_ReferencedSegmentationFrame"
       and gt = "Some (GraphicTypeValues POINT)" and inst = None and cls = None,
     THEN conjunct2, THEN conjunct2, THEN conjunct2, THEN conjunct1, rule_format]
  have siteA: "contains_code_items ?hA SCT_FindingSite (Some site_A) (Some HAS_CONCEPT_MOD) =
      Inr True"
    and siteB: "contains_code_items ?hB SCT_FindingSite (Some site_A) (Some HAS_CONCEPT_MOD) =
      Inr False"
    by (simp_all add: contains_code_items_def find_content_items_def finding_site_item_def
        value_type_def value_is_def site_A_def site_B_def SCT_FindingSite_def)
  have 1: "get_image_measurement_groups ?r1 None None (Some site_A) None None = Inr [[?hA]]"
    using image [OF conjI [OF f1 ir]]
    by (simp add: is_image_candidate_def t passes_common_def passes_image_uids_def siteA siteB)
  have 2: "get_planar_roi_measurement_groups ?r2 None None None None None None None =
      Inr [[?p]]"
    using planar_all [OF conjI [OF f2 c]]
    by (simp add: is_planar_candidate_def t)
  have 3: "get_planar_roi_measurement_groups ?r2 None None None (Some DCM_ImageRegion) None
      None None = Inr [[?p]]"
    using planar_ref [OF conjI [OF f2 conjI [OF q pr]]]
    by (simp add: is_planar_candidate_def t passes_no_filter passes_planar_reference_def
        planar_reference_example opt_code_eq_def)
  note 4 = planar_rejects [OF q']
  from 1 2 3 4 show ?thesis by (intro conjI)
qed

text \<open>
  C2, the claim as stated fails: the planar getter does not return for every report and
  every combination of filters. On a report whose imaging measurements hold a group of TID
  1410 with an image region followed by a group of TID 1410 that holds no ROI reference,
  the first group is a planar candidate and passes the one supplied filter,
  \<^verbatim>\<open>reference_type\<close> Image Region; the call raises \<^verbatim>\<open>RuntimeError\<close> at the second group
  and returns no group at all.
\<close>

theorem planar_query_raises_counterexample:
  "find_measurement_groups
     [report_root [procedure_item,
        imaging_measurements [measurement_group_of (Some ''1410'') [scoord_region],
                              measurement_group_of (Some ''1410'') []]]] =
     Inr [measurement_group_of (Some ''1410'') [scoord_region],
          measurement_group_of (Some ''1410'') []] \<and>
   is_planar_candidate (measurement_group_of (Some ''1410'') [scoord_region]) \<and>
   passes_common None None None (measurement_group_of (Some ''1410'') [scoord_region]) \<and>
   passes_planar_reference (Some DCM_ImageRegion) None None None
     (measurement_group_of (Some ''1410'') [scoord_region]) \<and>
   get_planar_roi_measurement_groups
     [report_root [procedure_item,
        imaging_measurements [measurement_group_of (Some ''1410'') [scoord_region],
                              measurement_group_of (Some ''1410'') []]]]
     None None None (Some DCM_ImageRegion) None None None =
     Inl (RuntimeError ''No content item representing a valid ROI reference was found.'')"
proof -
  note t = template_id_measurement_group_of
  have q: "check_planar_query (Some DCM_ImageRegion) None None None = None"
    by (simp add: check_planar_query_def planar_allowed_roi_reference_types_def code_in_def)
  have f2: "find_measurement_groups
     [report_root [procedure_item,
        imaging_measurements [measurement_group_of (Some ''1410'') [scoord_region],
                              measurement_group_of (Some ''1410'') []]]] =
     Inr [measurement_group_of (Some ''1410'') [scoord_region],
          measurement_group_of (Some ''1410'') []]"
    by (simp add: find_groups_example)
  have 1: "is_planar_candidate (measurement_group_of (Some ''1410'') [scoord_region])"
    by (simp add: is_planar_candidate_def t)
  have 2: "passes_common None None None (measurement_group_of (Some ''1410'') [scoord_region])"
    by (simp add: passes_common_def)
  have 3: "passes_planar_reference (Some DCM_ImageRegion) None None None
     (measurement_group_of (Some ''1410'') [scoord_region])"
    by (simp add: passes_planar_reference_def planar_reference_example opt_code_eq_def)
  have e2: "get_planar_roi_measurement_groups
     [report_root [procedure_item,
        imaging_measurements [measurement_group_of (Some ''1410'') [scoord_region],
                              measurement_group_of (Some ''1410'') []]]]
     None None None (Some DCM_ImageRegion) None None None =
     Inl (RuntimeError ''No content item representing a valid ROI reference was found.'')"
    by (simp add: get_planar_roi_measurement_groups_def q f2 t
        planar_reference_matches_def planar_reference_example common_matches_no_filter
        opt_code_eq_def from_sequence_group)
  from f2 1 2 3 e2 show ?thesis by (intro conjI)
qed

end
